theory Spec2Isabelle
  imports Complex_Main
begin

section \<open>Pixel-Forge PvP: the combat-match engine\<close>

text \<open>
  A shallow embedding of
  \<^item> \<^verbatim>\<open>pvp-web/shared/types/game_types.py\<close> (the data model),
  \<^item> \<^verbatim>\<open>pvp-web/backend/app/services/physics_engine.py\<close>,
  \<^item> \<^verbatim>\<open>pvp-web/backend/app/services/match_manager.py\<close>,
  \<^item> \<^verbatim>\<open>pvp-web/backend/app/services/weapon_generator.py\<close>,
  \<^item> the handlers \<^verbatim>\<open>handle_weapon_generation\<close> and \<^verbatim>\<open>handle_weapon_use\<close> of
    \<^verbatim>\<open>pvp-web/backend/app/main.py\<close>.

  Conventions of the embedding.
  \<^item> Python \<^verbatim>\<open>int\<close> is \<open>int\<close>. Python \<^verbatim>\<open>float\<close> is \<open>real\<close>: arithmetic is exact, rounding
    of binary floating point is not modelled.
  \<^item> \<^verbatim>\<open>time.time()\<close> is a parameter \<open>now\<close> of every operation that reads the clock; one
    operation reads one instant.
  \<^item> Objects mutated in place inside a list (\<^verbatim>\<open>player.health = ...\<close>) are list updates at the
    index of the object.
  \<^item> A \<^verbatim>\<open>try/except\<close> that logs and continues is the branch of the model that returns the
    state reached so far.
  \<^item> The position and velocity dictionaries always hold the two keys \<^verbatim>\<open>"x"\<close> and \<^verbatim>\<open>"y"\<close>;
    they are two fields each. Sprite images and display names are left out.
  \<^item> A match id \<^verbatim>\<open>f"match_{n}"\<close> and a projectile id \<^verbatim>\<open>f"proj_{n}"\<close> are the integer \<open>n\<close>.
  \<^item> The manager's dictionary of matches is followed for one match: every operation of
    the manager addresses one match by its id, and \<^verbatim>\<open>update_matches\<close> runs the same body
    for each match in turn.
\<close>

subsection \<open>Data model (game\_types.py)\<close>

datatype WeaponCategory = PROJECTILE | MELEE | AREA_EFFECT | UTILITY | MAGIC

datatype PhysicsModType = GRAVITY | FRICTION | BOUNCE | TIME_SCALE | WEAPON_BEHAVIOR

datatype MatchStatus = WAITING | STARTING | ACTIVE | FINISHED | CANCELLED

record WeaponProperties =
  damage :: int
  speed :: int
  range_stat :: int
  ammo :: int
  cooldown :: int
  special_effect :: string

record Weapon =
  w_id :: string
  w_category :: WeaponCategory
  w_properties :: WeaponProperties
  w_generated_at :: real
  w_balance_score :: real
  w_player_id :: string

record PhysicsModification =
  mod_type :: PhysicsModType
  mod_description :: string
  mod_parameters :: "string \<rightharpoonup> real"
  mod_duration :: real
  mod_start_time :: real

record PlayerState =
  p_id :: string
  health :: int
  pos_x :: real
  pos_y :: real
  vel_x :: real
  vel_y :: real
  weapons :: "Weapon list"
  weapon_cooldown :: real
  is_alive :: bool
  kills :: int
  deaths :: int

record Projectile =
  pr_id :: int
  pr_weapon_id :: string
  pr_player_id :: string
  pr_x :: real
  pr_y :: real
  pr_vx :: real
  pr_vy :: real
  pr_damage :: int
  created_at :: real
  expires_at :: real

record MatchState =
  m_id :: int
  status :: MatchStatus
  players :: "PlayerState list"
  projectiles :: "Projectile list"
  start_time :: "real option"
  end_time :: "real option"
  winner_id :: "string option"
  last_master_prompt :: real

text \<open>Python's \<^verbatim>\<open>int(x)\<close> on a float truncates toward zero.\<close>

definition py_int :: "real \<Rightarrow> int" where
  "py_int x = (if 0 \<le> x then \<lfloor>x\<rfloor> else \<lceil>x\<rceil>)"

text \<open>\<^verbatim>\<open>PhysicsModification.is_active\<close>: \<^verbatim>\<open>time.time() < start_time + duration\<close>.\<close>

definition is_active :: "real \<Rightarrow> PhysicsModification \<Rightarrow> bool" where
  "is_active now m = (now < mod_start_time m + mod_duration m)"

subsection \<open>Physics engine (physics\_engine.py)\<close>

text \<open>
  \<^verbatim>\<open>PhysicsEngine.active_modifications\<close> is a dictionary from match id to the list of that
  match's modifications, in arrival order.
\<close>

type_synonym engine = "int \<rightharpoonup> PhysicsModification list"

text \<open>The dictionary returned by \<^verbatim>\<open>calculate_current_physics\<close>, one field per key.\<close>

record Physics =
  gravity :: real
  friction :: real
  restitution :: real
  time_scale :: real
  damage_multiplier :: real
  cooldown_multiplier :: real
  size_multiplier :: real

definition base_physics :: Physics where
  "base_physics = \<lparr>gravity = 800, friction = 0.8, restitution = 0.3, time_scale = 1,
     damage_multiplier = 1, cooldown_multiplier = 1, size_multiplier = 1\<rparr>"

text \<open>\<^verbatim>\<open>d.get(k, default)\<close>.\<close>

definition dict_get :: "('k \<rightharpoonup> 'v) \<Rightarrow> 'k \<Rightarrow> 'v \<Rightarrow> 'v" where
  "dict_get d k dflt = (case d k of None \<Rightarrow> dflt | Some v \<Rightarrow> v)"

text \<open>
  \<^verbatim>\<open>get_active_modifications\<close>: an unknown match gives the empty list and leaves the engine
  alone; otherwise the expired modifications are dropped from the stored list, and the
  remaining ones are returned.
\<close>

definition get_active_modifications ::
  "real \<Rightarrow> int \<Rightarrow> engine \<Rightarrow> PhysicsModification list \<times> engine" where
  "get_active_modifications now match_id eng =
     (case eng match_id of
        None \<Rightarrow> ([], eng)
      | Some ms \<Rightarrow>
          (let active_mods = filter (is_active now) ms
           in (active_mods, eng(match_id \<mapsto> active_mods))))"

text \<open>The body of the loop of \<^verbatim>\<open>calculate_current_physics\<close>, for one modification.\<close>

definition apply_modification :: "Physics \<Rightarrow> PhysicsModification \<Rightarrow> Physics" where
  "apply_modification physics m =
     (case mod_type m of
        GRAVITY \<Rightarrow>
          physics\<lparr>gravity := gravity physics * dict_get (mod_parameters m) ''multiplier'' 1\<rparr>
      | FRICTION \<Rightarrow>
          physics\<lparr>friction := friction physics * dict_get (mod_parameters m) ''multiplier'' 1\<rparr>
      | BOUNCE \<Rightarrow>
          physics\<lparr>restitution :=
            restitution physics * dict_get (mod_parameters m) ''multiplier'' 1\<rparr>
      | TIME_SCALE \<Rightarrow>
          physics\<lparr>time_scale := dict_get (mod_parameters m) ''scale'' 1\<rparr>
      | WEAPON_BEHAVIOR \<Rightarrow>
          (let p1 = (case mod_parameters m ''damage_multiplier'' of
                       None \<Rightarrow> physics
                     | Some v \<Rightarrow> physics\<lparr>damage_multiplier := damage_multiplier physics * v\<rparr>);
               p2 = (case mod_parameters m ''cooldown_multiplier'' of
                       None \<Rightarrow> p1
                     | Some v \<Rightarrow> p1\<lparr>cooldown_multiplier := cooldown_multiplier p1 * v\<rparr>);
               p3 = (case mod_parameters m ''size_multiplier'' of
                       None \<Rightarrow> p2
                     | Some v \<Rightarrow> p2\<lparr>size_multiplier := size_multiplier p2 * v\<rparr>)
           in p3))"

definition calculate_current_physics :: "real \<Rightarrow> int \<Rightarrow> engine \<Rightarrow> Physics \<times> engine" where
  "calculate_current_physics now match_id eng =
     (let (active_mods, eng') = get_active_modifications now match_id eng
      in (foldl apply_modification base_physics active_mods, eng'))"

text \<open>\<^verbatim>\<open>remove_match_modifications\<close>.\<close>

definition remove_match_modifications :: "int \<Rightarrow> engine \<Rightarrow> engine" where
  "remove_match_modifications match_id eng = eng(match_id := None)"

subsection \<open>Match state queries (game\_types.py)\<close>

text \<open>
  \<^verbatim>\<open>get_duration\<close>. A start time that is \<^verbatim>\<open>None\<close> or \<^verbatim>\<open>0.0\<close> is falsy and gives \<open>0\<close>;
  \<^verbatim>\<open>self.end_time or time.time()\<close> takes the clock when the end time is \<^verbatim>\<open>None\<close> or \<^verbatim>\<open>0.0\<close>.
\<close>

definition get_duration :: "real \<Rightarrow> MatchState \<Rightarrow> real" where
  "get_duration now m =
     (case start_time m of
        None \<Rightarrow> 0
      | Some s \<Rightarrow>
          if s = 0 then 0
          else (case end_time m of
                  None \<Rightarrow> now
                | Some e \<Rightarrow> if e = 0 then now else e) - s)"

definition alive_players :: "MatchState \<Rightarrow> PlayerState list" where
  "alive_players m = filter is_alive (players m)"

definition is_finished :: "real \<Rightarrow> MatchState \<Rightarrow> bool" where
  "is_finished now m =
     (length (alive_players m) \<le> 1 \<or> get_duration now m > 90 \<or> status m = FINISHED)"

text \<open>
  Python's \<^verbatim>\<open>max(xs, key=k)\<close>: the running best is replaced only by a strictly larger key,
  so the first maximal element is returned; the empty list raises (\<open>None\<close>).
\<close>

fun max_by :: "('a \<Rightarrow> int) \<Rightarrow> 'a \<Rightarrow> 'a list \<Rightarrow> 'a" where
  "max_by key best [] = best"
| "max_by key best (x # xs) = max_by key (if key x > key best then x else best) xs"

definition py_max :: "('a \<Rightarrow> int) \<Rightarrow> 'a list \<Rightarrow> 'a option" where
  "py_max key xs = (case xs of [] \<Rightarrow> None | x # rest \<Rightarrow> Some (max_by key x rest))"

definition get_winner :: "real \<Rightarrow> MatchState \<Rightarrow> PlayerState option" where
  "get_winner now m =
     (let alive = alive_players m
      in if length alive = 1 then (case alive of [] \<Rightarrow> None | p # _ \<Rightarrow> Some p)
         else if length alive = 0 then
           (if players m \<noteq> [] then py_max kills (players m) else None)
         else if get_duration now m > 90 then py_max health (players m)
         else None)"

subsection \<open>Match manager (match\_manager.py)\<close>

text \<open>
  The state one match lives in: the match itself, the physics engine's modification lists,
  the manager's \<^verbatim>\<open>player_match_map\<close>, and the weapon generator's cache (used by the handlers
  of \<^verbatim>\<open>main.py\<close>), keyed by the hash of the normalised prompt.
\<close>

record world =
  wmatch :: MatchState
  wengine :: engine
  player_match_map :: "string \<rightharpoonup> int"
  wcache :: "string \<rightharpoonup> Weapon"

text \<open>The index of the first element that satisfies a test: a \<^verbatim>\<open>for\<close> loop left at its first hit.\<close>

fun first_index :: "('a \<Rightarrow> bool) \<Rightarrow> 'a list \<Rightarrow> nat option" where
  "first_index P [] = None"
| "first_index P (x # xs) = (if P x then Some 0 else map_option Suc (first_index P xs))"

text \<open>\<^verbatim>\<open>get_player_state\<close>: the first player of the match with the given id, as its index.\<close>

definition get_player_state :: "MatchState \<Rightarrow> string \<Rightarrow> nat option" where
  "get_player_state m player_id = first_index (\<lambda>p. p_id p = player_id) (players m)"

definition arena_width :: real where "arena_width = 1200"
definition arena_height :: real where "arena_height = 600"

text \<open>\<^verbatim>\<open>_end_match\<close>: the status and end time are written first, then the winner is looked up.\<close>

definition end_match :: "real \<Rightarrow> world \<Rightarrow> world" where
  "end_match now w =
     (let m1 = (wmatch w)\<lparr>status := FINISHED, end_time := Some now\<rparr>;
          m2 = (case get_winner now m1 of
                  None \<Rightarrow> m1
                | Some winner \<Rightarrow> m1\<lparr>winner_id := Some (p_id winner)\<rparr>)
      in w\<lparr>wmatch := m2, wengine := remove_match_modifications (m_id m2) (wengine w)\<rparr>)"

text \<open>\<^verbatim>\<open>_update_projectiles\<close>.\<close>

definition move_projectile :: "Physics \<Rightarrow> Projectile \<Rightarrow> Projectile" where
  "move_projectile physics pr =
     (let dt = 1 / 60;
          vy = pr_vy pr + gravity physics * dt;
          x = pr_x pr + pr_vx pr * dt * time_scale physics;
          y = pr_y pr + vy * dt * time_scale physics
      in pr\<lparr>pr_vy := vy, pr_x := x, pr_y := y\<rparr>)"

definition in_bounds :: "Projectile \<Rightarrow> bool" where
  "in_bounds pr = (0 \<le> pr_x pr \<and> pr_x pr \<le> arena_width \<and> 0 \<le> pr_y pr \<and> pr_y pr \<le> arena_height)"

definition is_expired :: "real \<Rightarrow> Projectile \<Rightarrow> bool" where
  "is_expired now pr = (now > expires_at pr)"

definition update_projectiles :: "real \<Rightarrow> world \<Rightarrow> world" where
  "update_projectiles now w =
     (let (physics, eng') = calculate_current_physics now (m_id (wmatch w)) (wengine w);
          active_projectiles =
            filter in_bounds
              (map (move_projectile physics)
                 (filter (\<lambda>pr. \<not> is_expired now pr) (projectiles (wmatch w))))
      in w\<lparr>wmatch := (wmatch w)\<lparr>projectiles := active_projectiles\<rparr>, wengine := eng'\<rparr>)"

text \<open>\<^verbatim>\<open>_check_projectile_player_collision\<close>: boxes of half-width 4 and 16.\<close>

definition check_projectile_player_collision :: "Projectile \<Rightarrow> PlayerState \<Rightarrow> bool" where
  "check_projectile_player_collision pr p =
     (pr_x pr + 4 > pos_x p - 16 \<and> pr_x pr - 4 < pos_x p + 16 \<and>
      pr_y pr + 4 > pos_y p - 16 \<and> pr_y pr - 4 < pos_y p + 16)"

text \<open>
  \<^verbatim>\<open>_apply_damage\<close> on the player at index \<open>i\<close> of the match. The shooter is looked up by
  \<^verbatim>\<open>get_player_state\<close> after the target has been updated.
\<close>

definition apply_damage :: "real \<Rightarrow> Projectile \<Rightarrow> nat \<Rightarrow> world \<Rightarrow> world" where
  "apply_damage now pr i w =
     (let m = wmatch w;
          (physics, eng') = calculate_current_physics now (m_id m) (wengine w);
          final_damage = py_int (real_of_int (pr_damage pr) * damage_multiplier physics);
          player = players m ! i;
          player1 = player\<lparr>health := max 0 (health player - final_damage)\<rparr>
      in if health player1 \<le> 0 then
           (let player2 = player1\<lparr>is_alive := False, deaths := deaths player1 + 1\<rparr>;
                m1 = m\<lparr>players := (players m)[i := player2]\<rparr>;
                m2 = (case get_player_state m1 (pr_player_id pr) of
                        None \<Rightarrow> m1
                      | Some j \<Rightarrow>
                          m1\<lparr>players :=
                            (players m1)[j := (players m1 ! j)\<lparr>kills := kills (players m1 ! j) + 1\<rparr>]\<rparr>)
            in w\<lparr>wmatch := m2, wengine := eng'\<rparr>)
         else w\<lparr>wmatch := m\<lparr>players := (players m)[i := player1]\<rparr>, wengine := eng'\<rparr>)"

text \<open>
  \<^verbatim>\<open>_check_collisions\<close>. The test of the inner loop; the inner loop for one projectile
  (left at the first player hit); the outer loop over a copy of the projectile list.
\<close>

definition collides :: "Projectile \<Rightarrow> PlayerState \<Rightarrow> bool" where
  "collides pr p =
     (p_id p \<noteq> pr_player_id pr \<and> is_alive p \<and> check_projectile_player_collision pr p)"

definition collide_projectile :: "real \<Rightarrow> world \<Rightarrow> Projectile \<Rightarrow> world" where
  "collide_projectile now w pr =
     (case first_index (collides pr) (players (wmatch w)) of
        None \<Rightarrow> w
      | Some i \<Rightarrow>
          (let w1 = apply_damage now pr i w
           in w1\<lparr>wmatch := (wmatch w1)\<lparr>projectiles := remove1 pr (projectiles (wmatch w1))\<rparr>\<rparr>))"

definition check_collisions :: "real \<Rightarrow> world \<Rightarrow> world" where
  "check_collisions now w = foldl (collide_projectile now) w (projectiles (wmatch w))"

text \<open>
  The body of the loop of \<^verbatim>\<open>update_matches\<close> for one match. \<open>None\<close> is the match deleted by
  \<^verbatim>\<open>_cleanup_match\<close>.
\<close>

definition update_match :: "real \<Rightarrow> world \<Rightarrow> world option" where
  "update_match now w =
     (let m = wmatch w
      in if status m = ACTIVE then
           (let w1 = update_projectiles now w;
                w2 = check_collisions now w1
            in if is_finished now (wmatch w2) then Some (end_match now w2) else Some w2)
         else if status m = FINISHED then
           (case end_time m of
              None \<Rightarrow> Some w
            | Some e \<Rightarrow> if e \<noteq> 0 \<and> now - e > 300 then None else Some w)
         else if status m = WAITING then
           (if now - (case start_time m of
                        None \<Rightarrow> now
                      | Some s \<Rightarrow> if s = 0 then now else s) > 120
            then None else Some w)
         else Some w)"

text \<open>\<^verbatim>\<open>start_match\<close>: refused (the state is left alone) with fewer than two players.\<close>

definition reset_player :: "PlayerState \<Rightarrow> PlayerState" where
  "reset_player p = p\<lparr>health := 100, is_alive := True, weapons := [], weapon_cooldown := 0\<rparr>"

definition start_match :: "real \<Rightarrow> world \<Rightarrow> world" where
  "start_match now w =
     (let m = wmatch w
      in if length (players m) < 2 then w
         else
           (let ps0 = players m;
                ps1 = ps0[0 := (ps0 ! 0)\<lparr>pos_x := 200, pos_y := 500\<rparr>];
                ps2 = ps1[1 := (ps1 ! 1)\<lparr>pos_x := 1000, pos_y := 500\<rparr>]
            in w\<lparr>wmatch := m\<lparr>status := ACTIVE, start_time := Some now,
                                last_master_prompt := now, players := map reset_player ps2\<rparr>\<rparr>))"

text \<open>
  \<^verbatim>\<open>find_or_create_match\<close>, seen from one match: a player already mapped to this match gets
  it back unchanged; a \<^verbatim>\<open>WAITING\<close> match with fewer than two players takes the player at
  the second starting position. In every other case the player ends up in another match
  and this one is left untouched.
\<close>

definition new_player :: "string \<Rightarrow> real \<Rightarrow> real \<Rightarrow> PlayerState" where
  "new_player player_id x y =
     \<lparr>p_id = player_id, health = 100, pos_x = x, pos_y = y, vel_x = 0, vel_y = 0,
      weapons = [], weapon_cooldown = 0, is_alive = True, kills = 0, deaths = 0\<rparr>"

definition create_match :: "real \<Rightarrow> string \<Rightarrow> world" where
  "create_match now player_id =
     (let match_id = py_int (now * 1000)
      in \<lparr>wmatch = \<lparr>m_id = match_id, status = WAITING,
                     players = [new_player player_id 200 500], projectiles = [],
                     start_time = None, end_time = None, winner_id = None,
                     last_master_prompt = 0\<rparr>,
          wengine = Map.empty,
          player_match_map = [player_id \<mapsto> match_id],
          wcache = Map.empty\<rparr>)"

definition join_match :: "string \<Rightarrow> world \<Rightarrow> world" where
  "join_match player_id w =
     (let m = wmatch w
      in if player_match_map w player_id = Some (m_id m) then w
         else if status m = WAITING \<and> length (players m) < 2 then
           w\<lparr>wmatch := m\<lparr>players := players m @ [new_player player_id 1000 500]\<rparr>,
             player_match_map := (player_match_map w)(player_id \<mapsto> m_id m)\<rparr>
         else w)"

text \<open>
  \<^verbatim>\<open>handle_player_input\<close>; the input dictionary is read at \<^verbatim>\<open>left\<close>, \<^verbatim>\<open>right\<close> and \<^verbatim>\<open>jump\<close>.
  The movement of the player found is \<open>move_player\<close>.
\<close>

record player_input =
  in_left :: bool
  in_right :: bool
  in_jump :: bool

definition move_player :: "Physics \<Rightarrow> player_input \<Rightarrow> PlayerState \<Rightarrow> PlayerState" where
  "move_player physics input_data player =
     (let move_speed = 200 * time_scale physics;
          vx = (if in_left input_data then - move_speed
                else if in_right input_data then move_speed
                else vel_x player * friction physics);
          vy = (if in_jump input_data \<and> \<bar>vel_y player\<bar> < 10
                then - 400 * time_scale physics else vel_y player);
          dt = 1 / 60;
          x = pos_x player + vx * dt;
          y = pos_y player + vy * dt;
          vy1 = vy + gravity physics * dt;
          y1 = (if y > 500 then 500 else y);
          vy2 = (if y > 500 then 0 else vy1);
          x2 = max 16 (min (arena_width - 16) x);
          y2 = max 16 (min (arena_height - 16) y1)
      in player\<lparr>vel_x := vx, vel_y := vy2, pos_x := x2, pos_y := y2\<rparr>)"

definition handle_player_input :: "real \<Rightarrow> string \<Rightarrow> player_input \<Rightarrow> world \<Rightarrow> world" where
  "handle_player_input now player_id input_data w =
     (let m = wmatch w
      in if status m \<noteq> ACTIVE then w
         else (case get_player_state m player_id of
                 None \<Rightarrow> w
               | Some i \<Rightarrow>
                   (let player = players m ! i
                    in if \<not> is_alive player then w
                       else
                         (let (physics, eng') =
                                calculate_current_physics now (m_id m) (wengine w);
                              player' = move_player physics input_data player
                          in w\<lparr>wmatch := m\<lparr>players := (players m)[i := player']\<rparr>,
                               wengine := eng'\<rparr>))))"

text \<open>
  \<^verbatim>\<open>_create_projectile\<close>. A target without \<^verbatim>\<open>"x"\<close> or \<^verbatim>\<open>"y"\<close> raises \<^verbatim>\<open>KeyError\<close>, a weapon of
  speed 0 raises \<^verbatim>\<open>ZeroDivisionError\<close>; both are caught and no projectile is made. The key
  \<^verbatim>\<open>direction_multiplier\<close> is never in the physics dictionary, so its default 1.0 is used.
\<close>

definition create_projectile ::
  "real \<Rightarrow> PlayerState \<Rightarrow> Weapon \<Rightarrow> (string \<rightharpoonup> real) \<Rightarrow> Physics \<Rightarrow> MatchState \<Rightarrow> MatchState" where
  "create_projectile now player weapon target_pos physics m =
     (case (target_pos ''x'', target_pos ''y'') of
        (Some tx, Some ty) \<Rightarrow>
          (let dx = tx - pos_x player;
               dy = ty - pos_y player;
               distance = sqrt (dx * dx + dy * dy)
           in if distance = 0 then m
              else
                (let direction_multiplier = 1;
                     projectile_speed = speed (w_properties weapon) * 5;
                     velocity_x = dx / distance * real_of_int projectile_speed * direction_multiplier;
                     velocity_y = dy / distance * real_of_int projectile_speed * direction_multiplier
                 in if projectile_speed = 0 then m
                    else
                      m\<lparr>projectiles := projectiles m @
                        [\<lparr>pr_id = py_int (now * 1000),
                          pr_weapon_id = w_id weapon,
                          pr_player_id = p_id player,
                          pr_x = pos_x player, pr_y = pos_y player,
                          pr_vx = velocity_x, pr_vy = velocity_y,
                          pr_damage = py_int (real_of_int (damage (w_properties weapon))
                                                * damage_multiplier physics),
                          created_at = now,
                          expires_at = now + real_of_int (range_stat (w_properties weapon))
                                               / real_of_int projectile_speed\<rparr>]\<rparr>))
      | _ \<Rightarrow> m)"

text \<open>
  \<^verbatim>\<open>_create_area_effect\<close>. The body of the loop for the player at index \<open>j\<close>, with the
  attacker at index \<open>i\<close>; then the loop. A target point without \<^verbatim>\<open>"x"\<close> or \<^verbatim>\<open>"y"\<close> raises
  \<^verbatim>\<open>KeyError\<close> at the first player that passes the test, before any damage.
\<close>

definition area_hit ::
  "nat \<Rightarrow> Weapon \<Rightarrow> real \<Rightarrow> real \<Rightarrow> Physics \<Rightarrow> PlayerState list \<Rightarrow> nat \<Rightarrow> PlayerState list" where
  "area_hit i weapon tx ty physics ps j =
     (let target_player = ps ! j
      in if p_id target_player \<noteq> p_id (ps ! i) \<and> is_alive target_player then
           (let dx = pos_x target_player - tx;
                dy = pos_y target_player - ty;
                distance = sqrt (dx * dx + dy * dy)
            in if distance \<le> real_of_int (range_stat (w_properties weapon)) then
                 (let dmg = py_int (real_of_int (damage (w_properties weapon))
                                      * damage_multiplier physics);
                      t1 = target_player\<lparr>health := max 0 (health target_player - dmg)\<rparr>
                  in if health t1 \<le> 0 then
                       (let ps1 = ps[j := t1\<lparr>is_alive := False, deaths := deaths t1 + 1\<rparr>]
                        in ps1[i := (ps1 ! i)\<lparr>kills := kills (ps1 ! i) + 1\<rparr>])
                     else ps[j := t1])
               else ps)
         else ps)"

definition create_area_effect ::
  "nat \<Rightarrow> Weapon \<Rightarrow> (string \<rightharpoonup> real) \<Rightarrow> Physics \<Rightarrow> MatchState \<Rightarrow> MatchState" where
  "create_area_effect i weapon target_pos physics m =
     (case (target_pos ''x'', target_pos ''y'') of
        (Some tx, Some ty) \<Rightarrow>
          m\<lparr>players := foldl (area_hit i weapon tx ty physics) (players m)
                          [0 ..< length (players m)]\<rparr>
      | _ \<Rightarrow> m)"

text \<open>\<^verbatim>\<open>use_weapon\<close>. No test reads the player's \<^verbatim>\<open>weapon_cooldown\<close>.\<close>

definition use_weapon ::
  "real \<Rightarrow> string \<Rightarrow> string \<Rightarrow> (string \<rightharpoonup> real) \<Rightarrow> world \<Rightarrow> world" where
  "use_weapon now player_id weapon_id target_position w =
     (let m = wmatch w
      in if status m \<noteq> ACTIVE then w
         else (case get_player_state m player_id of
                 None \<Rightarrow> w
               | Some i \<Rightarrow>
                   (let player = players m ! i
                    in if \<not> is_alive player then w
                       else (case find (\<lambda>x. w_id x = weapon_id) (weapons player) of
                               None \<Rightarrow> w
                             | Some weapon \<Rightarrow>
                                 (let (physics, eng') =
                                        calculate_current_physics now (m_id m) (wengine w);
                                      m1 = (if w_category weapon = PROJECTILE \<or> w_category weapon = MAGIC
                                            then create_projectile now player weapon target_position physics m
                                            else if w_category weapon = AREA_EFFECT
                                            then create_area_effect i weapon target_position physics m
                                            else m);
                                      p1 = players m1 ! i;
                                      p2 = p1\<lparr>weapon_cooldown :=
                                             now + real_of_int (cooldown (w_properties weapon)) / 1000
                                                     * cooldown_multiplier physics\<rparr>
                                  in w\<lparr>wmatch := m1\<lparr>players := (players m1)[i := p2]\<rparr>,
                                       wengine := eng'\<rparr>)))))"

text \<open>\<^verbatim>\<open>handle_weapon_use\<close> (main.py): the ids of the message must be truthy.\<close>

definition handle_weapon_use ::
  "real \<Rightarrow> string \<Rightarrow> string \<Rightarrow> (string \<rightharpoonup> real) \<Rightarrow> world \<Rightarrow> world" where
  "handle_weapon_use now player_id weapon_id target_position w =
     (if weapon_id \<noteq> [] then use_weapon now player_id weapon_id target_position w else w)"

text \<open>
  \<^verbatim>\<open>remove_player\<close>: only a player of \<^verbatim>\<open>player_match_map\<close> is removed; the match is looked up
  under the mapped id; the mapping is deleted in any case.
\<close>

definition remove_player :: "real \<Rightarrow> string \<Rightarrow> world \<Rightarrow> world" where
  "remove_player now player_id w =
     (case player_match_map w player_id of
        None \<Rightarrow> w
      | Some match_id \<Rightarrow>
          (let w1 =
             (if match_id = m_id (wmatch w) then
                (let m1 = (wmatch w)\<lparr>players := filter (\<lambda>p. p_id p \<noteq> player_id) (players (wmatch w))\<rparr>;
                     w' = w\<lparr>wmatch := m1\<rparr>
                 in if length (players m1) < 2 \<and> status m1 = ACTIVE
                    then end_match now w' else w')
              else w)
           in w1\<lparr>player_match_map := (player_match_map w1)(player_id := None)\<rparr>))"

subsection \<open>Strings\<close>

text \<open>
  Strings are ASCII text. \<^verbatim>\<open>str.strip\<close> and \<^verbatim>\<open>str.split\<close> cut at Python's white space (tab,
  line feed, vertical tab, form feed, carriage return, the four separators 28 to 31, and
  the space); \<^verbatim>\<open>str.lower\<close> maps \<open>A\<close> to \<open>Z\<close>; \<^verbatim>\<open>k in s\<close> is the substring test.
\<close>

definition is_space :: "char \<Rightarrow> bool" where
  "is_space c = (let n = (of_char c :: nat) in (9 \<le> n \<and> n \<le> 13) \<or> (28 \<le> n \<and> n \<le> 32))"

definition strip :: "string \<Rightarrow> string" where
  "strip s = rev (dropWhile is_space (rev (dropWhile is_space s)))"

definition lower_char :: "char \<Rightarrow> char" where
  "lower_char c =
     (let n = (of_char c :: nat) in if 65 \<le> n \<and> n \<le> 90 then char_of (n + 32) else c)"

definition lower :: "string \<Rightarrow> string" where
  "lower s = map lower_char s"

fun split_acc :: "string \<Rightarrow> string \<Rightarrow> string list" where
  "split_acc cur [] = (if cur = [] then [] else [rev cur])"
| "split_acc cur (c # cs) =
     (if is_space c then (if cur = [] then split_acc [] cs else rev cur # split_acc [] cs)
      else split_acc (c # cur) cs)"

definition split :: "string \<Rightarrow> string list" where
  "split s = split_acc [] s"

fun is_prefix :: "'a list \<Rightarrow> 'a list \<Rightarrow> bool" where
  "is_prefix [] ys = True"
| "is_prefix (x # xs) [] = False"
| "is_prefix (x # xs) (y # ys) = (x = y \<and> is_prefix xs ys)"

fun contains :: "'a list \<Rightarrow> 'a list \<Rightarrow> bool" where
  "contains k [] = (k = [])"
| "contains k (c # cs) = (is_prefix k (c # cs) \<or> contains k cs)"

subsection \<open>Weapon generator (weapon\_generator.py)\<close>

record template =
  t_name :: string
  t_category :: WeaponCategory
  t_keywords :: "string list"
  t_category_hints :: "string list"
  t_properties :: WeaponProperties

definition fire_sword :: template where
  "fire_sword = \<lparr>t_name = ''Fire Sword'', t_category = MELEE,
     t_keywords = [''fire'', ''flame'', ''sword'', ''blade'', ''burn''],
     t_category_hints = [''sword'', ''blade'', ''melee''],
     t_properties = \<lparr>damage = 65, speed = 70, range_stat = 40, ammo = 1,
                     cooldown = 2000, special_effect = ''burn_damage''\<rparr>\<rparr>"

definition ice_spear :: template where
  "ice_spear = \<lparr>t_name = ''Ice Spear'', t_category = PROJECTILE,
     t_keywords = [''ice'', ''frost'', ''spear'', ''cold'', ''freeze''],
     t_category_hints = [''spear'', ''arrow'', ''projectile''],
     t_properties = \<lparr>damage = 55, speed = 85, range_stat = 120, ammo = 8,
                     cooldown = 1800, special_effect = ''freeze_target''\<rparr>\<rparr>"

definition lightning_hammer :: template where
  "lightning_hammer = \<lparr>t_name = ''Lightning Hammer'', t_category = MELEE,
     t_keywords = [''lightning'', ''thunder'', ''hammer'', ''electric'', ''shock''],
     t_category_hints = [''hammer'', ''mace'', ''melee''],
     t_properties = \<lparr>damage = 75, speed = 45, range_stat = 50, ammo = 1,
                     cooldown = 2800, special_effect = ''area_lightning''\<rparr>\<rparr>"

definition poison_dagger :: template where
  "poison_dagger = \<lparr>t_name = ''Poison Dagger'', t_category = MELEE,
     t_keywords = [''poison'', ''toxic'', ''dagger'', ''venom'', ''green''],
     t_category_hints = [''dagger'', ''knife'', ''blade''],
     t_properties = \<lparr>damage = 40, speed = 90, range_stat = 30, ammo = 1,
                     cooldown = 1500, special_effect = ''poison_dot''\<rparr>\<rparr>"

definition magic_shield :: template where
  "magic_shield = \<lparr>t_name = ''Magic Shield'', t_category = UTILITY,
     t_keywords = [''shield'', ''protect'', ''defense'', ''magic'', ''barrier''],
     t_category_hints = [''shield'', ''defense'', ''utility''],
     t_properties = \<lparr>damage = 20, speed = 40, range_stat = 60, ammo = 1,
                     cooldown = 3500, special_effect = ''damage_reduction''\<rparr>\<rparr>"

definition explosive_bomb :: template where
  "explosive_bomb = \<lparr>t_name = ''Explosive Bomb'', t_category = AREA_EFFECT,
     t_keywords = [''bomb'', ''explosive'', ''boom'', ''blast'', ''explode''],
     t_category_hints = [''bomb'', ''grenade'', ''explosive''],
     t_properties = \<lparr>damage = 60, speed = 30, range_stat = 80, ammo = 3,
                     cooldown = 3000, special_effect = ''area_explosion''\<rparr>\<rparr>"

text \<open>\<^verbatim>\<open>_create_weapon_templates\<close>.\<close>

definition weapon_templates :: "template list" where
  "weapon_templates =
     [fire_sword, ice_spear, lightning_hammer, poison_dagger, magic_shield, explosive_bomb]"

text \<open>The score one template gets in \<^verbatim>\<open>_find_best_template\<close>.\<close>

definition template_score :: "string \<Rightarrow> template \<Rightarrow> int" where
  "template_score prompt t =
     (let prompt_words = split (lower prompt);
          template_name = lower (t_name t)
      in 3 * int (length (filter (\<lambda>word. contains word template_name) prompt_words))
         + 2 * int (length (filter (\<lambda>keyword. contains (lower keyword) prompt) (t_keywords t)))
         + int (length (filter (\<lambda>word. word \<in> set (t_category_hints t)) prompt_words)))"

text \<open>
  \<^verbatim>\<open>_find_best_template\<close>: the first template with the highest score, which must be
  positive; otherwise the first template of the list.
\<close>

definition best_step :: "string \<Rightarrow> template option \<times> int \<Rightarrow> template \<Rightarrow> template option \<times> int" where
  "best_step prompt acc t =
     (let score = template_score prompt t
      in if score > snd acc then (Some t, score) else acc)"

definition find_best_template :: "string \<Rightarrow> template option" where
  "find_best_template prompt =
     (let (best_match, best_score) = foldl (best_step prompt) (None, 0) weapon_templates
      in if best_score > 0 then best_match else Some fire_sword)"

text \<open>\<^verbatim>\<open>_calculate_balance_score\<close>.\<close>

definition effect_multiplier :: "string \<Rightarrow> real" where
  "effect_multiplier e =
     (if e = ''burn_damage'' then 1.2
      else if e = ''freeze_target'' then 1.15
      else if e = ''area_explosion'' then 1.3
      else if e = ''poison_dot'' then 1.25
      else if e = ''area_lightning'' then 1.25
      else if e = ''damage_reduction'' then 0.8
      else if e = ''none'' then 1.0
      else 1.0)"

definition calculate_balance_score :: "WeaponProperties \<Rightarrow> real" where
  "calculate_balance_score properties =
     (let damage_norm = real_of_int (damage properties) / 100;
          speed_norm = real_of_int (speed properties) / 100;
          range_norm = real_of_int (range_stat properties) / 200;
          cooldown_penalty = (5000 - real_of_int (cooldown properties)) / 5000;
          power_score = damage_norm * 0.4 + speed_norm * 0.3 + range_norm * 0.2
                          + cooldown_penalty * 0.1;
          balance_score = power_score * effect_multiplier (special_effect properties) * 100
      in min 100 (max 0 balance_score))"

text \<open>\<^verbatim>\<open>_apply_balance_nerf\<close>.\<close>

definition apply_balance_nerf :: "WeaponProperties \<Rightarrow> WeaponProperties" where
  "apply_balance_nerf properties =
     properties\<lparr>damage := py_int (real_of_int (damage properties) * 0.8),
                cooldown := py_int (real_of_int (cooldown properties) * 1.2)\<rparr>"

text \<open>\<^verbatim>\<open>_create_emergency_weapon\<close>; \<open>fresh\<close> is the new uuid.\<close>

definition create_emergency_weapon :: "real \<Rightarrow> string \<Rightarrow> string \<Rightarrow> Weapon" where
  "create_emergency_weapon now fresh player_id =
     \<lparr>w_id = fresh, w_category = PROJECTILE,
      w_properties = \<lparr>damage = 50, speed = 60, range_stat = 100, ammo = 10,
                      cooldown = 2000, special_effect = ''none''\<rparr>,
      w_generated_at = now, w_balance_score = 50, w_player_id = player_id\<rparr>"

text \<open>
  \<^verbatim>\<open>_generate_from_template\<close>. \<open>h\<close> is the value of Python's salted \<^verbatim>\<open>hash(prompt)\<close>; Python's
  \<^verbatim>\<open>%\<close> with a positive modulus is \<open>mod\<close>.
\<close>

definition generate_from_template :: "real \<Rightarrow> string \<Rightarrow> int \<Rightarrow> string \<Rightarrow> string \<Rightarrow> Weapon" where
  "generate_from_template now fresh h prompt player_id =
     (case find_best_template prompt of
        None \<Rightarrow> create_emergency_weapon now fresh player_id
      | Some best_template \<Rightarrow>
          (let properties = t_properties best_template;
               variation = h mod 20 - 10;
               properties1 = properties\<lparr>damage := max 15 (min 85 (damage properties + variation))\<rparr>;
               properties2 = properties1\<lparr>speed := max 20 (min 95 (speed properties1 + variation))\<rparr>
           in \<lparr>w_id = fresh, w_category = t_category best_template,
               w_properties = properties2, w_generated_at = now,
               w_balance_score = calculate_balance_score properties2,
               w_player_id = player_id\<rparr>))"

text \<open>
  \<^verbatim>\<open>_generate_with_ai\<close>. The external model's answer, once parsed from JSON, is a dictionary
  whose entries may be missing. \<open>None\<close> stands for every way the call gives no weapon: no
  model configured, a time-out, an exception, an answer that does not parse.
\<close>

record ai_response =
  ai_damage :: "int option"
  ai_speed :: "int option"
  ai_range :: "int option"
  ai_ammo :: "int option"
  ai_cooldown :: "int option"
  ai_special_effect :: "string option"
  ai_category :: "string option"

definition parse_category :: "string \<Rightarrow> WeaponCategory" where
  "parse_category category_str =
     (if category_str = ''projectile'' then PROJECTILE
      else if category_str = ''melee'' then MELEE
      else if category_str = ''area_effect'' then AREA_EFFECT
      else if category_str = ''utility'' then UTILITY
      else if category_str = ''magic'' then MAGIC
      else PROJECTILE)"

definition opt_get :: "'a option \<Rightarrow> 'a \<Rightarrow> 'a" where
  "opt_get v dflt = (case v of None \<Rightarrow> dflt | Some x \<Rightarrow> x)"

text \<open>
  The two steps of \<^verbatim>\<open>_generate_with_ai\<close> on the parsed answer: the properties are clamped;
  then the balance score is computed and a score above 80 is answered by one nerf.
\<close>

definition clamp_properties :: "ai_response \<Rightarrow> WeaponProperties" where
  "clamp_properties properties_data =
     \<lparr>damage = max 15 (min 85 (opt_get (ai_damage properties_data) 50)),
      speed = max 20 (min 95 (opt_get (ai_speed properties_data) 60)),
      range_stat = max 30 (min 180 (opt_get (ai_range properties_data) 100)),
      ammo = max 3 (min 25 (opt_get (ai_ammo properties_data) 10)),
      cooldown = max 1500 (min 4000 (opt_get (ai_cooldown properties_data) 2000)),
      special_effect = opt_get (ai_special_effect properties_data) ''none''\<rparr>"

definition balance_adjust :: "WeaponProperties \<Rightarrow> WeaponProperties \<times> real" where
  "balance_adjust properties =
     (let balance_score = calculate_balance_score properties
      in if balance_score > 80
         then (apply_balance_nerf properties,
               calculate_balance_score (apply_balance_nerf properties))
         else (properties, balance_score))"

definition generate_with_ai ::
  "real \<Rightarrow> string \<Rightarrow> ai_response option \<Rightarrow> string \<Rightarrow> Weapon option" where
  "generate_with_ai now fresh ai player_id =
     (case ai of
        None \<Rightarrow> None
      | Some properties_data \<Rightarrow>
          (let properties = clamp_properties properties_data;
               category = parse_category (lower (opt_get (ai_category properties_data) ''projectile''));
               (properties', balance_score) = balance_adjust properties
           in Some \<lparr>w_id = fresh, w_category = category, w_properties = properties',
                    w_generated_at = now, w_balance_score = balance_score,
                    w_player_id = player_id\<rparr>))"

text \<open>
  \<^verbatim>\<open>generate_weapon\<close>. The md5 digest of the normalised prompt is taken as injective: the
  cache is keyed by the normalised prompt. The result is the weapon (\<open>None\<close> for a blank
  prompt) and the cache.
\<close>

definition generate_weapon ::
  "real \<Rightarrow> string \<Rightarrow> ai_response option \<Rightarrow> int \<Rightarrow> string \<Rightarrow> string \<Rightarrow> (string \<rightharpoonup> Weapon)
     \<Rightarrow> Weapon option \<times> (string \<rightharpoonup> Weapon)" where
  "generate_weapon now fresh ai h prompt0 player_id cache =
     (if prompt0 = [] \<or> length (strip prompt0) = 0 then (None, cache)
      else
        (let prompt = lower (strip prompt0)
         in case cache prompt of
              Some weapon \<Rightarrow>
                (Some \<lparr>w_id = fresh, w_category = w_category weapon,
                       w_properties = w_properties weapon, w_generated_at = now,
                       w_balance_score = w_balance_score weapon, w_player_id = player_id\<rparr>,
                 cache)
            | None \<Rightarrow>
                (let weapon = (case generate_with_ai now fresh ai player_id of
                                 Some x \<Rightarrow> x
                               | None \<Rightarrow> generate_from_template now fresh h prompt player_id);
                     cache_weapon = weapon\<lparr>w_id := ''template'', w_player_id := ''template''\<rparr>
                 in (Some weapon, cache(prompt \<mapsto> cache_weapon)))))"

subsection \<open>Master prompts (physics\_engine.py)\<close>

record library_entry =
  l_type :: PhysicsModType
  l_description :: string
  l_keywords :: "string list"
  l_parameters :: "(string \<times> real) list"
  l_duration :: real

text \<open>\<^verbatim>\<open>_create_physics_library\<close>; the boolean \<^verbatim>\<open>True\<close> of a float dictionary is 1.\<close>

definition physics_library :: "library_entry list" where
  "physics_library =
   [\<lparr>l_type = GRAVITY, l_description = ''Low Gravity'',
     l_keywords = [''low gravity'', ''moon gravity'', ''float'', ''weightless''],
     l_parameters = [(''multiplier'', 0.3)], l_duration = 15\<rparr>,
    \<lparr>l_type = GRAVITY, l_description = ''High Gravity'',
     l_keywords = [''high gravity'', ''heavy gravity'', ''weight'', ''pull down''],
     l_parameters = [(''multiplier'', 2)], l_duration = 15\<rparr>,
    \<lparr>l_type = GRAVITY, l_description = ''Zero Gravity'',
     l_keywords = [''zero gravity'', ''no gravity'', ''space'', ''float free''],
     l_parameters = [(''multiplier'', 0)], l_duration = 10\<rparr>,
    \<lparr>l_type = GRAVITY, l_description = ''Reverse Gravity'',
     l_keywords = [''reverse gravity'', ''upside down'', ''gravity flip''],
     l_parameters = [(''multiplier'', - 1)], l_duration = 12\<rparr>,
    \<lparr>l_type = FRICTION, l_description = ''Ice Floor'',
     l_keywords = [''ice'', ''slippery'', ''slide'', ''slick'', ''smooth''],
     l_parameters = [(''multiplier'', 0.1)], l_duration = 20\<rparr>,
    \<lparr>l_type = FRICTION, l_description = ''Sticky Ground'',
     l_keywords = [''sticky'', ''mud'', ''tar'', ''glue'', ''slow movement''],
     l_parameters = [(''multiplier'', 3)], l_duration = 15\<rparr>,
    \<lparr>l_type = FRICTION, l_description = ''Super Slippery'',
     l_keywords = [''super slippery'', ''oil'', ''banana peel'', ''slide everywhere''],
     l_parameters = [(''multiplier'', 0.05)], l_duration = 18\<rparr>,
    \<lparr>l_type = BOUNCE, l_description = ''Bouncy World'',
     l_keywords = [''bouncy'', ''rubber'', ''trampoline'', ''bounce'', ''elastic''],
     l_parameters = [(''multiplier'', 2.5)], l_duration = 18\<rparr>,
    \<lparr>l_type = BOUNCE, l_description = ''Super Bouncy'',
     l_keywords = [''super bouncy'', ''mega bounce'', ''spring'', ''boing''],
     l_parameters = [(''multiplier'', 4)], l_duration = 15\<rparr>,
    \<lparr>l_type = BOUNCE, l_description = ''No Bounce'',
     l_keywords = [''no bounce'', ''dead bounce'', ''flat'', ''absorb''],
     l_parameters = [(''multiplier'', 0)], l_duration = 15\<rparr>,
    \<lparr>l_type = TIME_SCALE, l_description = ''Slow Motion'',
     l_keywords = [''slow motion'', ''bullet time'', ''matrix'', ''slow down''],
     l_parameters = [(''scale'', 0.5)], l_duration = 8\<rparr>,
    \<lparr>l_type = TIME_SCALE, l_description = ''Super Speed'',
     l_keywords = [''super speed'', ''fast forward'', ''speed up'', ''quick''],
     l_parameters = [(''scale'', 1.5)], l_duration = 12\<rparr>,
    \<lparr>l_type = TIME_SCALE, l_description = ''Hyper Speed'',
     l_keywords = [''hyper speed'', ''lightning fast'', ''blur'', ''sonic''],
     l_parameters = [(''scale'', 2)], l_duration = 6\<rparr>,
    \<lparr>l_type = WEAPON_BEHAVIOR, l_description = ''Double Damage'',
     l_keywords = [''double damage'', ''power up'', ''stronger'', ''boost''],
     l_parameters = [(''damage_multiplier'', 2)], l_duration = 12\<rparr>,
    \<lparr>l_type = WEAPON_BEHAVIOR, l_description = ''Rapid Fire'',
     l_keywords = [''rapid fire'', ''machine gun'', ''spray'', ''burst''],
     l_parameters = [(''cooldown_multiplier'', 0.3)], l_duration = 10\<rparr>,
    \<lparr>l_type = WEAPON_BEHAVIOR, l_description = ''Giant Weapons'',
     l_keywords = [''giant weapons'', ''big weapons'', ''huge'', ''massive''],
     l_parameters = [(''size_multiplier'', 2), (''damage_multiplier'', 1.5)], l_duration = 15\<rparr>,
    \<lparr>l_type = WEAPON_BEHAVIOR, l_description = ''Explosive Weapons'',
     l_keywords = [''explosive'', ''boom'', ''explode'', ''blast''],
     l_parameters = [(''add_explosion'', 1), (''explosion_radius'', 50)], l_duration = 15\<rparr>,
    \<lparr>l_type = WEAPON_BEHAVIOR, l_description = ''Backwards Weapons'',
     l_keywords = [''backwards'', ''reverse'', ''opposite'', ''wrong way''],
     l_parameters = [(''direction_multiplier'', - 1)], l_duration = 10\<rparr>]"

text \<open>
  \<^verbatim>\<open>_generate_random_modification\<close>: the entry \<^verbatim>\<open>random.choice\<close> picks, with the parameter and
  the duration \<^verbatim>\<open>random.uniform\<close> drew for it.
\<close>

datatype random_pick =
    RandomGravity real real
  | RandomBounce real real
  | RandomFriction real real
  | RandomTime real real

definition generate_random_modification :: "real \<Rightarrow> random_pick \<Rightarrow> PhysicsModification" where
  "generate_random_modification now rnd =
     (case rnd of
        RandomGravity v d \<Rightarrow>
          \<lparr>mod_type = GRAVITY, mod_description = ''Random Gravity'',
           mod_parameters = [''multiplier'' \<mapsto> v], mod_duration = d, mod_start_time = now\<rparr>
      | RandomBounce v d \<Rightarrow>
          \<lparr>mod_type = BOUNCE, mod_description = ''Random Bounce'',
           mod_parameters = [''multiplier'' \<mapsto> v], mod_duration = d, mod_start_time = now\<rparr>
      | RandomFriction v d \<Rightarrow>
          \<lparr>mod_type = FRICTION, mod_description = ''Random Friction'',
           mod_parameters = [''multiplier'' \<mapsto> v], mod_duration = d, mod_start_time = now\<rparr>
      | RandomTime v d \<Rightarrow>
          \<lparr>mod_type = TIME_SCALE, mod_description = ''Random Time'',
           mod_parameters = [''scale'' \<mapsto> v], mod_duration = d, mod_start_time = now\<rparr>)"

text \<open>
  \<^verbatim>\<open>_parse_physics_prompt\<close>: the first library entry one of whose keywords occurs in the
  lower-cased, stripped prompt; a random modification when there is none.
\<close>

definition entry_matches :: "string \<Rightarrow> library_entry \<Rightarrow> bool" where
  "entry_matches prompt_lower e = list_ex (\<lambda>keyword. contains keyword prompt_lower) (l_keywords e)"

definition parse_physics_prompt :: "real \<Rightarrow> random_pick \<Rightarrow> string \<Rightarrow> PhysicsModification" where
  "parse_physics_prompt now rnd prompt =
     (let prompt_lower = strip (lower prompt)
      in case find (entry_matches prompt_lower) physics_library of
           Some mod_data \<Rightarrow>
             \<lparr>mod_type = l_type mod_data, mod_description = l_description mod_data,
              mod_parameters = map_of (l_parameters mod_data),
              mod_duration = l_duration mod_data, mod_start_time = now\<rparr>
         | None \<Rightarrow> generate_random_modification now rnd)"

text \<open>\<^verbatim>\<open>apply_master_prompt\<close>: the modification is appended to the list of the match.\<close>

definition apply_master_prompt ::
  "real \<Rightarrow> random_pick \<Rightarrow> string \<Rightarrow> int \<Rightarrow> engine \<Rightarrow> PhysicsModification \<times> engine" where
  "apply_master_prompt now rnd prompt match_id eng =
     (let modification = parse_physics_prompt now rnd prompt
      in (modification, eng(match_id \<mapsto> dict_get eng match_id [] @ [modification])))"

subsection \<open>Handlers (main.py)\<close>

text \<open>\<^verbatim>\<open>handle_master_prompt\<close>: a blank prompt is dropped.\<close>

definition handle_master_prompt :: "real \<Rightarrow> random_pick \<Rightarrow> string \<Rightarrow> world \<Rightarrow> world" where
  "handle_master_prompt now rnd prompt0 w =
     (let prompt = strip prompt0
      in if prompt = [] then w
         else w\<lparr>wengine := snd (apply_master_prompt now rnd prompt (m_id (wmatch w)) (wengine w))\<rparr>)"

text \<open>
  \<^verbatim>\<open>master_prompt_scheduler\<close>, for one match: an \<^verbatim>\<open>ACTIVE\<close> match whose last prompt is more
  than 30 seconds old gets one of seven prompts.
\<close>

definition random_prompts :: "string list" where
  "random_prompts = [''low gravity'', ''bouncy world'', ''ice floor'', ''slow motion'',
     ''high gravity'', ''super speed'', ''sticky ground'']"

definition master_prompt_scheduler :: "real \<Rightarrow> random_pick \<Rightarrow> string \<Rightarrow> world \<Rightarrow> world" where
  "master_prompt_scheduler now rnd prompt w =
     (let m = wmatch w
      in if prompt \<in> set random_prompts \<and> status m = ACTIVE \<and> now - last_master_prompt m > 30
         then w\<lparr>wengine := snd (apply_master_prompt now rnd prompt (m_id m) (wengine w)),
                wmatch := m\<lparr>last_master_prompt := now\<rparr>\<rparr>
         else w)"

text \<open>
  \<^verbatim>\<open>handle_weapon_generation\<close>, with the answer sent to the requesting player. \<open>match_id\<close> is
  the id of the request (\<open>None\<close> when the message has none).
\<close>

datatype reply =
    InvalidPrompt
  | MatchNotFound
  | PlayerNotInMatch
  | CooldownRemaining int
  | WeaponGenerated Weapon
  | GenerationFailed

definition handle_weapon_generation ::
  "real \<Rightarrow> string \<Rightarrow> ai_response option \<Rightarrow> int \<Rightarrow> string \<Rightarrow> string \<Rightarrow> int option \<Rightarrow> world
     \<Rightarrow> reply \<times> world" where
  "handle_weapon_generation now fresh ai h player_id prompt0 match_id w =
     (let prompt = strip prompt0;
          m = wmatch w
      in if prompt = [] \<or> length prompt > 20 then (InvalidPrompt, w)
         else if match_id \<noteq> Some (m_id m) then (MatchNotFound, w)
         else (case get_player_state m player_id of
                 None \<Rightarrow> (PlayerNotInMatch, w)
               | Some i \<Rightarrow>
                   (let player_state = players m ! i
                    in if now < weapon_cooldown player_state then
                         (CooldownRemaining (py_int (weapon_cooldown player_state - now)), w)
                       else
                         (case generate_weapon now fresh ai h prompt player_id (wcache w) of
                            (None, cache') \<Rightarrow> (GenerationFailed, w\<lparr>wcache := cache'\<rparr>)
                          | (Some weapon, cache') \<Rightarrow>
                              (let player' = player_state\<lparr>weapon_cooldown := now + 12,
                                               weapons := weapons player_state @ [weapon]\<rparr>
                               in (WeaponGenerated weapon,
                                   w\<lparr>wmatch := m\<lparr>players := (players m)[i := player']\<rparr>,
                                     wcache := cache'\<rparr>))))))"

subsection \<open>The operations on a match\<close>

text \<open>
  Every way the server touches a match: the calls of the manager, made by the handlers of
  \<^verbatim>\<open>main.py\<close>, the game loop and the scheduler.
\<close>

datatype event =
    FindMatch string
  | StartMatch real
  | UpdateMatches real
  | PlayerInput real string player_input
  | WeaponUse real string string "string \<rightharpoonup> real"
  | RemovePlayer real string
  | WeaponGenerate real string "ai_response option" int string string "int option"
  | MasterPrompt real random_pick string
  | SchedulerPrompt real random_pick string

fun step :: "event \<Rightarrow> world \<Rightarrow> world option" where
  "step (FindMatch player_id) w = Some (join_match player_id w)"
| "step (StartMatch now) w = Some (start_match now w)"
| "step (UpdateMatches now) w = update_match now w"
| "step (PlayerInput now player_id input_data) w =
     Some (handle_player_input now player_id input_data w)"
| "step (WeaponUse now player_id weapon_id target) w =
     Some (handle_weapon_use now player_id weapon_id target w)"
| "step (RemovePlayer now player_id) w = Some (remove_player now player_id w)"
| "step (WeaponGenerate now fresh ai h player_id prompt match_id) w =
     Some (snd (handle_weapon_generation now fresh ai h player_id prompt match_id w))"
| "step (MasterPrompt now rnd prompt) w = Some (handle_master_prompt now rnd prompt w)"
| "step (SchedulerPrompt now rnd prompt) w = Some (master_prompt_scheduler now rnd prompt w)"

text \<open>The states the server can bring a match to, from its creation.\<close>

inductive reachable :: "world \<Rightarrow> bool" where
  created: "reachable (create_match now player_id)"
| stepped: "reachable w \<Longrightarrow> step e w = Some w' \<Longrightarrow> reachable w'"

text \<open>Python's \<^verbatim>\<open>round(x)\<close> to an integer: to the nearest, a tie to the even neighbour.\<close>

definition py_round :: "real \<Rightarrow> int" where
  "py_round x =
     (let f = \<lfloor>x\<rfloor>; d = x - of_int f
      in if d < 1 / 2 then f else if d > 1 / 2 then f + 1 else if even f then f else f + 1)"

subsection \<open>Notions of the specification\<close>

text \<open>
  The modifications stored for a match; those that have not expired at \<open>now\<close> (the
  specification's \<open>now \<ge> start_time + duration\<close> is expiry); those of one type; the
  factors they carry under a key (1 when the key is missing); the scale of the last one.
\<close>

definition stored_modifications :: "engine \<Rightarrow> int \<Rightarrow> PhysicsModification list" where
  "stored_modifications eng match_id = dict_get eng match_id []"

definition non_expired :: "real \<Rightarrow> PhysicsModification list \<Rightarrow> PhysicsModification list" where
  "non_expired now ms = filter (\<lambda>m. \<not> (now \<ge> mod_start_time m + mod_duration m)) ms"

definition of_type :: "PhysicsModType \<Rightarrow> PhysicsModification list \<Rightarrow> PhysicsModification list" where
  "of_type t ms = filter (\<lambda>m. mod_type m = t) ms"

definition factors :: "string \<Rightarrow> PhysicsModification list \<Rightarrow> real list" where
  "factors key ms = map (\<lambda>m. dict_get (mod_parameters m) key 1) ms"

definition last_scale :: "PhysicsModification list \<Rightarrow> real" where
  "last_scale ms = (case rev ms of [] \<Rightarrow> 1 | m # _ \<Rightarrow> dict_get (mod_parameters m) ''scale'' 1)"

text \<open>
  \<open>q\<close> is the first element of \<open>xs\<close> with the greatest key: everything before it has a
  smaller key, nothing after it a larger one.
\<close>

definition first_maximal :: "('a \<Rightarrow> int) \<Rightarrow> 'a list \<Rightarrow> 'a \<Rightarrow> bool" where
  "first_maximal key xs q =
     (\<exists>ys zs. xs = ys @ q # zs \<and> (\<forall>y\<in>set ys. key y < key q) \<and> (\<forall>z\<in>set zs. key z \<le> key q))"

text \<open>
  Two states of a match that differ at most in the fields of its players other than their
  ids, and in its projectiles.
\<close>

definition same_frame :: "MatchState \<Rightarrow> MatchState \<Rightarrow> bool" where
  "same_frame m m' =
     (m_id m' = m_id m \<and> status m' = status m \<and> start_time m' = start_time m \<and>
      end_time m' = end_time m \<and> winner_id m' = winner_id m \<and>
      last_master_prompt m' = last_master_prompt m \<and>
      map p_id (players m') = map p_id (players m))"

text \<open>
  What damage may do to one player between two states: a dead player keeps health and
  death count and stays dead; the death count stays or grows by one, and it grows only
  when the player goes from alive to dead.
\<close>

definition life_step :: "PlayerState \<Rightarrow> PlayerState \<Rightarrow> bool" where
  "life_step p p' =
     (p_id p' = p_id p \<and>
      (\<not> is_alive p \<longrightarrow> health p' = health p \<and> deaths p' = deaths p \<and> \<not> is_alive p') \<and>
      (deaths p' = deaths p \<or> (deaths p' = deaths p + 1 \<and> is_alive p \<and> \<not> is_alive p')))"

text \<open>
  The damage \<^verbatim>\<open>_apply_damage\<close> computes for a projectile, and what a damage \<open>d\<close> does to
  the player it is applied to.
\<close>

definition hit_damage :: "real \<Rightarrow> Projectile \<Rightarrow> world \<Rightarrow> int" where
  "hit_damage now pr w =
     py_int (real_of_int (pr_damage pr)
       * damage_multiplier (fst (calculate_current_physics now (m_id (wmatch w)) (wengine w))))"

definition damaged :: "int \<Rightarrow> PlayerState \<Rightarrow> PlayerState" where
  "damaged d p =
     (if max 0 (health p - d) \<le> 0
      then p\<lparr>health := max 0 (health p - d), is_alive := False, deaths := deaths p + 1\<rparr>
      else p\<lparr>health := max 0 (health p - d)\<rparr>)"

text \<open>The damage of an area effect, and the test that a player is within its range.\<close>

definition area_damage :: "Weapon \<Rightarrow> Physics \<Rightarrow> int" where
  "area_damage weapon physics =
     py_int (real_of_int (damage (w_properties weapon)) * damage_multiplier physics)"

definition in_area :: "Weapon \<Rightarrow> real \<Rightarrow> real \<Rightarrow> PlayerState \<Rightarrow> bool" where
  "in_area weapon tx ty p =
     (sqrt ((pos_x p - tx) * (pos_x p - tx) + (pos_y p - ty) * (pos_y p - ty))
        \<le> real_of_int (range_stat (w_properties weapon)))"

text \<open>
  The invariant behind the health bounds. A modification is good when its damage
  multiplier, if it has one, is not negative; a player is in order when the health is
  between 0 and 100 and no owned weapon has a negative damage; a world is sound when
  its players are in order, no projectile carries a negative damage, every stored
  modification is good and no cached weapon has a negative damage.
\<close>

definition good_mod :: "PhysicsModification \<Rightarrow> bool" where
  "good_mod m = (case mod_parameters m ''damage_multiplier'' of None \<Rightarrow> True | Some v \<Rightarrow> 0 \<le> v)"

definition good_engine :: "engine \<Rightarrow> bool" where
  "good_engine eng = (\<forall>match_id ms. eng match_id = Some ms \<longrightarrow> (\<forall>m\<in>set ms. good_mod m))"

definition player_ok :: "PlayerState \<Rightarrow> bool" where
  "player_ok p =
     (0 \<le> health p \<and> health p \<le> 100 \<and> (\<forall>x\<in>set (weapons p). 0 \<le> damage (w_properties x)))"

definition sound :: "world \<Rightarrow> bool" where
  "sound w =
     ((\<forall>p\<in>set (players (wmatch w)). player_ok p) \<and>
      (\<forall>pr\<in>set (projectiles (wmatch w)). 0 \<le> pr_damage pr) \<and>
      good_engine (wengine w) \<and>
      (\<forall>k x. wcache w k = Some x \<longrightarrow> 0 \<le> damage (w_properties x)))"

text \<open>
  A player's health is not raised between two states; and the same, conditional on the
  player being in order before.
\<close>

definition not_raised :: "PlayerState \<Rightarrow> PlayerState \<Rightarrow> bool" where
  "not_raised p p' = (p_id p' = p_id p \<and> health p' \<le> health p)"

definition safe :: "PlayerState \<Rightarrow> PlayerState \<Rightarrow> bool" where
  "safe p p' = (p_id p' = p_id p \<and> (player_ok p \<longrightarrow> player_ok p' \<and> health p' \<le> health p))"

text \<open>What a collision phase keeps, as one relation between worlds.\<close>

definition quiet :: "world \<Rightarrow> world \<Rightarrow> bool" where
  "quiet w w' =
     (list_all2 safe (players (wmatch w)) (players (wmatch w')) \<and>
      set (projectiles (wmatch w')) \<subseteq> set (projectiles (wmatch w)) \<and>
      (good_engine (wengine w) \<longrightarrow> good_engine (wengine w')) \<and>
      wcache w' = wcache w)"

text \<open>Firing: the effect of the weapon, then the cooldown of the player at index \<open>i\<close>.\<close>

definition fire :: "real \<Rightarrow> nat \<Rightarrow> Weapon \<Rightarrow> (string \<rightharpoonup> real) \<Rightarrow> Physics \<Rightarrow> MatchState \<Rightarrow> MatchState" where
  "fire now i weapon target physics m =
     (if w_category weapon = PROJECTILE \<or> w_category weapon = MAGIC
      then create_projectile now (players m ! i) weapon target physics m
      else if w_category weapon = AREA_EFFECT
      then create_area_effect i weapon target physics m
      else m)"

text \<open>
  The wiring of \<^verbatim>\<open>main.py\<close>: \<^verbatim>\<open>handle_find_match\<close> is the only caller of \<^verbatim>\<open>start_match\<close>, and it
  starts a match only while its status is \<^verbatim>\<open>WAITING\<close>; the clock is never 0.
\<close>

definition wired :: "event \<Rightarrow> world \<Rightarrow> bool" where
  "wired e w = (case e of StartMatch now \<Rightarrow> status (wmatch w) = WAITING \<and> now \<noteq> 0 | _ \<Rightarrow> True)"

inductive served :: "world \<Rightarrow> bool" where
  created: "served (create_match now player_id)"
| stepped: "served w \<Longrightarrow> wired e w \<Longrightarrow> step e w = Some w' \<Longrightarrow> served w'"

text \<open>A waiting match has no end time; an active one has a start time and no end time.\<close>

definition clock_set :: "MatchState \<Rightarrow> bool" where
  "clock_set m =
     ((status m = WAITING \<or> status m = ACTIVE \<or> status m = FINISHED) \<and>
      (status m = WAITING \<longrightarrow> end_time m = None) \<and>
      (status m = ACTIVE \<longrightarrow> end_time m = None \<and> (\<exists>s. start_time m = Some s \<and> s \<noteq> 0)))"

text \<open>The status of the match of a world.\<close>

definition status_of :: "world \<Rightarrow> MatchStatus" where
  "status_of w = status (wmatch w)"

text \<open>
  The bounds a generated weapon's statistics keep: damage 15 to 85, speed 20 to 95, range 30
  to 180, ammunition 1 to 25, cooldown 1500 to 4800 milliseconds; and a cache all of whose
  weapons keep them.
\<close>

definition stats_ok :: "WeaponProperties \<Rightarrow> bool" where
  "stats_ok p =
     (15 \<le> damage p \<and> damage p \<le> 85 \<and> 20 \<le> speed p \<and> speed p \<le> 95 \<and>
      30 \<le> range_stat p \<and> range_stat p \<le> 180 \<and> 1 \<le> ammo p \<and> ammo p \<le> 25 \<and>
      1500 \<le> cooldown p \<and> cooldown p \<le> 4800)"

definition cache_stats_ok :: "(string \<rightharpoonup> Weapon) \<Rightarrow> bool" where
  "cache_stats_ok cache = (\<forall>k x. cache k = Some x \<longrightarrow> stats_ok (w_properties x))"

subsection \<open>Sample data\<close>

definition sample_player :: "string \<Rightarrow> int \<Rightarrow> bool \<Rightarrow> int \<Rightarrow> PlayerState" where
  "sample_player player_id hp alive k =
     (new_player player_id 200 500)\<lparr>health := hp, is_alive := alive, kills := k\<rparr>"

definition sample_weapon :: "string \<Rightarrow> WeaponCategory \<Rightarrow> int \<Rightarrow> Weapon" where
  "sample_weapon weapon_id category dmg =
     \<lparr>w_id = weapon_id, w_category = category,
      w_properties = \<lparr>damage = dmg, speed = 60, range_stat = 100, ammo = 10,
                      cooldown = 2000, special_effect = ''none''\<rparr>,
      w_generated_at = 1000, w_balance_score = 50, w_player_id = ''b''\<rparr>"

definition sample_target :: "real \<Rightarrow> real \<Rightarrow> (string \<rightharpoonup> real)" where
  "sample_target x y = [''x'' \<mapsto> x, ''y'' \<mapsto> y]"

definition sample_world :: "PlayerState list \<Rightarrow> world" where
  "sample_world ps =
     \<lparr>wmatch = \<lparr>m_id = 7, status = ACTIVE, players = ps, projectiles = [],
                   start_time = Some 1000, end_time = None, winner_id = None,
                   last_master_prompt = 1000\<rparr>,
      wengine = Map.empty,
      player_match_map = (\<lambda>player_id. if player_id \<in> set (map p_id ps) then Some 7 else None),
      wcache = Map.empty\<rparr>"

definition ice :: "real \<Rightarrow> PhysicsModification" where
  "ice t = \<lparr>mod_type = FRICTION, mod_description = ''Ice Floor'',
     mod_parameters = [''multiplier'' \<mapsto> 0.1], mod_duration = 20, mod_start_time = t\<rparr>"

definition slow :: "real \<Rightarrow> real \<Rightarrow> PhysicsModification" where
  "slow t v = \<lparr>mod_type = TIME_SCALE, mod_description = ''Slow Motion'',
     mod_parameters = [''scale'' \<mapsto> v], mod_duration = 8, mod_start_time = t\<rparr>"

text \<open>
  A duel: \<open>a\<close> stands at (200, 500), \<open>b\<close> at (190, 500) owns a projectile weapon of damage
  \<open>dmg\<close>; \<open>b\<close> fires at \<open>a\<close> at time 1001; then the prompts \<open>huge\<close> and \<open>massive\<close> arrive
  (each is a Giant Weapons modification, damage multiplier 1.5).
\<close>

definition giant_weapons :: "real \<Rightarrow> PhysicsModification" where
  "giant_weapons t = \<lparr>mod_type = WEAPON_BEHAVIOR, mod_description = ''Giant Weapons'',
     mod_parameters = map_of [(''size_multiplier'', 2), (''damage_multiplier'', 1.5)],
     mod_duration = 15, mod_start_time = t\<rparr>"

definition sample_projectile :: "int \<Rightarrow> Projectile" where
  "sample_projectile d =
     \<lparr>pr_id = 1001000, pr_weapon_id = ''w1'', pr_player_id = ''b'',
      pr_x = 190, pr_y = 500, pr_vx = 300, pr_vy = 0, pr_damage = d,
      created_at = 1001, expires_at = 3004 / 3\<rparr>"

definition duel :: "int \<Rightarrow> int \<Rightarrow> world" where
  "duel hp dmg =
     sample_world [sample_player ''a'' hp True 0,
       (sample_player ''b'' 100 True 0)\<lparr>pos_x := 190,
          weapons := [sample_weapon ''w1'' PROJECTILE dmg]\<rparr>]"

definition duel_fired :: "int \<Rightarrow> int \<Rightarrow> world" where
  "duel_fired hp dmg = use_weapon 1001 ''b'' ''w1'' (sample_target 200 500) (duel hp dmg)"

definition duel_boosted :: "int \<Rightarrow> int \<Rightarrow> world" where
  "duel_boosted hp dmg =
     handle_master_prompt (500501 / 500) (RandomGravity 1 10) ''massive''
       (handle_master_prompt (1001001 / 1000) (RandomGravity 1 10) ''huge'' (duel_fired hp dmg))"

definition healths :: "world \<Rightarrow> int list" where
  "healths w = map health (players (wmatch w))"

text \<open>A match created by \<open>a\<close>, joined by \<open>b\<close> and started.\<close>

definition lobby :: world where
  "lobby = start_match 1001 (join_match ''b'' (create_match 1000 ''a''))"

text \<open>
  The five statistics of a weapon; an answer of the model at the top of every range, and its
  clamped properties.
\<close>

definition weapon_stats :: "Weapon \<Rightarrow> int list" where
  "weapon_stats x =
     [damage (w_properties x), speed (w_properties x), range_stat (w_properties x),
      ammo (w_properties x), cooldown (w_properties x)]"

definition strong_answer :: ai_response where
  "strong_answer =
     \<lparr>ai_damage = Some 85, ai_speed = Some 95, ai_range = Some 180, ai_ammo = Some 10,
      ai_cooldown = Some 4000, ai_special_effect = Some ''none'',
      ai_category = Some ''projectile''\<rparr>"

definition strong_clamped :: WeaponProperties where
  "strong_clamped = \<lparr>damage = 85, speed = 95, range_stat = 180, ammo = 10, cooldown = 4000,
     special_effect = ''none''\<rparr>"

section \<open>Properties\<close>

subsection \<open>The current physics is a fold over the active modifications\<close>

lemma foldl_gravity:
  "gravity (foldl apply_modification p ms) =
     gravity p * prod_list (factors ''multiplier'' (of_type GRAVITY ms))"
  by (induction ms arbitrary: p)
     (auto simp: apply_modification_def Let_def factors_def of_type_def split: PhysicsModType.splits option.splits)

lemma foldl_friction:
  "friction (foldl apply_modification p ms) =
     friction p * prod_list (factors ''multiplier'' (of_type FRICTION ms))"
  by (induction ms arbitrary: p)
     (auto simp: apply_modification_def Let_def factors_def of_type_def split: PhysicsModType.splits option.splits)

lemma foldl_restitution:
  "restitution (foldl apply_modification p ms) =
     restitution p * prod_list (factors ''multiplier'' (of_type BOUNCE ms))"
  by (induction ms arbitrary: p)
     (auto simp: apply_modification_def Let_def factors_def of_type_def split: PhysicsModType.splits option.splits)

lemma foldl_damage_multiplier:
  "damage_multiplier (foldl apply_modification p ms) =
     damage_multiplier p * prod_list (factors ''damage_multiplier'' (of_type WEAPON_BEHAVIOR ms))"
  by (induction ms arbitrary: p)
     (auto simp: apply_modification_def Let_def dict_get_def factors_def of_type_def split: PhysicsModType.splits option.splits)

lemma foldl_cooldown_multiplier:
  "cooldown_multiplier (foldl apply_modification p ms) =
     cooldown_multiplier p * prod_list (factors ''cooldown_multiplier'' (of_type WEAPON_BEHAVIOR ms))"
  by (induction ms arbitrary: p)
     (auto simp: apply_modification_def Let_def dict_get_def factors_def of_type_def split: PhysicsModType.splits option.splits)

lemma foldl_size_multiplier:
  "size_multiplier (foldl apply_modification p ms) =
     size_multiplier p * prod_list (factors ''size_multiplier'' (of_type WEAPON_BEHAVIOR ms))"
  by (induction ms arbitrary: p)
     (auto simp: apply_modification_def Let_def dict_get_def factors_def of_type_def split: PhysicsModType.splits option.splits)

lemma foldl_time_scale:
  "time_scale (foldl apply_modification p ms) =
     (if of_type TIME_SCALE ms = [] then time_scale p else last_scale (of_type TIME_SCALE ms))"
  by (induction ms arbitrary: p rule: rev_induct)
     (auto simp: apply_modification_def Let_def of_type_def last_scale_def split: PhysicsModType.splits option.splits list.splits)

lemma non_expired_is_active: "non_expired now ms = filter (is_active now) ms"
  by (induction ms) (simp_all add: non_expired_def is_active_def not_le)

lemma fst_calculate:
  "fst (calculate_current_physics now match_id eng) =
     foldl apply_modification base_physics (non_expired now (stored_modifications eng match_id))"
  by (simp add: calculate_current_physics_def get_active_modifications_def Let_def
      non_expired_is_active stored_modifications_def dict_get_def split: option.splits)

lemma snd_calculate:
  "snd (calculate_current_physics now match_id eng) =
     (case eng match_id of None \<Rightarrow> eng | Some ms \<Rightarrow> eng(match_id \<mapsto> filter (is_active now) ms))"
  by (simp add: calculate_current_physics_def get_active_modifications_def Let_def split: option.splits)

lemma calculate_twice:
  "calculate_current_physics now match_id (snd (calculate_current_physics now match_id eng)) =
     calculate_current_physics now match_id eng"
  by (simp add: calculate_current_physics_def get_active_modifications_def Let_def split: option.splits)

text \<open>
  C4. \<^verbatim>\<open>calculate_current_physics\<close> is determined by the base constants and the non-expired
  modifications of the match: gravity, friction and restitution are the base value times
  the multiplier of every active modification of the matching type; the time scale is the
  scale of the last active time-scale modification (1 when there is none); the damage,
  cooldown and size multipliers are the products over the active weapon-behaviour
  modifications. A modification with \<open>now \<ge> start_time + duration\<close> can be deleted from the
  stored list without changing the result, and a second call at the same instant returns
  the same physics and leaves the engine as the first call left it.
\<close>

theorem current_physics_spec:
  "(let act = non_expired now (stored_modifications eng match_id);
        physics = fst (calculate_current_physics now match_id eng)
    in gravity physics = 800 * prod_list (factors ''multiplier'' (of_type GRAVITY act)) \<and>
       friction physics = 0.8 * prod_list (factors ''multiplier'' (of_type FRICTION act)) \<and>
       restitution physics = 0.3 * prod_list (factors ''multiplier'' (of_type BOUNCE act)) \<and>
       time_scale physics = last_scale (of_type TIME_SCALE act) \<and>
       damage_multiplier physics =
         prod_list (factors ''damage_multiplier'' (of_type WEAPON_BEHAVIOR act)) \<and>
       cooldown_multiplier physics =
         prod_list (factors ''cooldown_multiplier'' (of_type WEAPON_BEHAVIOR act)) \<and>
       size_multiplier physics =
         prod_list (factors ''size_multiplier'' (of_type WEAPON_BEHAVIOR act))) \<and>
   (now \<ge> mod_start_time x + mod_duration x \<longrightarrow>
      fst (calculate_current_physics now match_id (eng(match_id \<mapsto> xs @ x # ys))) =
      fst (calculate_current_physics now match_id (eng(match_id \<mapsto> xs @ ys)))) \<and>
   calculate_current_physics now match_id (snd (calculate_current_physics now match_id eng)) =
     (fst (calculate_current_physics now match_id eng),
      snd (calculate_current_physics now match_id eng))"
proof -
  let ?physics = "fst (calculate_current_physics now match_id eng)"
  let ?act = "non_expired now (stored_modifications eng match_id)"
  have g: "gravity ?physics = 800 * prod_list (factors ''multiplier'' (of_type GRAVITY ?act))"
    by (simp add: fst_calculate foldl_gravity base_physics_def)
  have f: "friction ?physics = 0.8 * prod_list (factors ''multiplier'' (of_type FRICTION ?act))"
    by (simp add: fst_calculate foldl_friction base_physics_def)
  have r: "restitution ?physics = 0.3 * prod_list (factors ''multiplier'' (of_type BOUNCE ?act))"
    by (simp add: fst_calculate foldl_restitution base_physics_def)
  have t: "time_scale ?physics = last_scale (of_type TIME_SCALE ?act)"
    by (simp add: fst_calculate foldl_time_scale base_physics_def last_scale_def)
  have d: "damage_multiplier ?physics =
             prod_list (factors ''damage_multiplier'' (of_type WEAPON_BEHAVIOR ?act))"
    by (simp add: fst_calculate foldl_damage_multiplier base_physics_def)
  have c: "cooldown_multiplier ?physics =
             prod_list (factors ''cooldown_multiplier'' (of_type WEAPON_BEHAVIOR ?act))"
    by (simp add: fst_calculate foldl_cooldown_multiplier base_physics_def)
  have s: "size_multiplier ?physics =
             prod_list (factors ''size_multiplier'' (of_type WEAPON_BEHAVIOR ?act))"
    by (simp add: fst_calculate foldl_size_multiplier base_physics_def)
  have e: "now \<ge> mod_start_time x + mod_duration x \<longrightarrow>
      fst (calculate_current_physics now match_id (eng(match_id \<mapsto> xs @ x # ys))) =
      fst (calculate_current_physics now match_id (eng(match_id \<mapsto> xs @ ys)))"
    by (simp add: fst_calculate stored_modifications_def dict_get_def non_expired_def)
  have twice: "calculate_current_physics now match_id (snd (calculate_current_physics now match_id eng)) =
     (fst (calculate_current_physics now match_id eng),
      snd (calculate_current_physics now match_id eng))"
    by (simp add: calculate_twice)
  show ?thesis
    unfolding Let_def using g f r t d c s e twice by blast
qed

theorem current_physics_spec_witness:
  "21 \<ge> mod_start_time (ice 0) + mod_duration (ice 0)
   \<and> friction (fst (calculate_current_physics 21 7
         [7 \<mapsto> [ice 0, ice 5, slow 15 0.5, ice 6, slow 16 2]])) = 0.008
   \<and> time_scale (fst (calculate_current_physics 21 7
         [7 \<mapsto> [ice 0, ice 5, slow 15 0.5, ice 6, slow 16 2]])) = 2
   \<and> fst (calculate_current_physics 21 7 [7 \<mapsto> [ice 0, ice 5, slow 15 0.5, ice 6, slow 16 2]])
     = fst (calculate_current_physics 21 7 [7 \<mapsto> [ice 5, slow 15 0.5, ice 6, slow 16 2]])"
  using current_physics_spec [of 21 "[7 \<mapsto> [ice 0, ice 5, slow 15 0.5, ice 6, slow 16 2]]" 7
      "ice 0" "[]" "[ice 5, slow 15 0.5, ice 6, slow 16 2]"]
  by (simp add: Let_def non_expired_def stored_modifications_def dict_get_def of_type_def
      factors_def last_scale_def ice_def slow_def fst_calculate apply_modification_def
      base_physics_def)

subsection \<open>The winner of a match\<close>

lemma max_by_first:
  "\<exists>ys zs. b # xs = ys @ max_by key b xs # zs \<and>
           (\<forall>y\<in>set ys. key y < key (max_by key b xs)) \<and>
           (\<forall>z\<in>set zs. key z \<le> key (max_by key b xs))"
proof (induction xs arbitrary: b)
  case Nil
  show ?case by (rule exI [where x = "[]"]) simp
next
  case (Cons x xs)
  show ?case
  proof (cases "key x > key b")
    case True
    then have eq: "max_by key b (x # xs) = max_by key x xs" by simp
    from Cons.IH [of x] obtain ys zs where
      d: "x # xs = ys @ max_by key x xs # zs"
      and lt: "\<forall>y\<in>set ys. key y < key (max_by key x xs)"
      and le: "\<forall>z\<in>set zs. key z \<le> key (max_by key x xs)" by blast
    have "x \<in> set (ys @ max_by key x xs # zs)" using d by (metis list.set_intros(1))
    then have "key x \<le> key (max_by key x xs)" using lt le by auto
    with True have kb: "key b < key (max_by key x xs)" by simp
    have 1: "b # x # xs = (b # ys) @ max_by key x xs # zs" using d by simp
    have 2: "\<forall>y\<in>set (b # ys). key y < key (max_by key x xs)" using lt kb by simp
    show ?thesis unfolding eq using 1 2 le by blast
  next
    case False
    then have eq: "max_by key b (x # xs) = max_by key b xs" by simp
    from Cons.IH [of b] obtain ys zs where
      d: "b # xs = ys @ max_by key b xs # zs"
      and lt: "\<forall>y\<in>set ys. key y < key (max_by key b xs)"
      and le: "\<forall>z\<in>set zs. key z \<le> key (max_by key b xs)" by blast
    show ?thesis
    proof (cases ys)
      case Nil
      with d have m: "max_by key b xs = b" and z: "zs = xs" by auto
      have 1: "b # x # xs = [] @ max_by key b xs # (x # xs)" using m by simp
      have 2: "\<forall>z\<in>set (x # xs). key z \<le> key (max_by key b xs)"
        using le z m False by auto
      show ?thesis unfolding eq using 1 2 by (metis empty_iff empty_set)
    next
      case (Cons y ys')
      with d have yb: "y = b" and xs: "xs = ys' @ max_by key b xs # zs" by auto
      from lt Cons yb have "key b < key (max_by key b xs)" by simp
      with False have kx: "key x < key (max_by key b xs)" by simp
      have 1: "b # x # xs = (b # x # ys') @ max_by key b xs # zs" using xs by simp
      have 2: "\<forall>y\<in>set (b # x # ys'). key y < key (max_by key b xs)"
        using lt Cons yb kx by simp
      show ?thesis unfolding eq using 1 2 le by blast
    qed
  qed
qed

lemma py_max_first_maximal:
  "xs \<noteq> [] \<Longrightarrow> \<exists>q. py_max key xs = Some q \<and> first_maximal key xs q"
  using max_by_first [of "hd xs" "tl xs" key]
  by (cases xs) (auto simp: py_max_def first_maximal_def)

lemma get_duration_end:
  "start_time m = Some s \<Longrightarrow> s \<noteq> 0 \<Longrightarrow> get_duration now (m\<lparr>status := st, end_time := Some now\<rparr>) = now - s"
  by (simp add: get_duration_def)

lemma alive_players_end [simp]:
  "alive_players (m\<lparr>status := st, end_time := e\<rparr>) = alive_players m"
  "players (m\<lparr>status := st, end_time := e\<rparr>) = players m"
  by (simp_all add: alive_players_def)

text \<open>
  C2. When a match is ended by \<^verbatim>\<open>_end_match\<close>: with exactly one player alive the winner is
  that survivor; with no player alive (and a player left in the match) it is the first
  player of the list with the greatest kill count; when the start time is set and more
  than 90 seconds have passed with at least two players alive, it is the first player of
  the list with the greatest health.
\<close>

theorem winner_selection:
  "(alive_players (wmatch w) = [p] \<longrightarrow>
      winner_id (wmatch (end_match now w)) = Some (p_id p)) \<and>
   (alive_players (wmatch w) = [] \<and> players (wmatch w) \<noteq> [] \<longrightarrow>
      (\<exists>q. winner_id (wmatch (end_match now w)) = Some (p_id q) \<and>
           first_maximal kills (players (wmatch w)) q)) \<and>
   (length (alive_players (wmatch w)) \<ge> 2 \<and> start_time (wmatch w) = Some s \<and> s \<noteq> 0 \<and>
    now - s > 90 \<longrightarrow>
      (\<exists>q. winner_id (wmatch (end_match now w)) = Some (p_id q) \<and>
           first_maximal health (players (wmatch w)) q))"
proof (intro conjI impI)
  assume "alive_players (wmatch w) = [p]"
  then show "winner_id (wmatch (end_match now w)) = Some (p_id p)"
    by (simp add: end_match_def get_winner_def Let_def)
next
  assume a: "alive_players (wmatch w) = [] \<and> players (wmatch w) \<noteq> []"
  then obtain q where q: "py_max kills (players (wmatch w)) = Some q"
      "first_maximal kills (players (wmatch w)) q"
    using py_max_first_maximal by blast
  with a show "\<exists>q. winner_id (wmatch (end_match now w)) = Some (p_id q) \<and>
           first_maximal kills (players (wmatch w)) q"
    by (intro exI [of _ q]) (simp add: end_match_def get_winner_def Let_def)
next
  assume a: "length (alive_players (wmatch w)) \<ge> 2 \<and> start_time (wmatch w) = Some s \<and> s \<noteq> 0 \<and>
    now - s > 90"
  then have ne: "players (wmatch w) \<noteq> []" by (auto simp: alive_players_def)
  then obtain q where q: "py_max health (players (wmatch w)) = Some q"
      "first_maximal health (players (wmatch w)) q"
    using py_max_first_maximal by blast
  from a have d: "get_duration now ((wmatch w)\<lparr>status := FINISHED, end_time := Some now\<rparr>) = now - s"
    by (simp add: get_duration_end)
  from a have l: "length (alive_players (wmatch w)) \<noteq> 1" "length (alive_players (wmatch w)) \<noteq> 0"
    by auto
  from a q d l show "\<exists>q. winner_id (wmatch (end_match now w)) = Some (p_id q) \<and>
           first_maximal health (players (wmatch w)) q"
    by (intro exI [of _ q]) (simp add: end_match_def get_winner_def Let_def)
qed

theorem winner_selection_witness:
  "alive_players (wmatch (sample_world [sample_player ''a'' 0 False 1, sample_player ''b'' 40 True 0]))
     = [sample_player ''b'' 40 True 0]
   \<and> winner_id (wmatch (end_match 1050
         (sample_world [sample_player ''a'' 0 False 1, sample_player ''b'' 40 True 0]))) = Some ''b''
   \<and> alive_players (wmatch (sample_world [sample_player ''a'' 0 False 1, sample_player ''b'' 0 False 1]))
     = []
   \<and> winner_id (wmatch (end_match 1050
         (sample_world [sample_player ''a'' 0 False 1, sample_player ''b'' 0 False 1]))) = Some ''a''
   \<and> length (alive_players
         (wmatch (sample_world [sample_player ''a'' 30 True 0, sample_player ''b'' 70 True 0]))) \<ge> 2
   \<and> (1091 :: real) - 1000 > 90
   \<and> winner_id (wmatch (end_match 1091
         (sample_world [sample_player ''a'' 30 True 0, sample_player ''b'' 70 True 0]))) = Some ''b''"
  using
    winner_selection [of "sample_world [sample_player ''a'' 0 False 1, sample_player ''b'' 40 True 0]"
      "sample_player ''b'' 40 True 0" 1050 1000]
    winner_selection [of "sample_world [sample_player ''a'' 0 False 1, sample_player ''b'' 0 False 1]"
      "sample_player ''b'' 40 True 0" 1050 1000]
    winner_selection [of "sample_world [sample_player ''a'' 30 True 0, sample_player ''b'' 70 True 0]"
      "sample_player ''b'' 40 True 0" 1091 1000]
  by (simp add: sample_world_def sample_player_def new_player_def alive_players_def
      end_match_def get_winner_def get_duration_def py_max_def Let_def)

subsection \<open>What the operations leave alone\<close>

lemma same_frame_refl [simp]: "same_frame m m"
  by (simp add: same_frame_def)

lemma same_frame_trans: "same_frame a b \<Longrightarrow> same_frame b c \<Longrightarrow> same_frame a c"
  by (simp add: same_frame_def)

lemma map_p_id_update:
  "p_id y = p_id (xs ! i) \<Longrightarrow> map p_id (xs[i := y]) = map p_id xs"
  by (cases "i < length xs") (simp_all add: map_update list_update_same_conv list_update_beyond)

lemma same_frame_players:
  "same_frame m m' \<Longrightarrow> p_id p = p_id (players m' ! i) \<Longrightarrow>
     same_frame m (m'\<lparr>players := (players m')[i := p]\<rparr>)"
  by (simp add: same_frame_def map_p_id_update)

lemma first_index_bound: "first_index P xs = Some i \<Longrightarrow> i < length xs \<and> P (xs ! i)"
  by (induction xs arbitrary: i) (auto split: if_splits)

lemma first_index_before:
  "first_index P xs = Some i \<Longrightarrow> j < i \<Longrightarrow> \<not> P (xs ! j)"
proof (induction xs arbitrary: i j)
  case Nil
  then show ?case by simp
next
  case (Cons x xs)
  then show ?case by (cases j) (auto split: if_splits)
qed

lemma first_index_None: "first_index P xs = None \<longleftrightarrow> (\<forall>x\<in>set xs. \<not> P x)"
  by (induction xs) auto

lemma apply_damage_frame: "same_frame (wmatch w) (wmatch (apply_damage now pr i w))"
  by (auto simp: apply_damage_def Let_def same_frame_def get_player_state_def map_p_id_update
      split: prod.splits option.splits)

lemma apply_damage_projectiles:
  "projectiles (wmatch (apply_damage now pr i w)) = projectiles (wmatch w)"
  by (auto simp: apply_damage_def Let_def split: prod.splits option.splits)

lemma collide_projectile_frame: "same_frame (wmatch w) (wmatch (collide_projectile now w pr))"
  using apply_damage_frame [of w now pr]
  by (auto simp: collide_projectile_def Let_def same_frame_def split: option.splits)

lemma foldl_collide_frame:
  "same_frame (wmatch w) (wmatch (foldl (collide_projectile now) w prs))"
proof (induction prs arbitrary: w)
  case Nil
  show ?case by simp
next
  case (Cons pr prs)
  show ?case
    using collide_projectile_frame [of w now pr] Cons [of "collide_projectile now w pr"]
    by (auto intro: same_frame_trans)
qed

lemma check_collisions_frame: "same_frame (wmatch w) (wmatch (check_collisions now w))"
  by (simp add: check_collisions_def foldl_collide_frame)

lemma update_projectiles_frame: "same_frame (wmatch w) (wmatch (update_projectiles now w))"
  by (simp add: update_projectiles_def same_frame_def Let_def split: prod.splits)

lemma update_projectiles_players:
  "players (wmatch (update_projectiles now w)) = players (wmatch w)"
  by (simp add: update_projectiles_def Let_def split: prod.splits)

lemma move_player_fields:
  "p_id (move_player physics inp p) = p_id p"
  "health (move_player physics inp p) = health p"
  "is_alive (move_player physics inp p) = is_alive p"
  "deaths (move_player physics inp p) = deaths p"
  "kills (move_player physics inp p) = kills p"
  "weapons (move_player physics inp p) = weapons p"
  "weapon_cooldown (move_player physics inp p) = weapon_cooldown p"
  by (simp_all add: move_player_def Let_def split del: if_split)

lemma handle_player_input_frame:
  "same_frame (wmatch w) (wmatch (handle_player_input now pid inp w))"
  by (auto simp: handle_player_input_def Let_def move_player_fields
      intro!: same_frame_players split: prod.splits option.splits)

lemma create_projectile_frame:
  "same_frame m (create_projectile now player weapon target physics m)"
  by (auto simp: create_projectile_def Let_def same_frame_def split: prod.splits option.splits)

lemma area_hit_ids: "map p_id (area_hit i weapon tx ty physics ps j) = map p_id ps"
  by (auto simp: area_hit_def Let_def map_p_id_update)

lemma foldl_area_hit_ids:
  "map p_id (foldl (area_hit i weapon tx ty physics) ps js) = map p_id ps"
  by (induction js arbitrary: ps) (simp_all add: area_hit_ids)

lemma create_area_effect_frame:
  "same_frame m (create_area_effect i weapon target physics m)"
  by (auto simp: create_area_effect_def Let_def same_frame_def foldl_area_hit_ids
      split: prod.splits option.splits)

lemma use_weapon_frame: "same_frame (wmatch w) (wmatch (use_weapon now pid wid target w))"
  by (auto simp: use_weapon_def Let_def create_projectile_frame create_area_effect_frame
      intro!: same_frame_players split: prod.splits option.splits)

lemma handle_weapon_use_frame:
  "same_frame (wmatch w) (wmatch (handle_weapon_use now pid wid target w))"
  by (simp add: handle_weapon_use_def use_weapon_frame)

lemma handle_weapon_generation_frame:
  "same_frame (wmatch w) (wmatch (snd (handle_weapon_generation now fresh ai h pid prompt mid w)))"
  by (auto simp: handle_weapon_generation_def Let_def same_frame_def map_p_id_update
      split: prod.splits option.splits)

lemma end_match_status: "status (wmatch (end_match now w)) = FINISHED"
  by (simp add: end_match_def Let_def split: option.splits)

lemma get_duration_frame: "same_frame m m' \<Longrightarrow> get_duration now m' = get_duration now m"
  by (simp add: same_frame_def get_duration_def split: option.splits)

subsection \<open>Damage and dead players\<close>

lemma life_step_refl [simp]: "life_step p p"
  by (simp add: life_step_def)

lemma life_step_trans: "life_step a b \<Longrightarrow> life_step b c \<Longrightarrow> life_step a c"
  by (auto simp: life_step_def)

lemma list_all2_life_refl [simp]: "list_all2 life_step ps ps"
  by (simp add: list_all2_refl)

lemma list_all2_life_trans:
  "list_all2 life_step a b \<Longrightarrow> list_all2 life_step b c \<Longrightarrow> list_all2 life_step a c"
  using list_all2_trans [of life_step life_step life_step a b c] life_step_trans by blast

lemma list_all2_update_life:
  "life_step (ps ! i) p \<Longrightarrow> list_all2 life_step ps (ps[i := p])"
  by (cases "i < length ps")
     (simp_all add: list_all2_conv_all_nth nth_list_update list_update_beyond)

lemma first_index_map: "first_index (\<lambda>p. P (f p)) xs = first_index P (map f xs)"
  by (induction xs) simp_all

lemma get_player_state_ids:
  "map p_id (players m') = map p_id (players m) \<Longrightarrow>
     get_player_state m' x = get_player_state m x"
  by (simp add: get_player_state_def first_index_map [of "\<lambda>y. y = x" p_id])

lemma get_player_state_update:
  "p_id x = p_id (players m ! i) \<Longrightarrow>
     get_player_state (m\<lparr>players := (players m)[i := x]\<rparr>) s = get_player_state m s"
  by (rule get_player_state_ids) (simp add: map_p_id_update)

lemma apply_damage_players:
  "players (wmatch (apply_damage now pr i w)) =
     (let ps = players (wmatch w);
          ps1 = ps[i := damaged (hit_damage now pr w) (ps ! i)]
      in if max 0 (health (ps ! i) - hit_damage now pr w) \<le> 0 then
           (case get_player_state (wmatch w) (pr_player_id pr) of
              None \<Rightarrow> ps1
            | Some j \<Rightarrow> ps1[j := (ps1 ! j)\<lparr>kills := kills (ps1 ! j) + 1\<rparr>])
         else ps1)"
proof -
  obtain physics eng' where
    c: "calculate_current_physics now (m_id (wmatch w)) (wengine w) = (physics, eng')"
    by fastforce
  then have d: "py_int (real_of_int (pr_damage pr) * damage_multiplier physics) = hit_damage now pr w"
    by (simp add: hit_damage_def)
  show ?thesis
  proof (cases "max 0 (health (players (wmatch w) ! i) - hit_damage now pr w) \<le> 0")
    case True
    then show ?thesis
      by (simp add: apply_damage_def Let_def c d damaged_def get_player_state_update
          split: option.splits)
  next
    case False
    then show ?thesis
      by (simp add: apply_damage_def Let_def c d damaged_def)
  qed
qed

lemma life_step_damaged: "is_alive p \<Longrightarrow> life_step p (damaged d p)"
  by (simp add: life_step_def damaged_def)

lemma life_step_kills [simp]: "life_step p (p\<lparr>kills := k\<rparr>)"
  by (simp add: life_step_def)

lemma apply_damage_life:
  assumes "is_alive (players (wmatch w) ! i)"
  shows "list_all2 life_step (players (wmatch w)) (players (wmatch (apply_damage now pr i w)))"
proof -
  let ?ps = "players (wmatch w)"
  let ?ps1 = "?ps[i := damaged (hit_damage now pr w) (?ps ! i)]"
  have 1: "list_all2 life_step ?ps ?ps1"
    using assms by (intro list_all2_update_life life_step_damaged)
  have 2: "\<And>j. list_all2 life_step ?ps1 (?ps1[j := (?ps1 ! j)\<lparr>kills := kills (?ps1 ! j) + 1\<rparr>])"
    by (intro list_all2_update_life) simp
  show ?thesis
    using 1 2 list_all2_life_trans
    by (auto simp: apply_damage_players Let_def split: option.splits)
qed

lemma collide_projectile_life:
  "list_all2 life_step (players (wmatch w)) (players (wmatch (collide_projectile now w pr)))"
proof (cases "first_index (collides pr) (players (wmatch w))")
  case None
  then show ?thesis by (simp add: collide_projectile_def)
next
  case (Some i)
  then have "is_alive (players (wmatch w) ! i)"
    using first_index_bound [of "collides pr" "players (wmatch w)" i] by (simp add: collides_def)
  then show ?thesis
    using Some apply_damage_life [of w i now pr] by (simp add: collide_projectile_def Let_def)
qed

lemma foldl_collide_life:
  "list_all2 life_step (players (wmatch w))
     (players (wmatch (foldl (collide_projectile now) w prs)))"
proof (induction prs arbitrary: w)
  case Nil
  show ?case by simp
next
  case (Cons pr prs)
  show ?case
    using list_all2_life_trans [OF collide_projectile_life [of w now pr]
        Cons [of "collide_projectile now w pr"]]
    by simp
qed

lemma check_collisions_life:
  "list_all2 life_step (players (wmatch w)) (players (wmatch (check_collisions now w)))"
  by (simp add: check_collisions_def foldl_collide_life)

lemma area_hit_players:
  "area_hit i weapon tx ty physics ps j =
     (let ps1 = ps[j := damaged (area_damage weapon physics) (ps ! j)]
      in if p_id (ps ! j) \<noteq> p_id (ps ! i) \<and> is_alive (ps ! j) \<and> in_area weapon tx ty (ps ! j)
         then (if max 0 (health (ps ! j) - area_damage weapon physics) \<le> 0
               then ps1[i := (ps1 ! i)\<lparr>kills := kills (ps1 ! i) + 1\<rparr>] else ps1)
         else ps)"
  by (simp add: area_hit_def Let_def damaged_def area_damage_def in_area_def)

lemma area_hit_life: "list_all2 life_step ps (area_hit i weapon tx ty physics ps j)"
proof -
  let ?ps1 = "ps[j := damaged (area_damage weapon physics) (ps ! j)]"
  have 1: "is_alive (ps ! j) \<Longrightarrow> list_all2 life_step ps ?ps1"
    by (intro list_all2_update_life life_step_damaged)
  have 2: "list_all2 life_step ?ps1 (?ps1[i := (?ps1 ! i)\<lparr>kills := kills (?ps1 ! i) + 1\<rparr>])"
    by (intro list_all2_update_life) simp
  have 3: "is_alive (ps ! j) \<Longrightarrow>
     list_all2 life_step ps (?ps1[i := (?ps1 ! i)\<lparr>kills := kills (?ps1 ! i) + 1\<rparr>])"
    using 1 2 list_all2_life_trans by blast
  show ?thesis
    using 1 3 by (simp add: area_hit_players Let_def)
qed

lemma foldl_area_hit_life:
  "list_all2 life_step ps (foldl (area_hit i weapon tx ty physics) ps js)"
proof (induction js arbitrary: ps)
  case Nil
  show ?case by simp
next
  case (Cons j js)
  show ?case
    using list_all2_life_trans [OF area_hit_life [of ps i weapon tx ty physics j]
        Cons [of "area_hit i weapon tx ty physics ps j"]]
    by simp
qed

lemma create_area_effect_life:
  "list_all2 life_step (players m) (players (create_area_effect i weapon target physics m))"
  by (simp add: create_area_effect_def foldl_area_hit_life split: option.splits)

lemma create_projectile_players:
  "players (create_projectile now player weapon target physics m) = players m"
  by (simp add: create_projectile_def Let_def split: option.splits)

lemma life_step_cooldown [simp]: "life_step p (p\<lparr>weapon_cooldown := c\<rparr>)"
  by (simp add: life_step_def)

lemma use_weapon_life:
  "list_all2 life_step (players (wmatch w)) (players (wmatch (use_weapon now pid wid target w)))"
proof -
  have a: "\<And>ps ps' i c. list_all2 life_step ps ps' \<Longrightarrow>
      list_all2 life_step ps (ps'[i := (ps' ! i)\<lparr>weapon_cooldown := c\<rparr>])"
    by (rule list_all2_life_trans, assumption, rule list_all2_update_life) simp
  show ?thesis
    by (auto simp: use_weapon_def Let_def create_projectile_players create_area_effect_life
        intro!: a split: option.splits prod.splits)
qed

lemma life_step_move [simp]: "life_step p (move_player physics inp p)"
  by (simp add: life_step_def move_player_fields)

lemma handle_player_input_life:
  "list_all2 life_step (players (wmatch w))
     (players (wmatch (handle_player_input now pid inp w)))"
  by (auto simp: handle_player_input_def Let_def intro!: list_all2_update_life
      split: option.splits prod.splits)

lemma life_step_weapons [simp]: "life_step p (p\<lparr>weapon_cooldown := c, weapons := ws\<rparr>)"
  by (simp add: life_step_def)

lemma handle_weapon_generation_life:
  "list_all2 life_step (players (wmatch w))
     (players (wmatch (snd (handle_weapon_generation now fresh ai h pid prompt mid w))))"
  by (auto simp: handle_weapon_generation_def Let_def intro!: list_all2_update_life
      split: option.splits prod.splits)

lemma end_match_players: "players (wmatch (end_match now w)) = players (wmatch w)"
  by (simp add: end_match_def Let_def split: option.splits)

lemma update_match_life:
  assumes "update_match now w = Some w'"
  shows "list_all2 life_step (players (wmatch w)) (players (wmatch w'))"
proof (cases "status (wmatch w) = ACTIVE")
  case True
  let ?w2 = "check_collisions now (update_projectiles now w)"
  have "list_all2 life_step (players (wmatch w)) (players (wmatch ?w2))"
    using check_collisions_life [of "update_projectiles now w" now]
    by (simp add: update_projectiles_players)
  moreover have "players (wmatch w') = players (wmatch ?w2)"
    using assms True by (auto simp: update_match_def Let_def end_match_players split: if_splits)
  ultimately show ?thesis by simp
next
  case False
  then have "w' = w"
    using assms by (auto simp: update_match_def Let_def split: if_splits option.splits)
  then show ?thesis by simp
qed

text \<open>
  C10. Collision resolution and area effects skip every player whose \<^verbatim>\<open>is_alive\<close> is false:
  over \<^verbatim>\<open>_check_collisions\<close>, over \<^verbatim>\<open>_create_area_effect\<close>, and over every operation on a
  match other than \<^verbatim>\<open>start_match\<close>, joining and removal (which reset or change the player
  list), a dead player keeps health and death count and stays dead, and a death count
  grows by at most one, only for a player who goes from alive to dead.
\<close>

theorem dead_players_untouched:
  "list_all2 life_step (players (wmatch w)) (players (wmatch (check_collisions now w))) \<and>
   list_all2 life_step (players m) (players (create_area_effect i weapon target physics m)) \<and>
   (step e w = Some w' \<and> (\<forall>t. e \<noteq> StartMatch t) \<and> (\<forall>p. e \<noteq> FindMatch p) \<and>
    (\<forall>t p. e \<noteq> RemovePlayer t p) \<longrightarrow>
      list_all2 life_step (players (wmatch w)) (players (wmatch w')))"
proof (intro conjI impI)
  show "list_all2 life_step (players (wmatch w)) (players (wmatch (check_collisions now w)))"
    by (rule check_collisions_life)
  show "list_all2 life_step (players m) (players (create_area_effect i weapon target physics m))"
    by (rule create_area_effect_life)
  assume a: "step e w = Some w' \<and> (\<forall>t. e \<noteq> StartMatch t) \<and> (\<forall>p. e \<noteq> FindMatch p) \<and>
    (\<forall>t p. e \<noteq> RemovePlayer t p)"
  show "list_all2 life_step (players (wmatch w)) (players (wmatch w'))"
  proof (cases e)
    case (UpdateMatches now)
    with a show ?thesis using update_match_life by simp
  next
    case (PlayerInput now pid inp)
    with a show ?thesis using handle_player_input_life [of w now pid inp] by auto
  next
    case (WeaponUse now pid wid target)
    with a show ?thesis using use_weapon_life [of w now pid wid target]
      by (auto simp: handle_weapon_use_def)
  next
    case (WeaponGenerate now fresh ai h pid prompt mid)
    with a show ?thesis using handle_weapon_generation_life [of w now fresh ai h pid prompt mid]
      by auto
  next
    case (MasterPrompt now rnd prompt)
    with a show ?thesis by (auto simp: handle_master_prompt_def Let_def)
  next
    case (SchedulerPrompt now rnd prompt)
    with a show ?thesis by (auto simp: master_prompt_scheduler_def Let_def)
  qed (use a in auto)
qed

theorem dead_players_untouched_witness:
  "\<not> is_alive (players (wmatch (sample_world
        [sample_player ''a'' 0 False 1,
         (sample_player ''b'' 40 True 0)\<lparr>weapons := [sample_weapon ''w1'' AREA_EFFECT 60]\<rparr>])) ! 0)
   \<and> health (players (wmatch (handle_weapon_use 1050 ''b'' ''w1'' (sample_target 200 500)
        (sample_world
          [sample_player ''a'' 0 False 1,
           (sample_player ''b'' 40 True 0)\<lparr>weapons := [sample_weapon ''w1'' AREA_EFFECT 60]\<rparr>]))) ! 0)
       = 0"
proof -
  let ?w = "sample_world
        [sample_player ''a'' 0 False 1,
         (sample_player ''b'' 40 True 0)\<lparr>weapons := [sample_weapon ''w1'' AREA_EFFECT 60]\<rparr>]"
  let ?e = "WeaponUse 1050 ''b'' ''w1'' (sample_target 200 500)"
  let ?w' = "handle_weapon_use 1050 ''b'' ''w1'' (sample_target 200 500) ?w"
  have s: "step ?e ?w = Some ?w'" by simp
  have "list_all2 life_step (players (wmatch ?w)) (players (wmatch ?w'))"
    using dead_players_untouched [of ?w 1050 "wmatch ?w" 0 "sample_weapon ''w1'' AREA_EFFECT 60"
        "sample_target 200 500" base_physics ?e ?w'] s
    by blast
  moreover have l: "0 < length (players (wmatch ?w))" by (simp add: sample_world_def)
  ultimately have "life_step (players (wmatch ?w) ! 0) (players (wmatch ?w') ! 0)"
    by (rule list_all2_nthD)
  moreover have "\<not> is_alive (players (wmatch ?w) ! 0)" "health (players (wmatch ?w) ! 0) = 0"
    by (simp_all add: sample_world_def sample_player_def new_player_def)
  ultimately show ?thesis by (simp add: life_step_def)
qed

lemma lobby_players:
  "players (wmatch lobby) = [new_player ''a'' 200 500, new_player ''b'' 1000 500]"
  by (simp add: lobby_def start_match_def join_match_def create_match_def Let_def py_int_def
      new_player_def reset_player_def)

subsection \<open>The transition to FINISHED\<close>

lemma filter_alive_life:
  "list_all2 life_step ps ps' \<Longrightarrow> length (filter is_alive ps') \<le> length (filter is_alive ps)"
proof (induction rule: list_all2_induct)
  case Nil
  show ?case by simp
next
  case (Cons p ps p' ps')
  then show ?case by (auto simp: life_step_def)
qed

lemma is_finished_active:
  assumes "status m = ACTIVE" "start_time m = Some s" "s \<noteq> 0" "end_time m = None"
  shows "is_finished now m \<longleftrightarrow> length (filter is_alive (players m)) \<le> 1 \<or> now - s > 90"
  using assms by (simp add: is_finished_def alive_players_def get_duration_def)

lemma update_match_active:
  assumes "update_match now w = Some w'" "status (wmatch w) = ACTIVE"
  shows "players (wmatch w') = players (wmatch (check_collisions now (update_projectiles now w)))"
    and "status (wmatch w') = FINISHED \<longleftrightarrow>
           is_finished now (wmatch (check_collisions now (update_projectiles now w)))"
proof -
  let ?w2 = "check_collisions now (update_projectiles now w)"
  have fr: "same_frame (wmatch w) (wmatch ?w2)"
    using update_projectiles_frame check_collisions_frame same_frame_trans by blast
  then have st: "status (wmatch ?w2) = ACTIVE" using assms(2) by (simp add: same_frame_def)
  have w': "w' = (if is_finished now (wmatch ?w2) then end_match now ?w2 else ?w2)"
    using assms by (simp add: update_match_def Let_def split: if_splits)
  show "players (wmatch w') = players (wmatch ?w2)"
    by (simp add: w' end_match_players)
  show "status (wmatch w') = FINISHED \<longleftrightarrow> is_finished now (wmatch ?w2)"
    using st by (simp add: w' end_match_status)
qed

lemma update_match_tick:
  assumes "update_match now w = Some w'" "status (wmatch w) = ACTIVE"
    "start_time (wmatch w) = Some s" "s \<noteq> 0" "end_time (wmatch w) = None"
  shows "status (wmatch w') = FINISHED \<longleftrightarrow>
           length (filter is_alive (players (wmatch w'))) \<le> 1 \<or> now - s > 90"
proof -
  let ?w2 = "check_collisions now (update_projectiles now w)"
  have fr: "same_frame (wmatch w) (wmatch ?w2)"
    using update_projectiles_frame check_collisions_frame same_frame_trans by blast
  then have m2: "status (wmatch ?w2) = ACTIVE" "start_time (wmatch ?w2) = Some s"
      "end_time (wmatch ?w2) = None"
    using assms by (simp_all add: same_frame_def)
  show ?thesis
    using update_match_active [OF assms(1,2)] is_finished_active [OF m2(1,2) assms(4) m2(3), of now]
    by simp
qed

lemma update_match_few_alive:
  assumes "update_match now w = Some w'" "status (wmatch w) = ACTIVE"
    "length (filter is_alive (players (wmatch w))) \<le> 1"
  shows "status (wmatch w') = FINISHED"
proof -
  let ?w2 = "check_collisions now (update_projectiles now w)"
  have "list_all2 life_step (players (wmatch w)) (players (wmatch ?w2))"
    using check_collisions_life [of "update_projectiles now w" now]
    by (simp add: update_projectiles_players)
  then have "length (filter is_alive (players (wmatch ?w2))) \<le> 1"
    using filter_alive_life assms(3) by fastforce
  then have "is_finished now (wmatch ?w2)" by (simp add: is_finished_def alive_players_def)
  then show ?thesis using update_match_active(2) [OF assms(1,2)] by simp
qed

lemma update_match_other:
  assumes "update_match now w = Some w'" "status (wmatch w) \<noteq> ACTIVE"
  shows "status (wmatch w') = status (wmatch w)"
  using assms
  by (cases "status (wmatch w)")
     (simp_all add: update_match_def Let_def split: if_splits option.splits)

lemma remove_player_status:
  "status (wmatch (remove_player now pid w)) =
     (if status (wmatch w) = ACTIVE \<and> player_match_map w pid = Some (m_id (wmatch w)) \<and>
         length (players (wmatch (remove_player now pid w))) < 2
      then FINISHED else status (wmatch w))"
  by (auto simp: remove_player_def Let_def end_match_status end_match_players
      split: option.splits)

lemma same_frame_status: "same_frame (wmatch w) (wmatch w') \<Longrightarrow> status (wmatch w') = status (wmatch w)"
  by (simp add: same_frame_def)

lemma step_status_other:
  assumes "step e w = Some w'" "\<forall>now. e \<noteq> UpdateMatches now" "\<forall>now pid. e \<noteq> RemovePlayer now pid"
  shows "status (wmatch w') = status (wmatch w) \<or> status (wmatch w') = ACTIVE"
proof (cases e)
  case (FindMatch pid)
  with assms show ?thesis by (auto simp: join_match_def Let_def)
next
  case (StartMatch now)
  with assms show ?thesis by (auto simp: start_match_def Let_def)
next
  case (PlayerInput now pid inp)
  with assms show ?thesis
    using same_frame_status [OF handle_player_input_frame [of w now pid inp]] by auto
next
  case (WeaponUse now pid wid target)
  with assms show ?thesis
    using same_frame_status [OF handle_weapon_use_frame [of w now pid wid target]] by auto
next
  case (WeaponGenerate now fresh ai h pid prompt mid)
  with assms show ?thesis
    using same_frame_status [OF handle_weapon_generation_frame [of w now fresh ai h pid prompt mid]]
    by auto
next
  case (MasterPrompt now rnd prompt)
  with assms show ?thesis by (auto simp: handle_master_prompt_def Let_def)
next
  case (SchedulerPrompt now rnd prompt)
  with assms show ?thesis by (auto simp: master_prompt_scheduler_def Let_def)
qed (use assms in auto)

lemma same_frame_clock: "same_frame m m' \<Longrightarrow> clock_set m \<Longrightarrow> clock_set m'"
  by (simp add: same_frame_def clock_set_def)

lemma clock_fields:
  "status m' = status m \<Longrightarrow> start_time m' = start_time m \<Longrightarrow> end_time m' = end_time m \<Longrightarrow>
     clock_set m \<Longrightarrow> clock_set m'"
  by (simp add: clock_set_def)

lemma join_match_fields:
  "status (wmatch (join_match pid w)) = status (wmatch w)"
  "start_time (wmatch (join_match pid w)) = start_time (wmatch w)"
  "end_time (wmatch (join_match pid w)) = end_time (wmatch w)"
  by (simp_all add: join_match_def Let_def)

lemma start_match_clock:
  "clock_set (wmatch w) \<Longrightarrow> status (wmatch w) = WAITING \<Longrightarrow> now \<noteq> 0 \<Longrightarrow>
     clock_set (wmatch (start_match now w))"
  by (simp add: start_match_def Let_def clock_set_def)

lemma end_match_clock: "clock_set (wmatch (end_match now w))"
  by (simp add: clock_set_def end_match_status)

lemma step_clock:
  assumes "clock_set (wmatch w)" "wired e w" "step e w = Some w'"
  shows "clock_set (wmatch w')"
proof (cases e)
  case (FindMatch pid)
  with assms show ?thesis
    using clock_fields [OF join_match_fields [of pid w]] by auto
next
  case (StartMatch now)
  with assms show ?thesis using start_match_clock [of w now] by (auto simp: wired_def)
next
  case (UpdateMatches now)
  let ?w2 = "check_collisions now (update_projectiles now w)"
  have fr: "same_frame (wmatch w) (wmatch ?w2)"
    using update_projectiles_frame check_collisions_frame same_frame_trans by blast
  have "w' = w \<or> w' = ?w2 \<or> w' = end_match now ?w2"
    using assms(3) UpdateMatches
    by (auto simp: update_match_def Let_def split: if_splits option.splits)
  then show ?thesis
    using assms(1) same_frame_clock [OF fr] end_match_clock by auto
next
  case (PlayerInput now pid inp)
  with assms show ?thesis
    using same_frame_clock [OF handle_player_input_frame [of w now pid inp]] by auto
next
  case (WeaponUse now pid wid target)
  with assms show ?thesis
    using same_frame_clock [OF handle_weapon_use_frame [of w now pid wid target]] by auto
next
  case (RemovePlayer now pid)
  let ?w1 = "w\<lparr>wmatch := (wmatch w)\<lparr>players := filter (\<lambda>p. p_id p \<noteq> pid) (players (wmatch w))\<rparr>\<rparr>"
  have 1: "clock_set (wmatch ?w1)" using assms(1) by (simp add: clock_set_def)
  have "wmatch w' = wmatch w \<or> wmatch w' = wmatch ?w1 \<or> wmatch w' = wmatch (end_match now ?w1)"
    using assms(3) RemovePlayer by (auto simp: remove_player_def Let_def split: option.splits)
  then show ?thesis using assms(1) 1 end_match_clock [of now ?w1] by auto
next
  case (WeaponGenerate now fresh ai h pid prompt mid)
  with assms show ?thesis
    using same_frame_clock [OF handle_weapon_generation_frame [of w now fresh ai h pid prompt mid]]
    by auto
next
  case (MasterPrompt now rnd prompt)
  with assms show ?thesis by (auto simp: handle_master_prompt_def Let_def)
next
  case (SchedulerPrompt now rnd prompt)
  have "status (wmatch (master_prompt_scheduler now rnd prompt w)) = status (wmatch w)"
    "start_time (wmatch (master_prompt_scheduler now rnd prompt w)) = start_time (wmatch w)"
    "end_time (wmatch (master_prompt_scheduler now rnd prompt w)) = end_time (wmatch w)"
    by (simp_all add: master_prompt_scheduler_def Let_def)
  from clock_fields [OF this] SchedulerPrompt assms show ?thesis by auto
qed

lemma served_clock: "served w \<Longrightarrow> clock_set (wmatch w)"
proof (induction rule: served.induct)
  case (created now player_id)
  show ?case by (simp add: create_match_def clock_set_def Let_def)
next
  case (stepped w e w')
  then show ?case using step_clock by blast
qed

lemma update_match_some:
  "status (wmatch w) = ACTIVE \<Longrightarrow> \<exists>w'. update_match now w = Some w'"
  by (simp add: update_match_def Let_def)

lemma quiet_tick_players:
  "projectiles (wmatch w) = [] \<Longrightarrow>
     players (wmatch (check_collisions now (update_projectiles now w))) = players (wmatch w)"
  by (simp add: check_collisions_def update_projectiles_def Let_def split: prod.splits)

lemma lobby_served: "served lobby"
proof -
  have 0: "served (create_match 1000 ''a'')" by (rule served.created)
  have 1: "served (join_match ''b'' (create_match 1000 ''a''))"
    by (rule served.stepped [OF 0, of "FindMatch ''b''"]) (simp_all add: wired_def)
  have 2: "status (wmatch (join_match ''b'' (create_match 1000 ''a''))) = WAITING"
    by (simp add: join_match_def create_match_def Let_def)
  show ?thesis
    unfolding lobby_def
    by (rule served.stepped [OF 1, of "StartMatch 1001"]) (simp_all add: wired_def 2)
qed

lemma lobby_match:
  "status (wmatch lobby) = ACTIVE" "start_time (wmatch lobby) = Some 1001"
  "end_time (wmatch lobby) = None" "m_id (wmatch lobby) = 1000000"
  "projectiles (wmatch lobby) = []" "player_match_map lobby ''a'' = Some 1000000"
  by (simp_all add: lobby_def start_match_def join_match_def create_match_def Let_def py_int_def)

text \<open>
  C1, as the code has it. For every operation on a match that is \<^verbatim>\<open>ACTIVE\<close>, has its start
  time \<open>s\<close> and no end time: the status becomes \<^verbatim>\<open>FINISHED\<close> if and only if the operation is
  a tick of \<^verbatim>\<open>update_matches\<close> that leaves at most one player alive or runs at an instant
  \<open>now\<close> with \<open>now - s > 90\<close>, or it is \<^verbatim>\<open>remove_player\<close> for a player mapped to this match
  and fewer than two players are left. A tick of an \<^verbatim>\<open>ACTIVE\<close> match that starts with at
  most one player alive always finishes it. A match that is neither \<^verbatim>\<open>ACTIVE\<close> nor
  \<^verbatim>\<open>FINISHED\<close> is never set to \<^verbatim>\<open>FINISHED\<close>. Under the wiring of \<^verbatim>\<open>main.py\<close> every \<^verbatim>\<open>ACTIVE\<close>
  match has a start time and no end time.
\<close>

theorem finish_transition:
  assumes "step e w = Some w'"
  shows
   "(status (wmatch w) = ACTIVE \<and> start_time (wmatch w) = Some s \<and> s \<noteq> 0 \<and>
     end_time (wmatch w) = None \<longrightarrow>
       (status (wmatch w') = FINISHED \<longleftrightarrow>
          (\<exists>now. e = UpdateMatches now \<and>
             (length (filter is_alive (players (wmatch w'))) \<le> 1 \<or> now - s > 90)) \<or>
          (\<exists>now player_id. e = RemovePlayer now player_id \<and>
             player_match_map w player_id = Some (m_id (wmatch w)) \<and>
             length (players (wmatch w')) < 2))) \<and>
    (status (wmatch w) = ACTIVE \<and> (\<exists>now. e = UpdateMatches now) \<and>
     length (filter is_alive (players (wmatch w))) \<le> 1 \<longrightarrow>
       status (wmatch w') = FINISHED) \<and>
    (status (wmatch w) \<noteq> ACTIVE \<and> status (wmatch w) \<noteq> FINISHED \<longrightarrow>
       status (wmatch w') \<noteq> FINISHED) \<and>
    (served w \<and> status (wmatch w) = ACTIVE \<longrightarrow>
       end_time (wmatch w) = None \<and> (\<exists>t. start_time (wmatch w) = Some t \<and> t \<noteq> 0))"
proof (intro conjI impI)
  assume a: "status (wmatch w) = ACTIVE \<and> start_time (wmatch w) = Some s \<and> s \<noteq> 0 \<and>
     end_time (wmatch w) = None"
  show "status (wmatch w') = FINISHED \<longleftrightarrow>
          (\<exists>now. e = UpdateMatches now \<and>
             (length (filter is_alive (players (wmatch w'))) \<le> 1 \<or> now - s > 90)) \<or>
          (\<exists>now player_id. e = RemovePlayer now player_id \<and>
             player_match_map w player_id = Some (m_id (wmatch w)) \<and>
             length (players (wmatch w')) < 2)"
  proof (cases e)
    case (UpdateMatches now)
    then have "update_match now w = Some w'" using assms by simp
    from update_match_tick [OF this, of s] a UpdateMatches show ?thesis by simp
  next
    case (RemovePlayer now pid)
    then have "w' = remove_player now pid w" using assms by simp
    with a RemovePlayer remove_player_status [of now pid w] show ?thesis by simp
  next
    case (FindMatch pid)
    with step_status_other [OF assms] a show ?thesis by auto
  next
    case (StartMatch now)
    with step_status_other [OF assms] a show ?thesis by auto
  next
    case (PlayerInput now pid inp)
    with step_status_other [OF assms] a show ?thesis by auto
  next
    case (WeaponUse now pid wid target)
    with step_status_other [OF assms] a show ?thesis by auto
  next
    case (WeaponGenerate now fresh ai h pid prompt mid)
    with step_status_other [OF assms] a show ?thesis by auto
  next
    case (MasterPrompt now rnd prompt)
    with step_status_other [OF assms] a show ?thesis by auto
  next
    case (SchedulerPrompt now rnd prompt)
    with step_status_other [OF assms] a show ?thesis by auto
  qed
next
  assume a: "status (wmatch w) = ACTIVE \<and> (\<exists>now. e = UpdateMatches now) \<and>
     length (filter is_alive (players (wmatch w))) \<le> 1"
  then obtain now where "e = UpdateMatches now" by blast
  then have "update_match now w = Some w'" using assms by simp
  from update_match_few_alive [OF this] a show "status (wmatch w') = FINISHED" by simp
next
  assume a: "status (wmatch w) \<noteq> ACTIVE \<and> status (wmatch w) \<noteq> FINISHED"
  show "status (wmatch w') \<noteq> FINISHED"
  proof (cases e)
    case (UpdateMatches now)
    then have "update_match now w = Some w'" using assms by simp
    from update_match_other [OF this] a show ?thesis by simp
  next
    case (RemovePlayer now pid)
    then have "w' = remove_player now pid w" using assms by simp
    with a remove_player_status [of now pid w] show ?thesis by simp
  next
    case (FindMatch pid)
    with step_status_other [OF assms] a show ?thesis by auto
  next
    case (StartMatch now)
    with step_status_other [OF assms] a show ?thesis by auto
  next
    case (PlayerInput now pid inp)
    with step_status_other [OF assms] a show ?thesis by auto
  next
    case (WeaponUse now pid wid target)
    with step_status_other [OF assms] a show ?thesis by auto
  next
    case (WeaponGenerate now fresh ai h pid prompt mid)
    with step_status_other [OF assms] a show ?thesis by auto
  next
    case (MasterPrompt now rnd prompt)
    with step_status_other [OF assms] a show ?thesis by auto
  next
    case (SchedulerPrompt now rnd prompt)
    with step_status_other [OF assms] a show ?thesis by auto
  qed
next
  assume "served w \<and> status (wmatch w) = ACTIVE"
  then have "clock_set (wmatch w)" "status (wmatch w) = ACTIVE" using served_clock by blast+
  then show "end_time (wmatch w) = None" by (simp add: clock_set_def)
next
  assume "served w \<and> status (wmatch w) = ACTIVE"
  then have "clock_set (wmatch w)" "status (wmatch w) = ACTIVE" using served_clock by blast+
  then show "\<exists>t. start_time (wmatch w) = Some t \<and> t \<noteq> 0" by (simp add: clock_set_def)
qed

text \<open>
  The claim's \<open>for every match\<close> fails: a match that waits with its single player has at
  most one player alive, and the tick leaves it \<^verbatim>\<open>WAITING\<close>.
\<close>

theorem finish_transition_counterexample:
  "status_of (create_match 1000 ''a'') = WAITING
   \<and> length (filter is_alive (players (wmatch (create_match 1000 ''a'')))) \<le> 1
   \<and> map_option status_of (step (UpdateMatches 1200) (create_match 1000 ''a'')) = Some WAITING"
  by (simp add: status_of_def create_match_def Let_def update_match_def new_player_def)

theorem finish_transition_witness:
  "map_option status_of (step (UpdateMatches 1050)
      (sample_world [sample_player ''a'' 0 False 1, sample_player ''b'' 40 True 0])) = Some FINISHED
   \<and> (1092 :: real) - 1001 > 90
   \<and> map_option status_of (step (UpdateMatches 1092) lobby) = Some FINISHED
   \<and> map_option status_of (step (UpdateMatches 1002) lobby) \<noteq> Some FINISHED
   \<and> map_option status_of (step (RemovePlayer 1002 ''a'') lobby) = Some FINISHED
   \<and> status_of (create_match 1000 ''a'') = WAITING
   \<and> map_option status_of (step (FindMatch ''b'') (create_match 1000 ''a'')) \<noteq> Some FINISHED
   \<and> served lobby \<and> end_time (wmatch lobby) = None"
proof -
  let ?sw = "sample_world [sample_player ''a'' 0 False 1, sample_player ''b'' 40 True 0]"
  have sw: "status (wmatch ?sw) = ACTIVE"
    "length (filter is_alive (players (wmatch ?sw))) \<le> 1"
    by (simp_all add: sample_world_def sample_player_def new_player_def)
  obtain w1 where w1: "step (UpdateMatches 1050) ?sw = Some w1"
    using update_match_some [OF sw(1), of 1050] by auto
  have r1: "status (wmatch w1) = FINISHED"
    using finish_transition [OF w1, of 0, THEN conjunct2, THEN conjunct1] sw by blast
  obtain w2 where w2: "step (UpdateMatches 1092) lobby = Some w2"
    using update_match_some [OF lobby_match(1), of 1092] by auto
  have r2: "status (wmatch w2) = FINISHED"
    using finish_transition [OF w2, of 1001, THEN conjunct1] lobby_match by simp
  obtain w3 where w3: "step (UpdateMatches 1002) lobby = Some w3"
    using update_match_some [OF lobby_match(1), of 1002] by auto
  have "players (wmatch w3) = players (wmatch lobby)"
    using update_match_active(1) [of 1002 lobby w3] w3 lobby_match
    by (simp add: quiet_tick_players)
  then have a3: "length (filter is_alive (players (wmatch w3))) = 2"
    by (simp add: lobby_players new_player_def)
  have r3: "status (wmatch w3) \<noteq> FINISHED"
    using finish_transition [OF w3, of 1001, THEN conjunct1] lobby_match a3 by simp
  let ?w4 = "remove_player 1002 ''a'' lobby"
  have w4: "step (RemovePlayer 1002 ''a'') lobby = Some ?w4" by simp
  have "players (wmatch ?w4) = filter (\<lambda>p. p_id p \<noteq> ''a'') (players (wmatch lobby))"
    by (simp add: remove_player_def lobby_match Let_def end_match_players)
  then have a4: "length (players (wmatch ?w4)) < 2"
    by (simp add: lobby_players new_player_def)
  have r4: "status (wmatch ?w4) = FINISHED"
    using finish_transition [OF w4, of 1001, THEN conjunct1] lobby_match a4 by simp
  let ?c = "create_match 1000 ''a''"
  have c: "status (wmatch ?c) = WAITING" by (simp add: create_match_def Let_def)
  have w5: "step (FindMatch ''b'') ?c = Some (join_match ''b'' ?c)" by simp
  have r5: "status (wmatch (join_match ''b'' ?c)) \<noteq> FINISHED"
    using finish_transition [OF w5, of 0, THEN conjunct2, THEN conjunct2] c by simp
  have r6: "end_time (wmatch lobby) = None"
    using finish_transition [OF w2, of 1001, THEN conjunct2, THEN conjunct2, THEN conjunct2]
      lobby_served lobby_match(1) by blast
  show ?thesis
    using w1 r1 w2 r2 w3 r3 w4 r4 c w5 r5 r6 lobby_served by (simp add: status_of_def)
qed


subsection \<open>A projectile hit\<close>

lemma collide_projectile_hit:
  "first_index (collides pr) (players (wmatch w)) = Some i \<Longrightarrow>
     players (wmatch (collide_projectile now w pr)) = players (wmatch (apply_damage now pr i w)) \<and>
     projectiles (wmatch (collide_projectile now w pr)) = remove1 pr (projectiles (wmatch w))"
  by (simp add: collide_projectile_def Let_def apply_damage_projectiles)

lemma shooter_not_target:
  assumes "collides pr (players m ! i)" "get_player_state m (pr_player_id pr) = Some j"
  shows "j \<noteq> i \<and> j < length (players m)"
  using assms first_index_bound [of "\<lambda>p. p_id p = pr_player_id pr" "players m" j]
  by (auto simp: collides_def get_player_state_def)

lemma damaged_fields:
  "health (damaged d p) = max 0 (health p - d)"
  "p_id (damaged d p) = p_id p"
  "kills (damaged d p) = kills p"
  "weapons (damaged d p) = weapons p"
  "is_alive (damaged d p) = (is_alive p \<and> 0 < max 0 (health p - d))"
  "deaths (damaged d p) = (if max 0 (health p - d) \<le> 0 then deaths p + 1 else deaths p)"
  by (auto simp: damaged_def)

lemma sqrt_sum_zero: "sqrt (a * a + b * b) = 0 \<longleftrightarrow> a = 0 \<and> b = 0"
  by simp

lemma create_projectile_fires:
  assumes "target ''x'' = Some tx" "target ''y'' = Some ty"
    "tx \<noteq> pos_x player \<or> ty \<noteq> pos_y player" "speed (w_properties weapon) \<noteq> 0"
  shows "\<exists>pr. projectiles (create_projectile now player weapon target physics m)
                = projectiles m @ [pr] \<and>
              pr_player_id pr = p_id player \<and> pr_weapon_id pr = w_id weapon \<and>
              pr_x pr = pos_x player \<and> pr_y pr = pos_y player \<and>
              pr_damage pr = py_int (real_of_int (damage (w_properties weapon))
                                       * damage_multiplier physics)"
  using assms by (auto simp: create_projectile_def Let_def sqrt_sum_zero)

text \<open>
  C5, as the code has it. When a projectile meets a player (the first player of the list
  who is not its shooter, is alive and overlaps it): the target's health becomes
  \<open>max 0 (health - d)\<close> where \<open>d\<close> is the projectile's stored damage times the current
  damage multiplier, truncated toward zero by \<^verbatim>\<open>int\<close>; a target whose health reaches 0 is
  marked dead, its deaths grow by one and the kills of the shooter (when still in the
  match) grow by one; the projectile is removed; no other player's health, life or deaths
  change. The stored damage is the weapon's damage times the multiplier at fire time,
  truncated the same way.
\<close>

theorem projectile_hit:
  "(first_index (collides pr) (players (wmatch w)) = Some i \<longrightarrow>
     (let ps = players (wmatch w);
          w' = collide_projectile now w pr;
          ps' = players (wmatch w');
          d = py_int (real_of_int (pr_damage pr)
                * damage_multiplier (fst (calculate_current_physics now (m_id (wmatch w)) (wengine w))))
      in i < length ps \<and> collides pr (ps ! i) \<and> (\<forall>j<i. \<not> collides pr (ps ! j)) \<and>
         length ps' = length ps \<and>
         health (ps' ! i) = max 0 (health (ps ! i) - d) \<and>
         (health (ps' ! i) \<le> 0 \<longrightarrow>
            \<not> is_alive (ps' ! i) \<and> deaths (ps' ! i) = deaths (ps ! i) + 1 \<and>
            (\<forall>j. get_player_state (wmatch w) (pr_player_id pr) = Some j \<longrightarrow>
                 kills (ps' ! j) = kills (ps ! j) + 1)) \<and>
         (health (ps' ! i) > 0 \<longrightarrow>
            is_alive (ps' ! i) \<and> deaths (ps' ! i) = deaths (ps ! i) \<and>
            map kills ps' = map kills ps) \<and>
         projectiles (wmatch w') = remove1 pr (projectiles (wmatch w)) \<and>
         (\<forall>j<length ps. j \<noteq> i \<longrightarrow>
            health (ps' ! j) = health (ps ! j) \<and> is_alive (ps' ! j) = is_alive (ps ! j) \<and>
            deaths (ps' ! j) = deaths (ps ! j)))) \<and>
   (target ''x'' = Some tx \<and> target ''y'' = Some ty \<and>
    (tx \<noteq> pos_x player \<or> ty \<noteq> pos_y player) \<and> speed (w_properties weapon) \<noteq> 0 \<longrightarrow>
      (\<exists>p. projectiles (create_projectile now player weapon target physics m)
                = projectiles m @ [p] \<and>
           pr_damage p = py_int (real_of_int (damage (w_properties weapon))
                                   * damage_multiplier physics)))"
proof (intro conjI impI)
  assume fi: "first_index (collides pr) (players (wmatch w)) = Some i"
  let ?ps = "players (wmatch w)"
  let ?d = "hit_damage now pr w"
  let ?ps1 = "?ps[i := damaged ?d (?ps ! i)]"
  let ?ps' = "players (wmatch (collide_projectile now w pr))"
  from fi have il: "i < length ?ps" and ci: "collides pr (?ps ! i)"
    using first_index_bound [of "collides pr" ?ps i] by simp_all
  from fi have before: "\<forall>j<i. \<not> collides pr (?ps ! j)"
    using first_index_before [of "collides pr" ?ps i] by blast
  from ci have alive: "is_alive (?ps ! i)" by (simp add: collides_def)
  have ps': "?ps' = (if max 0 (health (?ps ! i) - ?d) \<le> 0 then
           (case get_player_state (wmatch w) (pr_player_id pr) of
              None \<Rightarrow> ?ps1
            | Some j \<Rightarrow> ?ps1[j := (?ps1 ! j)\<lparr>kills := kills (?ps1 ! j) + 1\<rparr>])
         else ?ps1)"
    using collide_projectile_hit [OF fi, of now] by (simp add: apply_damage_players Let_def)
  have len: "length ?ps' = length ?ps"
    by (simp add: ps' split: option.splits)
  have sh: "\<And>j. get_player_state (wmatch w) (pr_player_id pr) = Some j \<Longrightarrow> j \<noteq> i \<and> j < length ?ps"
    using shooter_not_target [OF ci] by blast
  have hi: "health (?ps' ! i) = max 0 (health (?ps ! i) - ?d)"
    using il sh by (auto simp: ps' damaged_fields nth_list_update split: option.splits)
  have dead: "health (?ps' ! i) \<le> 0 \<Longrightarrow>
     \<not> is_alive (?ps' ! i) \<and> deaths (?ps' ! i) = deaths (?ps ! i) + 1 \<and>
     (\<forall>j. get_player_state (wmatch w) (pr_player_id pr) = Some j \<longrightarrow>
          kills (?ps' ! j) = kills (?ps ! j) + 1)"
    using il sh unfolding hi
    by (auto simp: ps' damaged_fields nth_list_update split: option.splits)
  have live: "health (?ps' ! i) > 0 \<Longrightarrow>
     is_alive (?ps' ! i) \<and> deaths (?ps' ! i) = deaths (?ps ! i) \<and> map kills ?ps' = map kills ?ps"
    using il alive unfolding hi
    by (auto simp: ps' damaged_fields nth_list_update map_update list_update_same_conv)
  have others: "\<forall>j<length ?ps. j \<noteq> i \<longrightarrow>
            health (?ps' ! j) = health (?ps ! j) \<and> is_alive (?ps' ! j) = is_alive (?ps ! j) \<and>
            deaths (?ps' ! j) = deaths (?ps ! j)"
    using sh by (auto simp: ps' nth_list_update split: option.splits)
  have pj: "projectiles (wmatch (collide_projectile now w pr)) = remove1 pr (projectiles (wmatch w))"
    using collide_projectile_hit [OF fi] by simp
  show "(let ps = players (wmatch w);
          w' = collide_projectile now w pr;
          ps' = players (wmatch w');
          d = py_int (real_of_int (pr_damage pr)
                * damage_multiplier (fst (calculate_current_physics now (m_id (wmatch w)) (wengine w))))
      in i < length ps \<and> collides pr (ps ! i) \<and> (\<forall>j<i. \<not> collides pr (ps ! j)) \<and>
         length ps' = length ps \<and>
         health (ps' ! i) = max 0 (health (ps ! i) - d) \<and>
         (health (ps' ! i) \<le> 0 \<longrightarrow>
            \<not> is_alive (ps' ! i) \<and> deaths (ps' ! i) = deaths (ps ! i) + 1 \<and>
            (\<forall>j. get_player_state (wmatch w) (pr_player_id pr) = Some j \<longrightarrow>
                 kills (ps' ! j) = kills (ps ! j) + 1)) \<and>
         (health (ps' ! i) > 0 \<longrightarrow>
            is_alive (ps' ! i) \<and> deaths (ps' ! i) = deaths (ps ! i) \<and>
            map kills ps' = map kills ps) \<and>
         projectiles (wmatch w') = remove1 pr (projectiles (wmatch w)) \<and>
         (\<forall>j<length ps. j \<noteq> i \<longrightarrow>
            health (ps' ! j) = health (ps ! j) \<and> is_alive (ps' ! j) = is_alive (ps ! j) \<and>
            deaths (ps' ! j) = deaths (ps ! j)))"
    unfolding Let_def hit_damage_def [symmetric]
    using il ci before len hi dead live others pj by blast
next
  assume "target ''x'' = Some tx \<and> target ''y'' = Some ty \<and>
    (tx \<noteq> pos_x player \<or> ty \<noteq> pos_y player) \<and> speed (w_properties weapon) \<noteq> 0"
  then show "\<exists>p. projectiles (create_projectile now player weapon target physics m)
                = projectiles m @ [p] \<and>
           pr_damage p = py_int (real_of_int (damage (w_properties weapon))
                                   * damage_multiplier physics)"
    using create_projectile_fires [of target tx ty player weapon now physics m] by blast
qed

text \<open>
  The claim's \<open>round\<close> fails: a weapon of damage 15 fired with no modification active
  stores damage 15; with two Giant Weapons modifications active at the hit the multiplier
  is 2.25, the tick subtracts \<open>int 33.75 = 33\<close> from health 100, and \<open>round 33.75 = 34\<close>.
\<close>

lemma sqrt_100: "sqrt 100 = 10"
  using real_sqrt_abs [of 10] by simp

lemma physics_empty:
  "calculate_current_physics now mid Map.empty = (base_physics, Map.empty)"
  by (simp add: calculate_current_physics_def get_active_modifications_def)

lemma duel_fired_eq:
  "duel_fired hp dmg =
     (duel hp dmg)\<lparr>wmatch := (wmatch (duel hp dmg))\<lparr>
        projectiles := [sample_projectile dmg],
        players := [sample_player ''a'' hp True 0,
          (sample_player ''b'' 100 True 0)\<lparr>pos_x := 190,
             weapons := [sample_weapon ''w1'' PROJECTILE dmg], weapon_cooldown := 1003\<rparr>]\<rparr>\<rparr>"
  by (simp add: duel_fired_def use_weapon_def duel_def sample_world_def sample_player_def
      new_player_def get_player_state_def sample_weapon_def Let_def physics_empty
      create_projectile_def sample_target_def sqrt_100 base_physics_def py_int_def
      sample_projectile_def)

lemma is_space_letters:
  "\<not> is_space CHR ''h''" "\<not> is_space CHR ''e''" "\<not> is_space CHR ''m''"
  by (simp_all add: is_space_def)

lemma parse_huge: "parse_physics_prompt t rnd ''huge'' = giant_weapons t"
  by (simp add: parse_physics_prompt_def Let_def strip_def lower_def lower_char_def
      is_space_def physics_library_def entry_matches_def giant_weapons_def)

lemma parse_massive: "parse_physics_prompt t rnd ''massive'' = giant_weapons t"
  by (simp add: parse_physics_prompt_def Let_def strip_def lower_def lower_char_def
      is_space_def physics_library_def entry_matches_def giant_weapons_def)

lemma duel_boosted_eq:
  "duel_boosted hp dmg =
     (duel_fired hp dmg)\<lparr>wengine :=
        [7 \<mapsto> [giant_weapons (1001001 / 1000), giant_weapons (500501 / 500)]]\<rparr>"
  by (simp add: duel_boosted_def handle_master_prompt_def Let_def strip_def is_space_letters
      apply_master_prompt_def parse_huge parse_massive dict_get_def
      duel_fired_eq duel_def sample_world_def)

lemma boosted_physics:
  "now < t1 + 15 \<Longrightarrow> now < t2 + 15 \<Longrightarrow>
   calculate_current_physics now 7 [7 \<mapsto> [giant_weapons t1, giant_weapons t2]]
     = (base_physics\<lparr>damage_multiplier := 9 / 4, size_multiplier := 4\<rparr>,
        [7 \<mapsto> [giant_weapons t1, giant_weapons t2]])"
  by (simp add: calculate_current_physics_def get_active_modifications_def is_active_def
      giant_weapons_def apply_modification_def base_physics_def Let_def)

lemma boosted_tick:
  "map_option (\<lambda>w. map health (players (wmatch w)))
     (update_match (100101 / 100) (duel_boosted 100 15)) = Some [67, 100]"
proof -
  let ?w = "duel_boosted 100 15"
  let ?now = "100101 / 100 :: real"
  let ?pr = "(sample_projectile 15)\<lparr>pr_vy := 40 / 3, pr_x := 195, pr_y := 4502 / 9\<rparr>"
  have m: "m_id (wmatch ?w) = 7" "status (wmatch ?w) = ACTIVE"
    by (simp_all add: duel_boosted_eq duel_fired_eq duel_def sample_world_def)
  have up: "update_projectiles ?now ?w = ?w\<lparr>wmatch := (wmatch ?w)\<lparr>projectiles := [?pr]\<rparr>\<rparr>"
    by (simp add: update_projectiles_def duel_boosted_eq duel_fired_eq duel_def sample_world_def
        boosted_physics Let_def is_expired_def sample_projectile_def move_projectile_def
        base_physics_def in_bounds_def arena_width_def arena_height_def)
  have hit: "first_index (collides ?pr) (players (wmatch ?w)) = Some 0"
    by (simp add: duel_boosted_eq duel_fired_eq duel_def sample_world_def collides_def
        sample_projectile_def sample_player_def new_player_def
        check_projectile_player_collision_def)
  let ?w1 = "?w\<lparr>wmatch := (wmatch ?w)\<lparr>projectiles := [?pr]\<rparr>\<rparr>"
  have eng: "wengine ?w = [7 \<mapsto> [giant_weapons (1001001 / 1000), giant_weapons (500501 / 500)]]"
    by (simp add: duel_boosted_eq)
  have hd: "hit_damage ?now ?pr ?w1 = 33"
    by (simp add: hit_damage_def m eng boosted_physics py_int_def sample_projectile_def)
  have ps: "players (wmatch ?w) = [sample_player ''a'' 100 True 0,
          (sample_player ''b'' 100 True 0)\<lparr>pos_x := 190,
             weapons := [sample_weapon ''w1'' PROJECTILE 15], weapon_cooldown := 1003\<rparr>]"
    by (simp add: duel_boosted_eq duel_fired_eq)
  have cc: "players (wmatch (check_collisions ?now ?w1)) =
      [(sample_player ''a'' 100 True 0)\<lparr>health := 67\<rparr>,
          (sample_player ''b'' 100 True 0)\<lparr>pos_x := 190,
             weapons := [sample_weapon ''w1'' PROJECTILE 15], weapon_cooldown := 1003\<rparr>]"
    using hit
    by (simp add: check_collisions_def collide_projectile_def Let_def apply_damage_players hd ps
        damaged_def sample_player_def new_player_def)
  have fr: "same_frame (wmatch ?w1) (wmatch (check_collisions ?now ?w1))"
    by (rule check_collisions_frame)
  have st: "status (wmatch ?w1) = ACTIVE" "start_time (wmatch ?w1) = Some 1000"
      "end_time (wmatch ?w1) = None"
    by (simp_all add: duel_boosted_eq duel_fired_eq duel_def sample_world_def)
  have st': "status (wmatch (check_collisions ?now ?w1)) = ACTIVE"
      "start_time (wmatch (check_collisions ?now ?w1)) = Some 1000"
      "end_time (wmatch (check_collisions ?now ?w1)) = None"
    using fr st by (simp_all add: same_frame_def)
  have nf: "\<not> is_finished ?now (wmatch (check_collisions ?now ?w1))"
    by (simp add: is_finished_def alive_players_def cc sample_player_def new_player_def
        get_duration_def st')
  show ?thesis
    using nf by (simp add: update_match_def Let_def m up cc sample_player_def new_player_def)
qed

lemma list_of_two: "length xs = 2 \<Longrightarrow> xs = [xs ! 0, xs ! 1]"
  by (auto simp: length_Suc_conv numeral_2_eq_2)

theorem projectile_hit_counterexample:
  "damage (w_properties (sample_weapon ''w1'' PROJECTILE 15)) = 15
   \<and> map pr_damage (projectiles (wmatch (duel_fired 100 15))) = [15]
   \<and> damage_multiplier (fst (calculate_current_physics (100101 / 100) 7
         (wengine (duel_boosted 100 15)))) = 9 / 4
   \<and> healths (duel_boosted 100 15) = [100, 100]
   \<and> map_option healths (update_match (100101 / 100) (duel_boosted 100 15)) = Some [67, 100]
   \<and> py_round (15 * (9 / 4)) = 34"
proof -
  have 1: "damage (w_properties (sample_weapon ''w1'' PROJECTILE 15)) = 15"
    by (simp add: sample_weapon_def)
  have 2: "map pr_damage (projectiles (wmatch (duel_fired 100 15))) = [15]"
    by (simp add: duel_fired_eq sample_projectile_def)
  have 3: "damage_multiplier (fst (calculate_current_physics (100101 / 100) 7
         (wengine (duel_boosted 100 15)))) = 9 / 4"
    by (simp add: duel_boosted_eq boosted_physics)
  have 4: "healths (duel_boosted 100 15) = [100, 100]"
    by (simp add: healths_def duel_boosted_eq duel_fired_eq sample_player_def new_player_def)
  have 5: "map_option healths (update_match (100101 / 100) (duel_boosted 100 15)) = Some [67, 100]"
    using boosted_tick by (simp add: healths_def [abs_def])
  have 6: "py_round (15 * (9 / 4)) = 34"
    by (simp add: py_round_def Let_def)
  show ?thesis using 1 2 3 4 5 6 by blast
qed

theorem projectile_hit_witness:
  "first_index (collides (sample_projectile 25)) (players (wmatch (duel_fired 10 25))) = Some 0
   \<and> healths (collide_projectile 1001 (duel_fired 10 25) (sample_projectile 25)) = [0, 100]
   \<and> \<not> is_alive (players (wmatch
         (collide_projectile 1001 (duel_fired 10 25) (sample_projectile 25))) ! 0)
   \<and> kills (players (wmatch
         (collide_projectile 1001 (duel_fired 10 25) (sample_projectile 25))) ! 1) = 1
   \<and> projectiles (wmatch (collide_projectile 1001 (duel_fired 10 25) (sample_projectile 25))) = []
   \<and> sample_target 200 500 ''x'' = Some 200 \<and> sample_target 200 500 ''y'' = Some 500
   \<and> speed (w_properties (sample_weapon ''w1'' PROJECTILE 25)) \<noteq> 0
   \<and> map pr_damage (projectiles (create_projectile 1001
         (players (wmatch (duel 10 25)) ! 1) (sample_weapon ''w1'' PROJECTILE 25)
         (sample_target 200 500) base_physics (wmatch (duel 10 25)))) = [25]"
proof -
  let ?w = "duel_fired 10 25"
  let ?pr = "sample_projectile 25"
  let ?w' = "collide_projectile 1001 ?w ?pr"
  let ?b = "players (wmatch (duel 10 25)) ! 1"
  have fi: "first_index (collides ?pr) (players (wmatch ?w)) = Some 0"
    by (simp add: duel_fired_eq collides_def sample_projectile_def sample_player_def
        new_player_def check_projectile_player_collision_def)
  have t: "sample_target 200 500 ''x'' = Some 200" "sample_target 200 500 ''y'' = Some 500"
    by (simp_all add: sample_target_def)
  have b: "pos_x ?b = 190" "pos_y ?b = 500"
    by (simp_all add: duel_def sample_world_def sample_player_def new_player_def)
  have sp: "speed (w_properties (sample_weapon ''w1'' PROJECTILE 25)) \<noteq> 0"
    "damage (w_properties (sample_weapon ''w1'' PROJECTILE 25)) = 25"
    by (simp_all add: sample_weapon_def)
  have d: "py_int (real_of_int (pr_damage ?pr) * damage_multiplier
             (fst (calculate_current_physics 1001 (m_id (wmatch ?w)) (wengine ?w)))) = 25"
    by (simp add: duel_fired_eq duel_def sample_world_def physics_empty base_physics_def
        sample_projectile_def py_int_def)
  have ps: "map health (players (wmatch ?w)) = [10, 100]" "map kills (players (wmatch ?w)) = [0, 0]"
    "projectiles (wmatch ?w) = [?pr]" "length (players (wmatch ?w)) = 2"
    "get_player_state (wmatch ?w) (pr_player_id ?pr) = Some 1"
    by (simp_all add: duel_fired_eq sample_player_def new_player_def get_player_state_def
        sample_projectile_def duel_def sample_world_def)
  have pm: "projectiles (wmatch (duel 10 25)) = []"
    by (simp add: duel_def sample_world_def)
  note T = projectile_hit [where pr = ?pr and w = ?w and i = 0 and now = 1001
      and target = "sample_target 200 500" and tx = 200 and ty = 500 and player = ?b
      and weapon = "sample_weapon ''w1'' PROJECTILE 25" and physics = base_physics
      and m = "wmatch (duel 10 25)"]
  have h0: "health (players (wmatch ?w) ! 0) = 10" "health (players (wmatch ?w) ! 1) = 100"
    "kills (players (wmatch ?w) ! 1) = 0"
    by (simp_all add: duel_fired_eq sample_player_def new_player_def)
  note B = T [THEN conjunct1, THEN mp, OF fi, unfolded Let_def d]
  note B3 = B [THEN conjunct2, THEN conjunct2, THEN conjunct2]
  note len = B3 [THEN conjunct1]
  note B4 = B3 [THEN conjunct2]
  note hi = B4 [THEN conjunct1]
  note B5 = B4 [THEN conjunct2]
  note dead = B5 [THEN conjunct1]
  note B7 = B5 [THEN conjunct2, THEN conjunct2]
  note pj = B7 [THEN conjunct1]
  note others = B7 [THEN conjunct2]
  have r1: "length (players (wmatch ?w')) = 2" using len ps(4) by simp
  have r2: "health (players (wmatch ?w') ! 0) = 0" using hi h0(1) by simp
  have r3: "\<not> is_alive (players (wmatch ?w') ! 0)" using dead r2 by simp
  have r4: "kills (players (wmatch ?w') ! 1) = 1"
    using dead [THEN mp, THEN conjunct2, THEN conjunct2, THEN spec, THEN mp, OF _ ps(5)] r2 h0(3)
    by simp
  have r5: "projectiles (wmatch ?w') = []" using pj ps(3) by simp
  have r6: "health (players (wmatch ?w') ! 1) = 100"
    using others [THEN spec, of 1] ps(4) h0(2) by simp
  note r = r1 r2 r3 r4 r5 r6
  have "\<exists>p. projectiles (create_projectile 1001 ?b (sample_weapon ''w1'' PROJECTILE 25)
         (sample_target 200 500) base_physics (wmatch (duel 10 25))) = projectiles (wmatch (duel 10 25)) @ [p] \<and>
       pr_damage p = py_int (real_of_int (damage (w_properties (sample_weapon ''w1'' PROJECTILE 25)))
                               * damage_multiplier base_physics)"
    using T [THEN conjunct2] t b(1) sp(1) by simp
  then have
    f: "map pr_damage (projectiles (create_projectile 1001 ?b (sample_weapon ''w1'' PROJECTILE 25)
         (sample_target 200 500) base_physics (wmatch (duel 10 25)))) = [25]"
    by (auto simp: base_physics_def py_int_def pm sp(2))
  have "players (wmatch ?w') = [players (wmatch ?w') ! 0, players (wmatch ?w') ! 1]"
    using r1 by (rule list_of_two)
  then have "healths ?w' = [health (players (wmatch ?w') ! 0), health (players (wmatch ?w') ! 1)]"
    unfolding healths_def by (metis (no_types) list.simps(8) list.simps(9))
  then have hs: "healths ?w' = [0, 100]"
    using r2 r6 by simp
  show ?thesis using fi hs r t sp f by blast
qed


subsection \<open>Health stays within bounds and is never raised\<close>

lemma safe_refl [simp]: "safe p p"
  by (simp add: safe_def)

lemma safe_trans: "safe a b \<Longrightarrow> safe b c \<Longrightarrow> safe a c"
  by (auto simp: safe_def)

lemma list_all2_safe_refl [simp]: "list_all2 safe ps ps"
  by (simp add: list_all2_refl)

lemma list_all2_safe_trans:
  "list_all2 safe a b \<Longrightarrow> list_all2 safe b c \<Longrightarrow> list_all2 safe a c"
  using list_all2_trans [of safe safe safe a b c] safe_trans by blast

lemma list_all2_update_safe: "safe (ps ! i) p \<Longrightarrow> list_all2 safe ps (ps[i := p])"
  by (cases "i < length ps")
     (simp_all add: list_all2_conv_all_nth nth_list_update list_update_beyond)

lemma list_all2_safe_ok:
  "list_all2 safe ps ps' \<Longrightarrow> \<forall>p\<in>set ps. player_ok p \<Longrightarrow>
     (\<forall>p\<in>set ps'. player_ok p) \<and> list_all2 not_raised ps ps'"
  by (auto simp: list_all2_conv_all_nth all_set_conv_all_nth safe_def not_raised_def)

lemma py_int_nonneg: "0 \<le> x \<Longrightarrow> 0 \<le> py_int x"
  by (simp add: py_int_def)

lemma good_engine_physics:
  assumes "good_engine eng"
  shows "0 \<le> damage_multiplier (fst (calculate_current_physics now match_id eng))"
    and "good_engine (snd (calculate_current_physics now match_id eng))"
proof -
  have "\<forall>m\<in>set (stored_modifications eng match_id). good_mod m"
    using assms
    by (cases "eng match_id") (auto simp: good_engine_def stored_modifications_def dict_get_def)
  then have "\<forall>v\<in>set (factors ''damage_multiplier''
        (of_type WEAPON_BEHAVIOR (non_expired now (stored_modifications eng match_id)))). 0 \<le> v"
    by (auto simp: factors_def of_type_def non_expired_def good_mod_def dict_get_def
        split: option.splits)
  then show "0 \<le> damage_multiplier (fst (calculate_current_physics now match_id eng))"
    by (simp add: fst_calculate foldl_damage_multiplier base_physics_def prod_list_nonneg)
  show "good_engine (snd (calculate_current_physics now match_id eng))"
    using assms
    by (cases "eng match_id") (auto simp: snd_calculate good_engine_def split: if_splits)
qed

lemma safe_damaged: "0 \<le> d \<Longrightarrow> safe p (damaged d p)"
  by (auto simp: safe_def damaged_def player_ok_def)

lemma safe_kills [simp]: "safe p (p\<lparr>kills := k\<rparr>)"
  by (simp add: safe_def player_ok_def)

lemma hit_damage_nonneg:
  "good_engine (wengine w) \<Longrightarrow> 0 \<le> pr_damage pr \<Longrightarrow> 0 \<le> hit_damage now pr w"
  by (simp add: hit_damage_def py_int_nonneg good_engine_physics(1))

lemma apply_damage_engine:
  "wengine (apply_damage now pr i w) = snd (calculate_current_physics now (m_id (wmatch w)) (wengine w))"
  by (simp add: apply_damage_def Let_def split: prod.splits)

lemma apply_damage_cache: "wcache (apply_damage now pr i w) = wcache w"
  by (simp add: apply_damage_def Let_def split: prod.splits)

lemma apply_damage_safe:
  assumes "good_engine (wengine w)" "0 \<le> pr_damage pr"
  shows "list_all2 safe (players (wmatch w)) (players (wmatch (apply_damage now pr i w)))"
proof -
  let ?ps = "players (wmatch w)"
  let ?ps1 = "?ps[i := damaged (hit_damage now pr w) (?ps ! i)]"
  have 1: "list_all2 safe ?ps ?ps1"
    using assms by (intro list_all2_update_safe safe_damaged hit_damage_nonneg)
  have 2: "\<And>j. list_all2 safe ?ps1 (?ps1[j := (?ps1 ! j)\<lparr>kills := kills (?ps1 ! j) + 1\<rparr>])"
    by (intro list_all2_update_safe) simp
  show ?thesis
    using 1 2 list_all2_safe_trans
    by (auto simp: apply_damage_players Let_def split: option.splits)
qed

lemma quiet_refl [simp]: "quiet w w"
  by (simp add: quiet_def)

lemma quiet_trans: "quiet a b \<Longrightarrow> quiet b c \<Longrightarrow> quiet a c"
  using list_all2_safe_trans by (auto simp: quiet_def)

lemma collide_projectile_quiet:
  assumes "good_engine (wengine w)" "0 \<le> pr_damage pr"
  shows "quiet w (collide_projectile now w pr)"
proof (cases "first_index (collides pr) (players (wmatch w))")
  case None
  then show ?thesis by (simp add: collide_projectile_def)
next
  case (Some i)
  have "set (remove1 pr (projectiles (wmatch w))) \<subseteq> set (projectiles (wmatch w))"
    by (rule set_remove1_subset)
  then show ?thesis
    using Some assms apply_damage_safe [OF assms, of now i]
    by (simp add: collide_projectile_def Let_def quiet_def apply_damage_projectiles
        apply_damage_engine apply_damage_cache good_engine_physics(2))
qed

lemma foldl_collide_quiet:
  "good_engine (wengine w) \<Longrightarrow> \<forall>pr\<in>set prs. 0 \<le> pr_damage pr \<Longrightarrow>
     quiet w (foldl (collide_projectile now) w prs)"
proof (induction prs arbitrary: w)
  case Nil
  show ?case by simp
next
  case (Cons pr prs)
  have 1: "quiet w (collide_projectile now w pr)"
    using Cons.prems by (intro collide_projectile_quiet) simp_all
  then have "good_engine (wengine (collide_projectile now w pr))"
    using Cons.prems by (simp add: quiet_def)
  then have 2: "quiet (collide_projectile now w pr)
      (foldl (collide_projectile now) (collide_projectile now w pr) prs)"
    using Cons.prems by (intro Cons.IH) simp_all
  show ?case using quiet_trans [OF 1 2] by simp
qed

lemma quiet_inv: "quiet w w' \<Longrightarrow> sound w \<Longrightarrow> sound w'"
  using list_all2_safe_ok [of "players (wmatch w)" "players (wmatch w')"]
  by (auto simp: quiet_def sound_def)

lemma quiet_not_raised:
  "quiet w w' \<Longrightarrow> sound w \<Longrightarrow> list_all2 not_raised (players (wmatch w)) (players (wmatch w'))"
  using list_all2_safe_ok [of "players (wmatch w)" "players (wmatch w')"]
  by (auto simp: quiet_def sound_def)

lemma check_collisions_quiet:
  "sound w \<Longrightarrow> quiet w (check_collisions now w)"
  by (simp add: check_collisions_def foldl_collide_quiet sound_def)

lemma move_projectile_damage [simp]: "pr_damage (move_projectile physics pr) = pr_damage pr"
  by (simp add: move_projectile_def Let_def)

lemma update_projectiles_inv: "sound w \<Longrightarrow> sound (update_projectiles now w)"
  using good_engine_physics(2) [of "wengine w" now "m_id (wmatch w)"]
  by (auto simp: update_projectiles_def sound_def Let_def split: prod.splits)

lemma end_match_inv: "sound w \<Longrightarrow> sound (end_match now w)"
  by (auto simp: end_match_def sound_def Let_def remove_match_modifications_def good_engine_def
      split: option.splits if_splits)

lemma update_match_inv:
  assumes "sound w" "update_match now w = Some w'"
  shows "sound w' \<and> list_all2 not_raised (players (wmatch w)) (players (wmatch w'))"
proof (cases "status (wmatch w) = ACTIVE")
  case True
  let ?w1 = "update_projectiles now w"
  let ?w2 = "check_collisions now ?w1"
  have i1: "sound ?w1" using assms(1) by (rule update_projectiles_inv)
  have q: "quiet ?w1 ?w2" using i1 by (rule check_collisions_quiet)
  have i2: "sound ?w2" using q i1 by (rule quiet_inv)
  have nr: "list_all2 not_raised (players (wmatch w)) (players (wmatch ?w2))"
    using quiet_not_raised [OF q i1] by (simp add: update_projectiles_players)
  have "w' = end_match now ?w2 \<or> w' = ?w2"
    using assms(2) True by (auto simp: update_match_def Let_def split: if_splits)
  then show ?thesis
    using i2 nr end_match_inv [of ?w2 now] by (auto simp: end_match_players)
next
  case False
  then have "w' = w"
    using assms(2) by (auto simp: update_match_def Let_def split: if_splits option.splits)
  then show ?thesis using assms(1) by (simp add: list_all2_refl not_raised_def)
qed

lemma area_damage_nonneg:
  "0 \<le> damage (w_properties weapon) \<Longrightarrow> 0 \<le> damage_multiplier physics \<Longrightarrow>
     0 \<le> area_damage weapon physics"
  by (simp add: area_damage_def py_int_nonneg)

lemma area_hit_safe:
  assumes "0 \<le> area_damage weapon physics"
  shows "list_all2 safe ps (area_hit i weapon tx ty physics ps j)"
proof -
  let ?ps1 = "ps[j := damaged (area_damage weapon physics) (ps ! j)]"
  have 1: "list_all2 safe ps ?ps1"
    using assms by (intro list_all2_update_safe safe_damaged)
  have 2: "list_all2 safe ?ps1 (?ps1[i := (?ps1 ! i)\<lparr>kills := kills (?ps1 ! i) + 1\<rparr>])"
    by (intro list_all2_update_safe) simp
  have 3: "list_all2 safe ps (?ps1[i := (?ps1 ! i)\<lparr>kills := kills (?ps1 ! i) + 1\<rparr>])"
    using 1 2 by (rule list_all2_safe_trans)
  show ?thesis
    using 1 3 by (simp add: area_hit_players Let_def)
qed

lemma foldl_area_hit_safe:
  assumes "0 \<le> area_damage weapon physics"
  shows "list_all2 safe ps (foldl (area_hit i weapon tx ty physics) ps js)"
proof (induction js arbitrary: ps)
  case Nil
  show ?case by simp
next
  case (Cons j js)
  show ?case
    using list_all2_safe_trans [OF area_hit_safe [OF assms, of ps i tx ty j]
        Cons [of "area_hit i weapon tx ty physics ps j"]]
    by simp
qed

lemma create_area_effect_safe:
  "0 \<le> area_damage weapon physics \<Longrightarrow>
     list_all2 safe (players m) (players (create_area_effect i weapon target physics m))"
  by (simp add: create_area_effect_def foldl_area_hit_safe split: option.splits)

lemma create_area_effect_projectiles:
  "projectiles (create_area_effect i weapon target physics m) = projectiles m"
  by (simp add: create_area_effect_def split: option.splits)

lemma create_projectile_damage:
  assumes "0 \<le> damage (w_properties weapon)" "0 \<le> damage_multiplier physics"
    "\<forall>pr\<in>set (projectiles m). 0 \<le> pr_damage pr"
  shows "\<forall>pr\<in>set (projectiles (create_projectile now player weapon target physics m)).
           0 \<le> pr_damage pr"
  using assms by (auto simp: create_projectile_def Let_def py_int_nonneg split: option.splits)

lemma safe_cooldown [simp]: "safe p (p\<lparr>weapon_cooldown := c\<rparr>)"
  by (simp add: safe_def player_ok_def)

lemma find_member: "find P xs = Some x \<Longrightarrow> x \<in> set xs"
  by (induction xs) (auto split: if_splits)

lemma use_weapon_cases:
  "use_weapon now pid wid target w = w \<or>
   (\<exists>i weapon. i < length (players (wmatch w)) \<and> weapon \<in> set (weapons (players (wmatch w) ! i)) \<and>
      (let physics = fst (calculate_current_physics now (m_id (wmatch w)) (wengine w));
           m1 = fire now i weapon target physics (wmatch w)
       in use_weapon now pid wid target w =
            w\<lparr>wmatch := m1\<lparr>players := (players m1)[i := (players m1 ! i)\<lparr>weapon_cooldown :=
                        now + real_of_int (cooldown (w_properties weapon)) / 1000
                                * cooldown_multiplier physics\<rparr>]\<rparr>,
              wengine := snd (calculate_current_physics now (m_id (wmatch w)) (wengine w))\<rparr>))"
proof (cases "status (wmatch w) \<noteq> ACTIVE")
  case True
  then show ?thesis by (simp add: use_weapon_def)
next
  case active: False
  show ?thesis
  proof (cases "get_player_state (wmatch w) pid")
    case None
    then show ?thesis using active by (simp add: use_weapon_def Let_def)
  next
    case (Some i)
    then have il: "i < length (players (wmatch w))"
      using first_index_bound [of _ "players (wmatch w)" i] by (simp add: get_player_state_def)
    show ?thesis
    proof (cases "is_alive (players (wmatch w) ! i)")
      case False
      then show ?thesis using Some active by (simp add: use_weapon_def Let_def)
    next
      case True
      show ?thesis
      proof (cases "find (\<lambda>x. w_id x = wid) (weapons (players (wmatch w) ! i))")
        case None
        then show ?thesis using True active \<open>get_player_state (wmatch w) pid = Some i\<close>
          by (simp add: use_weapon_def Let_def)
      next
        case (Some weapon)
        then have mem: "weapon \<in> set (weapons (players (wmatch w) ! i))" by (rule find_member)
        have "use_weapon now pid wid target w =
            (let physics = fst (calculate_current_physics now (m_id (wmatch w)) (wengine w));
                 m1 = fire now i weapon target physics (wmatch w)
             in w\<lparr>wmatch := m1\<lparr>players := (players m1)[i := (players m1 ! i)\<lparr>weapon_cooldown :=
                        now + real_of_int (cooldown (w_properties weapon)) / 1000
                                * cooldown_multiplier physics\<rparr>]\<rparr>,
              wengine := snd (calculate_current_physics now (m_id (wmatch w)) (wengine w))\<rparr>)"
          using active True Some \<open>get_player_state (wmatch w) pid = Some i\<close>
          by (simp add: use_weapon_def Let_def fire_def split: prod.splits)
        then show ?thesis using il mem by (auto simp: Let_def)
      qed
    qed
  qed
qed

lemma fire_safe:
  assumes "0 \<le> damage (w_properties weapon)" "0 \<le> damage_multiplier physics"
  shows "list_all2 safe (players m) (players (fire now i weapon target physics m))"
  using assms
  by (simp add: fire_def create_projectile_players create_area_effect_safe area_damage_nonneg)

lemma fire_projectiles:
  assumes "0 \<le> damage (w_properties weapon)" "0 \<le> damage_multiplier physics"
    "\<forall>pr\<in>set (projectiles m). 0 \<le> pr_damage pr"
  shows "\<forall>pr\<in>set (projectiles (fire now i weapon target physics m)). 0 \<le> pr_damage pr"
  using assms create_projectile_damage [OF assms, of now "players m ! i" target]
  by (simp add: fire_def create_area_effect_projectiles)

lemma use_weapon_inv:
  assumes "sound w"
  shows "sound (use_weapon now pid wid target w) \<and>
         list_all2 not_raised (players (wmatch w)) (players (wmatch (use_weapon now pid wid target w)))"
proof -
  let ?physics = "fst (calculate_current_physics now (m_id (wmatch w)) (wengine w))"
  let ?eng' = "snd (calculate_current_physics now (m_id (wmatch w)) (wengine w))"
  from use_weapon_cases [of now pid wid target w] show ?thesis
  proof (elim disjE exE conjE)
    assume "use_weapon now pid wid target w = w"
    then show ?thesis using assms by (simp add: list_all2_refl not_raised_def)
  next
    fix i weapon
    let ?m1 = "fire now i weapon target ?physics (wmatch w)"
    let ?c = "now + real_of_int (cooldown (w_properties weapon)) / 1000 * cooldown_multiplier ?physics"
    let ?ps' = "(players ?m1)[i := (players ?m1 ! i)\<lparr>weapon_cooldown := ?c\<rparr>]"
    assume il: "i < length (players (wmatch w))"
      and mem: "weapon \<in> set (weapons (players (wmatch w) ! i))"
      and eq: "let physics = ?physics; m1 = fire now i weapon target physics (wmatch w)
       in use_weapon now pid wid target w =
            w\<lparr>wmatch := m1\<lparr>players := (players m1)[i := (players m1 ! i)\<lparr>weapon_cooldown :=
                        now + real_of_int (cooldown (w_properties weapon)) / 1000
                                * cooldown_multiplier physics\<rparr>]\<rparr>,
              wengine := ?eng'\<rparr>"
    from eq have eq': "use_weapon now pid wid target w =
        w\<lparr>wmatch := ?m1\<lparr>players := ?ps'\<rparr>, wengine := ?eng'\<rparr>"
      by (simp add: Let_def)
    have ok: "player_ok (players (wmatch w) ! i)"
      using assms il by (simp add: sound_def)
    then have wd: "0 \<le> damage (w_properties weapon)" using mem by (simp add: player_ok_def)
    have ge: "good_engine (wengine w)" using assms by (simp add: sound_def)
    have dm: "0 \<le> damage_multiplier ?physics" using ge by (rule good_engine_physics(1))
    have ge': "good_engine ?eng'" using ge by (rule good_engine_physics(2))
    have s1: "list_all2 safe (players (wmatch w)) (players ?m1)"
      using wd dm by (rule fire_safe)
    have s2: "list_all2 safe (players ?m1) ?ps'"
      by (intro list_all2_update_safe) simp
    have s: "list_all2 safe (players (wmatch w)) ?ps'"
      using s1 s2 by (rule list_all2_safe_trans)
    have pr: "\<forall>pr\<in>set (projectiles ?m1). 0 \<le> pr_damage pr"
      using wd dm assms by (intro fire_projectiles) (simp_all add: sound_def)
    have allok: "\<forall>p\<in>set (players (wmatch w)). player_ok p" using assms by (simp add: sound_def)
    have "sound (w\<lparr>wmatch := ?m1\<lparr>players := ?ps'\<rparr>, wengine := ?eng'\<rparr>)"
      using list_all2_safe_ok [OF s allok] pr ge' assms by (simp add: sound_def)
    moreover have "list_all2 not_raised (players (wmatch w)) ?ps'"
      using list_all2_safe_ok [OF s allok] by simp
    ultimately show ?thesis by (simp add: eq')
  qed
qed

lemma safe_move [simp]: "safe p (move_player physics inp p)"
  by (simp add: safe_def player_ok_def move_player_fields)

lemma handle_player_input_inv:
  assumes "sound w"
  shows "sound (handle_player_input now pid inp w) \<and>
         list_all2 not_raised (players (wmatch w))
           (players (wmatch (handle_player_input now pid inp w)))"
proof -
  let ?w' = "handle_player_input now pid inp w"
  have s: "list_all2 safe (players (wmatch w)) (players (wmatch ?w'))"
    by (auto simp: handle_player_input_def Let_def intro!: list_all2_update_safe
        split: option.splits prod.splits)
  have p: "projectiles (wmatch ?w') = projectiles (wmatch w)" "wcache ?w' = wcache w"
    by (auto simp: handle_player_input_def Let_def split: option.splits prod.splits)
  have "wengine ?w' = wengine w \<or>
        wengine ?w' = snd (calculate_current_physics now (m_id (wmatch w)) (wengine w))"
    by (auto simp: handle_player_input_def Let_def split: option.splits prod.splits)
  then have e: "good_engine (wengine ?w')"
    using assms good_engine_physics(2) [of "wengine w" now "m_id (wmatch w)"]
    by (auto simp: sound_def)
  have allok: "\<forall>p\<in>set (players (wmatch w)). player_ok p" using assms by (simp add: sound_def)
  show ?thesis
    using list_all2_safe_ok [OF s allok] p e assms by (simp add: sound_def)
qed

lemma balance_adjust_damage:
  "0 \<le> damage p \<Longrightarrow> 0 \<le> damage (fst (balance_adjust p))"
  by (simp add: balance_adjust_def Let_def apply_balance_nerf_def py_int_nonneg)

lemma clamp_properties_damage: "0 \<le> damage (clamp_properties d)"
  by (simp add: clamp_properties_def)

lemma generate_with_ai_damage:
  "generate_with_ai now fresh ai pid = Some x \<Longrightarrow> 0 \<le> damage (w_properties x)"
  using balance_adjust_damage [OF clamp_properties_damage]
  by (auto simp: generate_with_ai_def Let_def split: option.splits prod.splits)
     (metis fst_conv)

lemma generate_from_template_damage:
  "0 \<le> damage (w_properties (generate_from_template now fresh h prompt pid))"
  by (simp add: generate_from_template_def create_emergency_weapon_def Let_def
      le_max_iff_disj split: option.splits)

lemma generate_weapon_damage:
  assumes "\<forall>k x. cache k = Some x \<longrightarrow> 0 \<le> damage (w_properties x)"
    and "generate_weapon now fresh ai h prompt pid cache = (wo, cache')"
  shows "(\<forall>x. wo = Some x \<longrightarrow> 0 \<le> damage (w_properties x)) \<and>
         (\<forall>k x. cache' k = Some x \<longrightarrow> 0 \<le> damage (w_properties x))"
  using assms generate_with_ai_damage [of now fresh ai pid]
    generate_from_template_damage [of now fresh h "lower (strip prompt)" pid]
  by (auto simp: generate_weapon_def Let_def split: if_splits option.splits)

lemma handle_weapon_generation_inv:
  assumes "sound w"
  shows "sound (snd (handle_weapon_generation now fresh ai h pid prompt mid w)) \<and>
         list_all2 not_raised (players (wmatch w))
           (players (wmatch (snd (handle_weapon_generation now fresh ai h pid prompt mid w))))"
proof -
  let ?w' = "snd (handle_weapon_generation now fresh ai h pid prompt mid w)"
  obtain wo cache' where
    g: "generate_weapon now fresh ai h (strip prompt) pid (wcache w) = (wo, cache')"
    by fastforce
  have c: "\<forall>k x. wcache w k = Some x \<longrightarrow> 0 \<le> damage (w_properties x)"
    using assms by (simp add: sound_def)
  note gw = generate_weapon_damage [OF c g]
  have safe_add: "\<And>p x c. 0 \<le> damage (w_properties x) \<Longrightarrow>
      safe p (p\<lparr>weapon_cooldown := c, weapons := weapons p @ [x]\<rparr>)"
    by (auto simp: safe_def player_ok_def)
  have s: "list_all2 safe (players (wmatch w)) (players (wmatch ?w'))"
    using gw
    by (auto simp: handle_weapon_generation_def Let_def g
        intro!: list_all2_update_safe safe_add split: option.splits)
  have p: "projectiles (wmatch ?w') = projectiles (wmatch w)" "wengine ?w' = wengine w"
    by (auto simp: handle_weapon_generation_def Let_def split: option.splits prod.splits)
  have "wcache ?w' = wcache w \<or> wcache ?w' = cache'"
    by (auto simp: handle_weapon_generation_def Let_def g split: option.splits)
  then have cc: "\<forall>k x. wcache ?w' k = Some x \<longrightarrow> 0 \<le> damage (w_properties x)"
    using c gw by auto
  have allok: "\<forall>p\<in>set (players (wmatch w)). player_ok p" using assms by (simp add: sound_def)
  show ?thesis
    using list_all2_safe_ok [OF s allok] p cc assms by (simp add: sound_def)
qed

lemma library_good:
  "\<forall>e\<in>set physics_library.
     (case map_of (l_parameters e) ''damage_multiplier'' of None \<Rightarrow> True | Some v \<Rightarrow> 0 \<le> v)"
  by (simp add: physics_library_def)

lemma parse_physics_prompt_good: "good_mod (parse_physics_prompt now rnd prompt)"
proof (cases "find (entry_matches (strip (lower prompt))) physics_library")
  case None
  then show ?thesis
    by (cases rnd)
       (simp_all add: parse_physics_prompt_def Let_def generate_random_modification_def
          good_mod_def)
next
  case (Some e)
  then have "e \<in> set physics_library" by (rule find_member)
  then show ?thesis
    using Some library_good by (auto simp: parse_physics_prompt_def Let_def good_mod_def)
qed

lemma apply_master_prompt_good:
  "good_engine eng \<Longrightarrow> good_engine (snd (apply_master_prompt now rnd prompt match_id eng))"
  using parse_physics_prompt_good [of now rnd prompt]
  by (cases "eng match_id")
     (auto simp: apply_master_prompt_def Let_def good_engine_def dict_get_def split: if_splits)

lemma handle_master_prompt_inv: "sound w \<Longrightarrow> sound (handle_master_prompt now rnd prompt w)"
  by (simp add: handle_master_prompt_def Let_def sound_def apply_master_prompt_good)

lemma master_prompt_scheduler_inv:
  "sound w \<Longrightarrow> sound (master_prompt_scheduler now rnd prompt w)"
  by (simp add: master_prompt_scheduler_def Let_def sound_def apply_master_prompt_good)

lemma new_player_ok [simp]: "player_ok (new_player pid x y)"
  by (simp add: player_ok_def new_player_def)

lemma create_match_inv: "sound (create_match now pid)"
  by (simp add: create_match_def sound_def Let_def good_engine_def)

lemma join_match_inv: "sound w \<Longrightarrow> sound (join_match pid w)"
  by (simp add: join_match_def sound_def Let_def)

lemma join_match_players:
  "players (wmatch (join_match pid w)) = players (wmatch w) \<or>
   players (wmatch (join_match pid w)) = players (wmatch w) @ [new_player pid 1000 500]"
  by (simp add: join_match_def Let_def)

lemma remove_player_players:
  "players (wmatch (remove_player now pid w)) = players (wmatch w) \<or>
   players (wmatch (remove_player now pid w)) = filter (\<lambda>p. p_id p \<noteq> pid) (players (wmatch w))"
  by (simp add: remove_player_def Let_def end_match_players split: option.splits)

lemma remove_player_inv:
  assumes "sound w"
  shows "sound (remove_player now pid w)"
proof -
  let ?w1 = "w\<lparr>wmatch := (wmatch w)\<lparr>players := filter (\<lambda>p. p_id p \<noteq> pid) (players (wmatch w))\<rparr>\<rparr>"
  have 1: "sound ?w1" using assms by (simp add: sound_def)
  have 2: "sound (end_match now ?w1)" using 1 by (rule end_match_inv)
  have m: "\<And>v f. sound v \<Longrightarrow> sound (v\<lparr>player_match_map := f\<rparr>)" by (simp add: sound_def)
  show ?thesis
    using assms 1 2 by (auto simp: remove_player_def Let_def intro!: m split: option.splits)
qed

lemma reset_player_ok [simp]: "player_ok (reset_player p)"
  by (simp add: player_ok_def reset_player_def)

lemma start_match_inv: "sound w \<Longrightarrow> sound (start_match now w)"
  by (simp add: start_match_def sound_def Let_def)

lemma start_match_players:
  "players (wmatch (start_match now w)) = players (wmatch w) \<or>
   (\<forall>p\<in>set (players (wmatch (start_match now w))). health p = 100)"
  by (simp add: start_match_def Let_def reset_player_def)

lemma step_inv: "sound w \<Longrightarrow> step e w = Some w' \<Longrightarrow> sound w'"
proof (cases e)
  case (UpdateMatches now)
  then show "sound w \<Longrightarrow> step e w = Some w' \<Longrightarrow> sound w'" using update_match_inv by auto
next
  case (WeaponUse now pid wid target)
  then show "sound w \<Longrightarrow> step e w = Some w' \<Longrightarrow> sound w'"
    using use_weapon_inv [of w now pid wid target] by (auto simp: handle_weapon_use_def)
qed (auto simp: join_match_inv start_match_inv handle_player_input_inv remove_player_inv
    handle_weapon_generation_inv handle_master_prompt_inv master_prompt_scheduler_inv)

lemma reachable_inv: "reachable w \<Longrightarrow> sound w"
  by (induction rule: reachable.induct) (auto simp: create_match_inv intro: step_inv)

text \<open>
  C3. In every state the server can bring a match to, every player's health is between 0
  and 100; and every operation from such a state either leaves the list of players in
  place with no health raised (ticks, input, weapon use, weapon generation, prompts), or
  appends a new player (joining), or removes players (removal), or is \<^verbatim>\<open>start_match\<close>,
  which leaves the players alone or resets every health to 100.
\<close>

theorem health_invariant:
  assumes "reachable w"
  shows "(\<forall>p\<in>set (players (wmatch w)). 0 \<le> health p \<and> health p \<le> 100) \<and>
    (\<forall>e w'. step e w = Some w' \<longrightarrow>
       (case e of
          StartMatch now \<Rightarrow>
            players (wmatch w') = players (wmatch w) \<or>
            (\<forall>p\<in>set (players (wmatch w')). health p = 100)
        | FindMatch player_id \<Rightarrow>
            players (wmatch w') = players (wmatch w) \<or>
            players (wmatch w') = players (wmatch w) @ [new_player player_id 1000 500]
        | RemovePlayer now player_id \<Rightarrow>
            players (wmatch w') = players (wmatch w) \<or>
            players (wmatch w') = filter (\<lambda>p. p_id p \<noteq> player_id) (players (wmatch w))
        | _ \<Rightarrow> list_all2 not_raised (players (wmatch w)) (players (wmatch w'))))"
proof (intro conjI allI impI)
  have i: "sound w" using assms by (rule reachable_inv)
  then show "\<forall>p\<in>set (players (wmatch w)). 0 \<le> health p \<and> health p \<le> 100"
    by (simp add: sound_def player_ok_def)
  fix e w'
  assume s: "step e w = Some w'"
  have same: "\<And>v. players (wmatch v) = players (wmatch w) \<Longrightarrow>
      list_all2 not_raised (players (wmatch w)) (players (wmatch v))"
    by (simp add: list_all2_refl not_raised_def)
  show "case e of
          StartMatch now \<Rightarrow>
            players (wmatch w') = players (wmatch w) \<or>
            (\<forall>p\<in>set (players (wmatch w')). health p = 100)
        | FindMatch player_id \<Rightarrow>
            players (wmatch w') = players (wmatch w) \<or>
            players (wmatch w') = players (wmatch w) @ [new_player player_id 1000 500]
        | RemovePlayer now player_id \<Rightarrow>
            players (wmatch w') = players (wmatch w) \<or>
            players (wmatch w') = filter (\<lambda>p. p_id p \<noteq> player_id) (players (wmatch w))
        | _ \<Rightarrow> list_all2 not_raised (players (wmatch w)) (players (wmatch w'))"
  proof (cases e)
    case (FindMatch pid)
    with s show ?thesis using join_match_players [of pid w] by auto
  next
    case (StartMatch now)
    with s show ?thesis using start_match_players [of now w] by auto
  next
    case (UpdateMatches now)
    with s show ?thesis using update_match_inv [OF i, of now w'] by simp
  next
    case (PlayerInput now pid inp)
    with s show ?thesis using handle_player_input_inv [OF i, of now pid inp] by auto
  next
    case (WeaponUse now pid wid target)
    with s show ?thesis using use_weapon_inv [OF i, of now pid wid target] same [of w]
      by (auto simp: handle_weapon_use_def)
  next
    case (RemovePlayer now pid)
    with s show ?thesis using remove_player_players [of now pid w] by auto
  next
    case (WeaponGenerate now fresh ai h pid prompt mid)
    with s show ?thesis using handle_weapon_generation_inv [OF i, of now fresh ai h pid prompt mid]
      by auto
  next
    case (MasterPrompt now rnd prompt)
    with s show ?thesis using same [of w'] by (auto simp: handle_master_prompt_def Let_def)
  next
    case (SchedulerPrompt now rnd prompt)
    with s show ?thesis using same [of w'] by (auto simp: master_prompt_scheduler_def Let_def)
  qed
qed

lemma lobby_reachable: "reachable lobby"
proof -
  have 0: "reachable (create_match 1000 ''a'')" by (rule reachable.created)
  have 1: "reachable (join_match ''b'' (create_match 1000 ''a''))"
    by (rule reachable.stepped [OF 0, of "FindMatch ''b''"]) simp
  show ?thesis
    unfolding lobby_def by (rule reachable.stepped [OF 1, of "StartMatch 1001"]) simp
qed

theorem health_invariant_witness:
  "reachable lobby \<and> healths lobby = [100, 100] \<and>
   step (PlayerInput 1002 ''a'' \<lparr>in_left = True, in_right = False, in_jump = False\<rparr>) lobby
     = Some (handle_player_input 1002 ''a'' \<lparr>in_left = True, in_right = False, in_jump = False\<rparr> lobby) \<and>
   health (players (wmatch
       (handle_player_input 1002 ''a'' \<lparr>in_left = True, in_right = False, in_jump = False\<rparr> lobby)) ! 1)
     \<le> 100"
proof -
  let ?inp = "\<lparr>in_left = True, in_right = False, in_jump = False\<rparr>"
  let ?w' = "handle_player_input 1002 ''a'' ?inp lobby"
  note T = health_invariant [OF lobby_reachable]
  have s: "step (PlayerInput 1002 ''a'' ?inp) lobby = Some ?w'" by simp
  have h: "healths lobby = [100, 100]"
    by (simp add: healths_def lobby_players new_player_def)
  from T [THEN conjunct2, THEN spec, THEN spec, THEN mp, OF s]
  have nr: "list_all2 not_raised (players (wmatch lobby)) (players (wmatch ?w'))" by simp
  have h1: "health (players (wmatch ?w') ! 1) \<le> 100"
    using list_all2_nthD [OF nr, of 1] by (simp add: lobby_players not_raised_def new_player_def)
  show ?thesis using lobby_reachable h s h1 by blast
qed

subsection \<open>The statistics of a generated weapon\<close>

lemma find_fire: "find_best_template ''fire sword'' = Some fire_sword"
  by (simp add: find_best_template_def weapon_templates_def best_step_def template_score_def
      split_def lower_def lower_char_def is_space_def fire_sword_def ice_spear_def
      lightning_hammer_def poison_dagger_def magic_shield_def explosive_bomb_def Let_def)

lemma templates_stats:
  "\<forall>t\<in>set weapon_templates.
     30 \<le> range_stat (t_properties t) \<and> range_stat (t_properties t) \<le> 180 \<and>
     1 \<le> ammo (t_properties t) \<and> ammo (t_properties t) \<le> 25 \<and>
     1500 \<le> cooldown (t_properties t) \<and> cooldown (t_properties t) \<le> 4800"
  by (simp add: weapon_templates_def fire_sword_def ice_spear_def lightning_hammer_def
      poison_dagger_def magic_shield_def explosive_bomb_def)

lemma foldl_best_step:
  "fst acc = None \<or> (\<exists>t\<in>set ts \<union> S. fst acc = Some t) \<Longrightarrow>
     fst (foldl (best_step prompt) acc ts) = None \<or>
     (\<exists>t\<in>set ts \<union> S. fst (foldl (best_step prompt) acc ts) = Some t)"
proof (induction ts arbitrary: acc S)
  case Nil
  then show ?case by simp
next
  case (Cons t ts)
  have "fst (best_step prompt acc t) = None \<or>
        (\<exists>u\<in>set ts \<union> (insert t S). fst (best_step prompt acc t) = Some u)"
    using Cons.prems by (auto simp: best_step_def Let_def)
  from Cons.IH [OF this] show ?case by auto
qed

lemma foldl_best_positive:
  "snd acc > 0 \<longrightarrow> fst acc \<noteq> None \<Longrightarrow>
     snd (foldl (best_step prompt) acc ts) > 0 \<longrightarrow> fst (foldl (best_step prompt) acc ts) \<noteq> None"
  by (induction ts arbitrary: acc) (auto simp: best_step_def Let_def)

lemma find_best_template_member:
  "\<exists>t\<in>set weapon_templates. find_best_template prompt = Some t"
proof -
  obtain bm bs where f: "foldl (best_step prompt) (None, 0) weapon_templates = (bm, bs)"
    by fastforce
  have "fst (foldl (best_step prompt) (None, 0) weapon_templates) = None \<or>
     (\<exists>t\<in>set weapon_templates \<union> {}.
        fst (foldl (best_step prompt) (None, 0) weapon_templates) = Some t)"
    by (rule foldl_best_step) simp
  then have 1: "bm = None \<or> (\<exists>t\<in>set weapon_templates. bm = Some t)" by (simp add: f)
  have 2: "fire_sword \<in> set weapon_templates" by (simp add: weapon_templates_def)
  have 3: "bs > 0 \<longrightarrow> bm \<noteq> None"
    using foldl_best_positive [of "(None, 0)" prompt weapon_templates] by (simp add: f)
  show ?thesis
    using 1 2 3 by (cases "bs > 0") (auto simp: find_best_template_def f)
qed

lemma generate_from_template_stats:
  "stats_ok (w_properties (generate_from_template now fresh h prompt pid))"
proof -
  obtain t where t: "t \<in> set weapon_templates" "find_best_template prompt = Some t"
    using find_best_template_member by blast
  then show ?thesis
    using templates_stats
    by (simp add: generate_from_template_def Let_def stats_ok_def)
qed

lemma emergency_stats: "stats_ok (w_properties (create_emergency_weapon now fresh pid))"
  by (simp add: create_emergency_weapon_def stats_ok_def)

lemma effect_multiplier_bounds: "0 < effect_multiplier e \<and> effect_multiplier e \<le> 13 / 10"
  by (simp add: effect_multiplier_def)

lemma clamp_properties_bounds:
  "15 \<le> damage (clamp_properties d) \<and> damage (clamp_properties d) \<le> 85 \<and>
   20 \<le> speed (clamp_properties d) \<and> speed (clamp_properties d) \<le> 95 \<and>
   30 \<le> range_stat (clamp_properties d) \<and> range_stat (clamp_properties d) \<le> 180 \<and>
   3 \<le> ammo (clamp_properties d) \<and> ammo (clamp_properties d) \<le> 25 \<and>
   1500 \<le> cooldown (clamp_properties d) \<and> cooldown (clamp_properties d) \<le> 4000"
  by (simp add: clamp_properties_def)

lemma power_upper:
  "(D::real) \<le> 20 \<Longrightarrow> S \<le> 95 \<Longrightarrow> R \<le> 180 \<Longrightarrow> 1500 \<le> C \<Longrightarrow>
   15 \<le> D \<Longrightarrow> 20 \<le> S \<Longrightarrow> 30 \<le> R \<Longrightarrow> C \<le> 4000 \<Longrightarrow>
   D / 100 * 0.4 + S / 100 * 0.3 + R / 200 * 0.2 + (5000 - C) / 5000 * 0.1 \<le> 615 / 1000"
  by argo

lemma power_lower:
  "(D::real) \<le> 20 \<Longrightarrow> S \<le> 95 \<Longrightarrow> R \<le> 180 \<Longrightarrow> 1500 \<le> C \<Longrightarrow>
   15 \<le> D \<Longrightarrow> 20 \<le> S \<Longrightarrow> 30 \<le> R \<Longrightarrow> C \<le> 4000 \<Longrightarrow>
   0 \<le> D / 100 * 0.4 + S / 100 * 0.3 + R / 200 * 0.2 + (5000 - C) / 5000 * 0.1"
  by argo

text \<open>A clamped weapon whose score exceeds 80 has a damage of at least 21.\<close>

lemma high_score_damage:
  assumes "20 \<le> speed p" "speed p \<le> 95" "30 \<le> range_stat p" "range_stat p \<le> 180"
    "1500 \<le> cooldown p" "cooldown p \<le> 4000" "15 \<le> damage p"
    "calculate_balance_score p > 80"
  shows "21 \<le> damage p"
proof (rule ccontr)
  assume "\<not> 21 \<le> damage p"
  then have d: "damage p \<le> 20" by simp
  define power where "power =
     real_of_int (damage p) / 100 * 0.4 + real_of_int (speed p) / 100 * 0.3
       + real_of_int (range_stat p) / 200 * 0.2
       + (5000 - real_of_int (cooldown p)) / 5000 * 0.1"
  have r: "real_of_int (damage p) \<le> 20" "real_of_int (speed p) \<le> 95"
    "real_of_int (range_stat p) \<le> 180" "1500 \<le> real_of_int (cooldown p)"
    "15 \<le> real_of_int (damage p)" "20 \<le> real_of_int (speed p)"
    "30 \<le> real_of_int (range_stat p)" "real_of_int (cooldown p) \<le> 4000"
    using assms d by simp_all
  have up: "power \<le> 615 / 1000" unfolding power_def using r by (rule power_upper)
  have lo: "0 \<le> power" unfolding power_def using r by (rule power_lower)
  have "power * effect_multiplier (special_effect p) \<le> power * (13 / 10)"
    using lo effect_multiplier_bounds by (intro mult_left_mono) simp_all
  also have "\<dots> \<le> 615 / 1000 * (13 / 10)" using up by simp
  finally have x: "power * effect_multiplier (special_effect p) * 100 \<le> 80" by simp
  have cs: "calculate_balance_score p =
      min 100 (max 0 (power * effect_multiplier (special_effect p) * 100))"
    unfolding calculate_balance_score_def Let_def power_def by (rule refl)
  have "min 100 (max 0 (power * effect_multiplier (special_effect p) * 100)) \<le> (80 :: real)"
    using x by (simp add: min_le_iff_disj)
  with assms(8) cs show False by simp
qed

lemma balance_adjust_stats:
  assumes "15 \<le> damage p" "damage p \<le> 85" "20 \<le> speed p" "speed p \<le> 95"
    "30 \<le> range_stat p" "range_stat p \<le> 180" "3 \<le> ammo p" "ammo p \<le> 25"
    "1500 \<le> cooldown p" "cooldown p \<le> 4000"
  shows "stats_ok (fst (balance_adjust p))"
proof (cases "calculate_balance_score p > 80")
  case False
  then show ?thesis using assms by (simp add: balance_adjust_def Let_def stats_ok_def)
next
  case True
  then have d: "21 \<le> damage p" using assms by (intro high_score_damage) simp_all
  have 1: "15 \<le> py_int (real_of_int (damage p) * 0.8)"
    using d by (simp add: py_int_def le_floor_iff)
  have 2: "py_int (real_of_int (damage p) * 0.8) \<le> 85"
    using assms d by (simp add: py_int_def floor_le_iff)
  have 3: "1500 \<le> py_int (real_of_int (cooldown p) * 1.2)"
    using assms by (simp add: py_int_def le_floor_iff)
  have 4: "py_int (real_of_int (cooldown p) * 1.2) \<le> 4800"
    using assms by (simp add: py_int_def floor_le_iff)
  show ?thesis
    using True assms 1 2 3 4
    by (simp add: balance_adjust_def Let_def stats_ok_def apply_balance_nerf_def)
qed

lemma generate_with_ai_stats:
  "generate_with_ai now fresh ai pid = Some x \<Longrightarrow> stats_ok (w_properties x)"
proof -
  assume a: "generate_with_ai now fresh ai pid = Some x"
  then obtain d where d: "ai = Some d" by (cases ai) (simp_all add: generate_with_ai_def)
  have "stats_ok (fst (balance_adjust (clamp_properties d)))"
    using clamp_properties_bounds [of d] by (intro balance_adjust_stats) simp_all
  then show ?thesis
    using a d by (auto simp: generate_with_ai_def Let_def split: prod.splits)
qed

text \<open>
  Claim C6, as the code has it. Every weapon returned by \<^verbatim>\<open>generate_weapon\<close> has damage in
  15 to 85, speed in 20 to 95 and range in 30 to 180. Its ammunition is in 1 to 25 and its
  cooldown in 1500 to 4800: the lower bound 3 of the ammunition and the upper bound 4000 of
  the cooldown are applied to the answer of the model only, before the nerf of
  \<^verbatim>\<open>_apply_balance_nerf\<close>, and not to a template. The cache starts empty and holds only
  weapons within these bounds, which is what a weapon answered from the cache needs. The
  same holds of each of the three ways a weapon is made: from the model, from a template,
  and the emergency weapon.
\<close>

theorem generated_weapon_stats:
  "(cache_stats_ok cache \<and> generate_weapon now fresh ai h prompt pid cache = (Some x, cache') \<longrightarrow>
      stats_ok (w_properties x) \<and> cache_stats_ok cache') \<and>
   (generate_with_ai now fresh ai pid = Some y \<longrightarrow> stats_ok (w_properties y)) \<and>
   stats_ok (w_properties (generate_from_template now fresh h prompt pid)) \<and>
   stats_ok (w_properties (create_emergency_weapon now fresh pid)) \<and>
   cache_stats_ok Map.empty"
proof (intro conjI impI)
  assume a: "cache_stats_ok cache \<and> generate_weapon now fresh ai h prompt pid cache = (Some x, cache')"
  then show "stats_ok (w_properties x)"
    using generate_with_ai_stats [of now fresh ai pid]
      generate_from_template_stats [of now fresh h "lower (strip prompt)" pid]
    by (auto simp: generate_weapon_def Let_def cache_stats_ok_def split: if_splits option.splits)
  from a show "cache_stats_ok cache'"
    using generate_with_ai_stats [of now fresh ai pid]
      generate_from_template_stats [of now fresh h "lower (strip prompt)" pid]
    by (auto simp: generate_weapon_def Let_def cache_stats_ok_def split: if_splits option.splits)
next
  assume "generate_with_ai now fresh ai pid = Some y"
  then show "stats_ok (w_properties y)" by (rule generate_with_ai_stats)
next
  show "stats_ok (w_properties (generate_from_template now fresh h prompt pid))"
    by (rule generate_from_template_stats)
  show "stats_ok (w_properties (create_emergency_weapon now fresh pid))"
    by (rule emergency_stats)
  show "cache_stats_ok Map.empty" by (simp add: cache_stats_ok_def)
qed

text \<open>
  The bounds of the claim fail on both paths. From the template \<open>Fire Sword\<close> the ammunition
  is 1, below 3. From an answer of the model with damage 85, speed 95, range 180 and cooldown
  4000 the balance score is 82.5, the nerf applies, and the cooldown is 4800, above 4000.
\<close>

lemma strip_fire_sword: "strip ''fire sword'' = ''fire sword''"
  by (simp add: strip_def is_space_def)

lemma lower_fire_sword: "lower ''fire sword'' = ''fire sword''"
  by (simp add: lower_def lower_char_def)

lemma template_fire_sword:
  "weapon_stats (generate_from_template now fresh 10 ''fire sword'' pid) = [65, 70, 40, 1, 2000]"
  by (simp add: generate_from_template_def find_fire fire_sword_def weapon_stats_def Let_def)

lemma generate_fire_sword:
  "generate_weapon now fresh None 10 ''fire sword'' pid Map.empty =
     (Some (generate_from_template now fresh 10 ''fire sword'' pid),
      [''fire sword'' \<mapsto> (generate_from_template now fresh 10 ''fire sword'' pid)
         \<lparr>w_id := ''template'', w_player_id := ''template''\<rparr>])"
  by (simp add: generate_weapon_def strip_fire_sword lower_fire_sword generate_with_ai_def Let_def)

lemma strong_clamp: "clamp_properties strong_answer = strong_clamped"
  by (simp add: clamp_properties_def strong_answer_def opt_get_def strong_clamped_def)

lemma strong_score: "calculate_balance_score strong_clamped = 165 / 2"
  by (simp add: calculate_balance_score_def strong_clamped_def effect_multiplier_def Let_def)

lemma strong_adjust:
  "fst (balance_adjust strong_clamped) = \<lparr>damage = 68, speed = 95, range_stat = 180, ammo = 10,
     cooldown = 4800, special_effect = ''none''\<rparr>"
proof -
  have "balance_adjust strong_clamped =
      (apply_balance_nerf strong_clamped, calculate_balance_score (apply_balance_nerf strong_clamped))"
    by (simp add: balance_adjust_def strong_score Let_def)
  then show ?thesis
    by (simp add: apply_balance_nerf_def strong_clamped_def py_int_def)
qed

lemma strong_nerfed:
  "map_option weapon_stats (generate_with_ai now fresh (Some strong_answer) pid)
     = Some [68, 95, 180, 10, 4800]"
proof -
  obtain p s where b: "balance_adjust strong_clamped = (p, s)"
    by (cases "balance_adjust strong_clamped")
  then have "p = \<lparr>damage = 68, speed = 95, range_stat = 180, ammo = 10,
     cooldown = 4800, special_effect = ''none''\<rparr>"
    using strong_adjust by simp
  then show ?thesis
    by (simp add: generate_with_ai_def strong_clamp b weapon_stats_def)
qed

theorem generated_weapon_stats_counterexample:
  "map_option weapon_stats (fst (generate_weapon 1002 ''u1'' None 10 ''fire sword'' ''a'' Map.empty))
     = Some [65, 70, 40, 1, 2000]
   \<and> map_option weapon_stats
       (fst (generate_weapon 1002 ''u1'' (Some strong_answer) 10 ''fire sword'' ''a'' Map.empty))
     = Some [68, 95, 180, 10, 4800]"
proof -
  have 1: "map_option weapon_stats
      (fst (generate_weapon 1002 ''u1'' None 10 ''fire sword'' ''a'' Map.empty))
     = Some [65, 70, 40, 1, 2000]"
    by (simp add: generate_fire_sword template_fire_sword)
  have "fst (generate_weapon 1002 ''u1'' (Some strong_answer) 10 ''fire sword'' ''a'' Map.empty)
      = generate_with_ai 1002 ''u1'' (Some strong_answer) ''a''"
    by (cases "generate_with_ai 1002 ''u1'' (Some strong_answer) ''a''")
       (simp_all add: generate_weapon_def strip_fire_sword lower_fire_sword Let_def
          generate_with_ai_def split: prod.splits)
  then have 2: "map_option weapon_stats
       (fst (generate_weapon 1002 ''u1'' (Some strong_answer) 10 ''fire sword'' ''a'' Map.empty))
     = Some [68, 95, 180, 10, 4800]"
    by (simp add: strong_nerfed)
  show ?thesis using 1 2 by blast
qed

theorem generated_weapon_stats_witness:
  "fst (generate_weapon 1002 ''u1'' None 10 ''fire sword'' ''a'' Map.empty)
     = Some (generate_from_template 1002 ''u1'' 10 ''fire sword'' ''a'')
   \<and> stats_ok (w_properties (generate_from_template 1002 ''u1'' 10 ''fire sword'' ''a''))
   \<and> weapon_stats (generate_from_template 1002 ''u1'' 10 ''fire sword'' ''a'') = [65, 70, 40, 1, 2000]
   \<and> map_option weapon_stats (generate_with_ai 1002 ''u1'' (Some strong_answer) ''a'')
       = Some [68, 95, 180, 10, 4800]
   \<and> stats_ok \<lparr>damage = 68, speed = 95, range_stat = 180, ammo = 10, cooldown = 4800,
         special_effect = ''none''\<rparr>"
proof -
  let ?x = "generate_from_template 1002 ''u1'' 10 ''fire sword'' ''a''"
  let ?c = "[''fire sword'' \<mapsto> ?x\<lparr>w_id := ''template'', w_player_id := ''template''\<rparr>]"
  let ?p = "\<lparr>damage = 68, speed = 95, range_stat = 180, ammo = 10, cooldown = 4800,
         special_effect = ''none''\<rparr>"
  let ?y = "\<lparr>w_id = ''u1'', w_category = PROJECTILE, w_properties = ?p,
      w_generated_at = 1002, w_balance_score = snd (balance_adjust strong_clamped),
      w_player_id = ''a''\<rparr>"
  have g: "generate_weapon 1002 ''u1'' None 10 ''fire sword'' ''a'' Map.empty = (Some ?x, ?c)"
    by (rule generate_fire_sword)
  have e: "cache_stats_ok Map.empty" by (simp add: cache_stats_ok_def)
  obtain q s where b: "balance_adjust strong_clamped = (q, s)"
    by (cases "balance_adjust strong_clamped")
  then have q: "q = ?p" using strong_adjust by simp
  have c: "parse_category (lower (opt_get (ai_category strong_answer) ''projectile'')) = PROJECTILE"
    by (simp add: strong_answer_def opt_get_def parse_category_def lower_def lower_char_def)
  have a: "generate_with_ai 1002 ''u1'' (Some strong_answer) ''a'' = Some ?y"
    by (simp add: generate_with_ai_def strong_clamp b q c)
  note T = generated_weapon_stats [where cache = Map.empty and now = 1002 and fresh = "''u1''"
      and ai = None and h = 10 and prompt = "''fire sword''" and pid = "''a''" and x = ?x
      and cache' = ?c]
  have 1: "stats_ok (w_properties ?x)"
    using T [THEN conjunct1] e g by blast
  note U = generated_weapon_stats [where now = 1002 and fresh = "''u1''"
      and ai = "Some strong_answer" and pid = "''a''" and y = ?y]
  have 2: "stats_ok (w_properties ?y)"
    using U [THEN conjunct2, THEN conjunct1] a by blast
  show ?thesis
    using 1 2 g by (simp add: template_fire_sword strong_nerfed)
qed

end
